theory Spec2Isabelle
  imports Main
begin

section \<open>Go library functions used by the proxy\<close>

text \<open>
  Go strings are byte sequences; they are modelled as \<open>string\<close> (a list of 8-bit
  \<open>char\<close>). The functions of this section are the parts of the Go standard library
  (\<open>strings\<close>, \<open>bytes\<close>, \<open>strconv\<close>) that the proxy calls, written as recursive
  functions over bytes.
\<close>

type_synonym bytes = string

text \<open>The bytes \<open>\r\n\<close> that end a RESP line.\<close>

definition CRLF :: bytes where
  "CRLF = [CHR 0x0D, CHR 0x0A]"

text \<open>\<open>strings.HasPrefix\<close> / \<open>bytes.HasPrefix\<close>.\<close>

definition HasPrefix :: "bytes \<Rightarrow> bytes \<Rightarrow> bool" where
  "HasPrefix s pre = (take (length pre) s = pre)"

text \<open>\<open>strings.Contains(s, substr)\<close>.\<close>

fun strings_Contains :: "string \<Rightarrow> string \<Rightarrow> bool" where
  "strings_Contains [] sub = (sub = [])"
| "strings_Contains (c # cs) sub = (HasPrefix (c # cs) sub \<or> strings_Contains cs sub)"

text \<open>
  White space as \<open>unicode.IsSpace\<close> sees it in a UTF-8 byte string: the six ASCII
  characters \<open>\t \n \v \f \r\<close> and space, and the encodings of U+0085, U+00A0, U+1680,
  U+2000..U+200A, U+2028, U+2029, U+202F, U+205F and U+3000. \<open>space_width s\<close> is the
  number of bytes of the white-space character that starts \<open>s\<close>, and 0 when \<open>s\<close> does
  not start with one. Every one of these encodings starts with a byte that is never a
  UTF-8 continuation byte, so scanning byte by byte finds the same characters as
  decoding rune by rune.
\<close>

definition asciiSpace :: "char \<Rightarrow> bool" where
  "asciiSpace c = (c = CHR 0x09 \<or> c = CHR 0x0A \<or> c = CHR 0x0B \<or> c = CHR 0x0C
                   \<or> c = CHR 0x0D \<or> c = CHR 0x20)"

fun space_width :: "string \<Rightarrow> nat" where
  "space_width [] = 0"
| "space_width (c # cs) =
     (if asciiSpace c then 1
      else if c = CHR 0xC2 then
        (case cs of
           d # _ \<Rightarrow> if d = CHR 0x85 \<or> d = CHR 0xA0 then 2 else 0
         | [] \<Rightarrow> 0)
      else if c = CHR 0xE1 then (if take 2 cs = [CHR 0x9A, CHR 0x80] then 3 else 0)
      else if c = CHR 0xE2 then
        (case cs of
           d # e # _ \<Rightarrow>
             if d = CHR 0x80 \<and> (((0x80::nat) \<le> of_char e \<and> (of_char e :: nat) \<le> 0x8A)
                               \<or> e = CHR 0xA8 \<or> e = CHR 0xA9 \<or> e = CHR 0xAF) then 3
             else if d = CHR 0x81 \<and> e = CHR 0x9F then 3
             else 0
         | _ \<Rightarrow> 0)
      else if c = CHR 0xE3 then (if take 2 cs = [CHR 0x80, CHR 0x80] then 3 else 0)
      else 0)"

text \<open>
  \<open>strings.Fields(s)\<close>: the maximal runs of non-white-space bytes of \<open>s\<close>, in order.
  \<open>fields_go skip cur rest\<close> scans \<open>rest\<close>; \<open>cur\<close> is the field being collected and
  \<open>skip\<close> counts the remaining bytes of a multi-byte separator.
\<close>

fun fields_go :: "nat \<Rightarrow> string \<Rightarrow> string \<Rightarrow> string list" where
  "fields_go skip cur [] = (if cur = [] then [] else [cur])"
| "fields_go skip cur (c # cs) =
     (if 0 < skip then fields_go (skip - 1) cur cs
      else if 0 < space_width (c # cs)
        then (if cur = [] then [] else [cur]) @ fields_go (space_width (c # cs) - 1) [] cs
        else fields_go 0 (cur @ [c]) cs)"

definition strings_Fields :: "string \<Rightarrow> string list" where
  "strings_Fields s = fields_go 0 [] s"

text \<open>
  \<open>strconv.Atoi(s)\<close> on a 64-bit platform: an optional sign, then one or more decimal
  digits, and the value must fit an \<open>int\<close> (64 bits); anything else is an error
  (\<open>None\<close>).
\<close>

definition digit_of :: "char \<Rightarrow> int option" where
  "digit_of c = (let b = (of_char c :: int) in
                 if 48 \<le> b \<and> b \<le> 57 then Some (b - 48) else None)"

fun digits_value :: "int \<Rightarrow> string \<Rightarrow> int option" where
  "digits_value acc [] = Some acc"
| "digits_value acc (c # cs) =
     (case digit_of c of
        None \<Rightarrow> None
      | Some d \<Rightarrow> digits_value (10 * acc + d) cs)"

definition strconv_Atoi :: "string \<Rightarrow> int option" where
  "strconv_Atoi s =
     (let neg = (s \<noteq> [] \<and> hd s = CHR ''-'');
          ds = (if s \<noteq> [] \<and> (hd s = CHR ''-'' \<or> hd s = CHR ''+'') then tl s else s)
      in if ds = [] then None
         else case digits_value 0 ds of
                None \<Rightarrow> None
              | Some n \<Rightarrow>
                  (let v = (if neg then - n else n)
                   in if - (2 ^ 63) \<le> v \<and> v < 2 ^ 63 then Some v else None))"

section \<open>Redirect messages\<close>

text \<open>
  A call either returns a value, ends the process, or never returns: \<open>glog.Fatalf\<close> logs
  its message and exits, a run-time panic that nobody recovers (an index out of range, a
  nil dereference, a send on a closed channel) ends the process too, and a send on a nil
  channel blocks for ever. Nothing after any of these runs.
\<close>

datatype 'a outcome = ProcessExit string | Panic string | Blocks string | Returned 'a

text \<open>Sequencing: the second step runs on the value the first one returned.\<close>

definition and_then :: "'a outcome \<Rightarrow> ('a \<Rightarrow> 'b outcome) \<Rightarrow> 'b outcome" where
  "and_then m f =
     (case m of
        Returned x \<Rightarrow> f x
      | ProcessExit e \<Rightarrow> ProcessExit e
      | Panic e \<Rightarrow> Panic e
      | Blocks e \<Rightarrow> Blocks e)"

text \<open>
  \<open>ParseRedirectInfo(msg)\<close>, session source lines 434-447: the fields of the message,
  the second one read as the slot number, the third the server.
\<close>

definition ParseRedirectInfo :: "string \<Rightarrow> (int \<times> string) outcome" where
  "ParseRedirectInfo msg =
     (let parts = strings_Fields msg
      in if length parts \<noteq> 3 then ProcessExit (''invalid redirect message: '' @ msg)
         else case strconv_Atoi (parts ! 1) of
                None \<Rightarrow> ProcessExit (''invalid redirect message: '' @ msg)
              | Some slot \<Rightarrow> Returned (slot, parts ! 2))"

section \<open>More string functions\<close>

text \<open>
  \<open>strings.SplitN(s, sep, n)\<close> for a one-byte separator and \<open>n \<ge> 1\<close>: at most \<open>n\<close> pieces,
  the last one the unsplit rest. \<open>strings.Split(s, sep)\<close> is \<open>SplitN\<close> with
  \<open>n = Count(s, sep) + 1\<close>, as in Go's \<open>genSplit\<close>.
\<close>

fun split_go :: "char \<Rightarrow> nat \<Rightarrow> string \<Rightarrow> string \<Rightarrow> string list" where
  "split_go sep n cur [] = [cur]"
| "split_go sep n cur (c # cs) =
     (if c = sep \<and> 1 < n then cur # split_go sep (n - 1) [] cs
      else split_go sep n (cur @ [c]) cs)"

definition strings_SplitN :: "string \<Rightarrow> char \<Rightarrow> nat \<Rightarrow> string list" where
  "strings_SplitN s sep n = split_go sep n [] s"

definition strings_Split :: "string \<Rightarrow> char \<Rightarrow> string list" where
  "strings_Split s sep = strings_SplitN s sep (count_list s sep + 1)"

text \<open>\<open>strings.Join(elems, sep)\<close>.\<close>

fun strings_Join :: "string list \<Rightarrow> string \<Rightarrow> string" where
  "strings_Join [] sep = []"
| "strings_Join [x] sep = x"
| "strings_Join (x # y # ys) sep = x @ sep @ strings_Join (y # ys) sep"

text \<open>
  \<open>strings.TrimSpace(s)\<close>: \<open>s\<close> without its leading and trailing white space.
  \<open>trim_go w skip s\<close> drops white-space characters from the front of \<open>s\<close>, where \<open>w\<close>
  gives the width of the one at the head; the trailing ones are dropped on the reversed
  string, where \<open>space_width_back\<close> recognises a white-space character by its last
  one, two or three bytes.
\<close>

fun trim_go :: "(string \<Rightarrow> nat) \<Rightarrow> nat \<Rightarrow> string \<Rightarrow> string" where
  "trim_go w skip [] = []"
| "trim_go w skip (c # cs) =
     (if 0 < skip then trim_go w (skip - 1) cs
      else if 0 < w (c # cs) then trim_go w (w (c # cs) - 1) cs
      else c # cs)"

definition space_width_back :: "string \<Rightarrow> nat" where
  "space_width_back r =
     (if 1 \<le> length r \<and> space_width (rev (take 1 r)) = 1 then 1
      else if 2 \<le> length r \<and> space_width (rev (take 2 r)) = 2 then 2
      else if 3 \<le> length r \<and> space_width (rev (take 3 r)) = 3 then 3
      else 0)"

definition strings_TrimSpace :: "string \<Rightarrow> string" where
  "strings_TrimSpace s = rev (trim_go space_width_back 0 (rev (trim_go space_width 0 s)))"

section \<open>Dispatcher: topology reload\<close>

text \<open>A Go \<open>error\<close> value is modelled by its message.\<close>

type_synonym error = string

definition READ_PREFER_MASTER :: int where "READ_PREFER_MASTER = 0"
definition READ_PREFER_SLAVE :: int where "READ_PREFER_SLAVE = 1"
definition READ_PREFER_SLAVE_IDC :: int where "READ_PREFER_SLAVE_IDC = 2"

definition CLUSTER_NODES_FIELD_NUM_IP_PORT :: nat where "CLUSTER_NODES_FIELD_NUM_IP_PORT = 1"
definition CLUSTER_NODES_FIELD_NUM_FLAGS :: nat where "CLUSTER_NODES_FIELD_NUM_FLAGS = 2"
definition CLUSTER_NODES_FIELD_SPLIT_NUM :: nat where "CLUSTER_NODES_FIELD_SPLIT_NUM = 4"

text \<open>
  \<open>SlotInfo\<close> is declared elsewhere in the package; \<open>doReload\<close> reads and writes its
  fields \<open>write\<close> (the master's endpoint) and \<open>read\<close> (the endpoints read commands go
  to; the replicas, as \<open>NewSlotInfo\<close> fills it from \<open>CLUSTER SLOTS\<close>). The fields carry
  the prefix \<open>si_\<close> here.
\<close>

record SlotInfo =
  si_start :: int
  si_end :: int
  si_write :: string
  si_read :: "string list"

text \<open>
  A buffered channel of \<open>struct{}\<close>: only the number of queued values matters.
  \<open>make_chan n\<close> is \<open>make(chan struct{}, n)\<close>.
\<close>

record sigchan =
  queued :: nat
  capacity :: nat
  is_closed :: bool

definition make_chan :: "nat \<Rightarrow> sigchan" where
  "make_chan n = \<lparr>queued = 0, capacity = n, is_closed = False\<rparr>"

text \<open>
  The dispatcher, dispatcher.go lines 47-72, with the fields the functions below use.
  Durations are in milliseconds.
\<close>

record Dispatcher =
  startupNodes :: "string list"
  slotReloadInterval :: nat
  slotReloadChan :: sigchan
  readPrefer :: int

definition NewDispatcher :: "string list \<Rightarrow> nat \<Rightarrow> int \<Rightarrow> Dispatcher" where
  "NewDispatcher nodes interval prefer =
     \<lparr>startupNodes = nodes, slotReloadInterval = interval,
      slotReloadChan = make_chan 1, readPrefer = prefer\<rparr>"

text \<open>
  The loop over the lines of \<open>CLUSTER NODES\<close>, dispatcher.go lines 192-204. A line with
  fewer than three fields makes \<open>elements[2]\<close> panic (\<open>None\<close>).
\<close>

fun aliveNodes_loop :: "string list \<Rightarrow> string set \<Rightarrow> string set option" where
  "aliveNodes_loop [] aliveNodes = Some aliveNodes"
| "aliveNodes_loop (line # lines) aliveNodes =
     (let elements = strings_SplitN line (CHR '' '') CLUSTER_NODES_FIELD_SPLIT_NUM
      in if length elements \<le> CLUSTER_NODES_FIELD_NUM_FLAGS then None
         else if \<not> strings_Contains (elements ! CLUSTER_NODES_FIELD_NUM_FLAGS) ''fail''
           then aliveNodes_loop lines
                  (insert (elements ! CLUSTER_NODES_FIELD_NUM_IP_PORT) aliveNodes)
           else aliveNodes_loop lines aliveNodes)"

text \<open>
  The prefix computed from \<open>LocalIP()\<close>, dispatcher.go lines 209-214. \<open>LocalIP\<close> is
  declared elsewhere; its result is the parameter \<open>localIP\<close>. \<open>segments[:2]\<close> of a
  one-element result of \<open>SplitN\<close> reslices into the backing array, whose second
  element is the empty string.
\<close>

definition localIPPrefix_of :: "string \<Rightarrow> string" where
  "localIPPrefix_of localIP =
     (if 0 < length localIP
      then (let segments = strings_SplitN localIP (CHR ''.'') 3
            in strings_Join (take 2 (segments @ [[]])) ''.'' @ ''.'')
      else localIP)"

text \<open>The inner loop over \<open>si.read\<close>, dispatcher.go lines 216-229.\<close>

fun readNodes_loop :: "int \<Rightarrow> string \<Rightarrow> string set \<Rightarrow> string list \<Rightarrow> string list
                        \<Rightarrow> string list" where
  "readNodes_loop prefer localIPPrefix aliveNodes [] readNodes = readNodes"
| "readNodes_loop prefer localIPPrefix aliveNodes (node # nodes) readNodes =
     (if node \<notin> aliveNodes
        then readNodes_loop prefer localIPPrefix aliveNodes nodes readNodes
      else if prefer = READ_PREFER_SLAVE_IDC \<and> \<not> HasPrefix node localIPPrefix
        then readNodes_loop prefer localIPPrefix aliveNodes nodes readNodes
      else readNodes_loop prefer localIPPrefix aliveNodes nodes (readNodes @ [node]))"

text \<open>The body of the loop over \<open>slotInfos\<close>, dispatcher.go lines 205-235.\<close>

definition rewrite_read :: "int \<Rightarrow> string \<Rightarrow> string set \<Rightarrow> SlotInfo \<Rightarrow> SlotInfo" where
  "rewrite_read prefer localIP aliveNodes si =
     (if prefer = READ_PREFER_MASTER then si\<lparr>si_read := [si_write si]\<rparr>
      else if prefer = READ_PREFER_SLAVE \<or> prefer = READ_PREFER_SLAVE_IDC then
        (let readNodes = readNodes_loop prefer (localIPPrefix_of localIP) aliveNodes (si_read si) []
         in si\<lparr>si_read := (if length readNodes = 0 then [si_write si] else readNodes)\<rparr>)
      else si)"

text \<open>
  What the network does during one \<open>doReload\<close>: the result of the dial, of the two
  writes and of the two reads. \<open>slots_reply\<close> is the reply to \<open>CLUSTER SLOTS\<close> after
  \<open>NewSlotInfo\<close> has turned each array element into a \<open>SlotInfo\<close>; \<open>nodes_reply\<close> is
  the text of the reply to \<open>CLUSTER NODES\<close>.
\<close>

record ReloadIO =
  conn_res :: "error option"
  slots_write :: "error option"
  slots_reply :: "error + SlotInfo list"
  nodes_write :: "error option"
  nodes_reply :: "error + string"

text \<open>
  \<open>doReload\<close>, dispatcher.go lines 153-237. The function has the named results
  \<open>(slotInfos, err)\<close>, so an error after \<open>CLUSTER SLOTS\<close> was read returns the
  unfiltered list together with the error.
\<close>

definition doReload :: "Dispatcher \<Rightarrow> string \<Rightarrow> ReloadIO
                        \<Rightarrow> (SlotInfo list \<times> error option) outcome" where
  "doReload d localIP io =
     (case conn_res io of Some e \<Rightarrow> Returned ([], Some e) | None \<Rightarrow>
      case slots_write io of Some e \<Rightarrow> Returned ([], Some e) | None \<Rightarrow>
      case slots_reply io of Inl e \<Rightarrow> Returned ([], Some e) | Inr slotInfos \<Rightarrow>
      case nodes_write io of Some e \<Rightarrow> Returned (slotInfos, Some e) | None \<Rightarrow>
      case nodes_reply io of Inl e \<Rightarrow> Returned (slotInfos, Some e) | Inr txt \<Rightarrow>
      case aliveNodes_loop (strings_Split (strings_TrimSpace txt) (CHR 0x0A)) {} of
        None \<Rightarrow> Panic ''index out of range''
      | Some aliveNodes \<Rightarrow>
          Returned (map (rewrite_read (readPrefer d) localIP aliveNodes) slotInfos, None))"

text \<open>
  The lines of a \<open>CLUSTER NODES\<close> reply as \<open>doReload\<close> splits them, and the nodes it
  takes to be alive: a node is alive when some line carries its endpoint in field 1 and
  flags (field 2) without the substring \<open>fail\<close>.
\<close>

definition cluster_nodes_lines :: "string \<Rightarrow> string list" where
  "cluster_nodes_lines ntext = strings_Split (strings_TrimSpace ntext) (CHR 0x0A)"

definition node_alive :: "string list \<Rightarrow> string \<Rightarrow> bool" where
  "node_alive lines node =
     list_ex (\<lambda>line. let elements = strings_SplitN line (CHR '' '') 4
                      in elements ! 1 = node \<and> \<not> strings_Contains (elements ! 2) ''fail'') lines"

text \<open>A small cluster for evaluation: one master, two live replicas, one failed replica.\<close>

definition sample_nodes_text :: string where
  "sample_nodes_text =
     ''a1 10.4.0.1:7000 myself,master - 0 0 1 connected 0-16383'' @ [CHR 0x0A] @
     ''b2 10.4.0.2:7000 slave a1 0 1440042315188 2 connected'' @ [CHR 0x0A] @
     ''c3 10.9.0.3:7000 slave a1 0 1440042315188 2 connected'' @ [CHR 0x0A] @
     ''d4 10.4.0.4:7000 slave,fail a1 0 1440042315188 2 connected'' @ [CHR 0x0A]"

definition sample_slot :: SlotInfo where
  "sample_slot = \<lparr>si_start = 0, si_end = 16383, si_write = ''10.4.0.1:7000'',
     si_read = [''10.4.0.2:7000'', ''10.9.0.3:7000'', ''10.4.0.4:7000'']\<rparr>"

definition sample_reload_io :: ReloadIO where
  "sample_reload_io = \<lparr>conn_res = None, slots_write = None, slots_reply = Inr [sample_slot],
     nodes_write = None, nodes_reply = Inr sample_nodes_text\<rparr>"

section \<open>Dispatcher: reload signal and reload loop\<close>

text \<open>
  A send on a buffered channel: it panics on a closed channel, is ready while the buffer
  has room (or a receiver waits, which for the loop below is the case only when the buffer
  is empty), and would block otherwise.
\<close>

datatype 'a attempt = WouldBlock | Ready 'a

definition try_send :: "sigchan \<Rightarrow> sigchan attempt outcome" where
  "try_send ch =
     (if is_closed ch then Panic ''send on closed channel''
      else if queued ch < capacity ch then Returned (Ready (ch\<lparr>queued := queued ch + 1\<rparr>))
      else Returned WouldBlock)"

text \<open>
  \<open>TriggerReloadSlots\<close>, dispatcher.go lines 242-247: a \<open>select\<close> with one send case
  and a \<open>default\<close> case, which is taken when the send would block.
\<close>

datatype send_result = Sent | Dropped

definition TriggerReloadSlots :: "Dispatcher \<Rightarrow> (Dispatcher \<times> send_result) outcome" where
  "TriggerReloadSlots d =
     (case try_send (slotReloadChan d) of
        Returned (Ready ch) \<Rightarrow> Returned (d\<lparr>slotReloadChan := ch\<rparr>, Sent)
      | Returned WouldBlock \<Rightarrow> Returned (d, Dropped)
      | Panic m \<Rightarrow> Panic m
      | ProcessExit m \<Rightarrow> ProcessExit m
      | Blocks m \<Rightarrow> Blocks m)"

text \<open>
  The reload loop runs against a schedule of \<open>TriggerReloadSlots\<close> calls made by the
  sessions: \<open>upcoming\<close> holds their times in ascending order. \<open>reloaded\<close> records each call
  of \<open>reloadTopology\<close> with its cause and time; the call itself and the hand-over of its
  result on \<open>slotInfoChan\<close> are taken to need no time.
\<close>

datatype reload_cause = ByRequest | Periodic

record LoopState =
  clock :: nat
  disp :: Dispatcher
  upcoming :: "nat list"
  reloaded :: "(reload_cause \<times> nat) list"

text \<open>The calls of \<open>TriggerReloadSlots\<close> scheduled up to time \<open>T\<close>.\<close>

fun deliver :: "nat \<Rightarrow> Dispatcher \<Rightarrow> nat list \<Rightarrow> (Dispatcher \<times> nat list) outcome" where
  "deliver T d [] = Returned (d, [])"
| "deliver T d (t # ts) =
     (if T < t then Returned (d, t # ts)
      else case TriggerReloadSlots d of
             Returned (d', r) \<Rightarrow> deliver T d' ts
           | Panic m \<Rightarrow> Panic m
           | ProcessExit m \<Rightarrow> ProcessExit m
           | Blocks m \<Rightarrow> Blocks m)"

definition periodicReloadInterval :: nat where
  "periodicReloadInterval = 60 * 1000"

text \<open>
  The \<open>select\<close> of the loop body, dispatcher.go lines 113-132, entered at time
  \<open>clock st\<close>. A queued signal is received at once; on a closed and empty channel the
  receive yields \<open>ok = false\<close> and the function returns (the flag \<open>False\<close>); otherwise the
  body waits for the next \<open>TriggerReloadSlots\<close> or for the 60 s timer, whichever comes
  first.
\<close>

definition reload_select :: "LoopState \<Rightarrow> (LoopState \<times> bool) outcome" where
  "reload_select st =
     (case deliver (clock st) (disp st) (upcoming st) of
        Panic m \<Rightarrow> Panic m
      | ProcessExit m \<Rightarrow> ProcessExit m
      | Blocks m \<Rightarrow> Blocks m
      | Returned (d, ts) \<Rightarrow>
          (let ch = slotReloadChan d
           in if 0 < queued ch then
                Returned (st\<lparr>disp := d\<lparr>slotReloadChan := ch\<lparr>queued := queued ch - 1\<rparr>\<rparr>,
                             upcoming := ts,
                             reloaded := reloaded st @ [(ByRequest, clock st)]\<rparr>, True)
              else if is_closed ch then Returned (st\<lparr>disp := d, upcoming := ts\<rparr>, False)
              else (case ts of
                      t # ts' \<Rightarrow>
                        if t < clock st + periodicReloadInterval
                        then Returned (st\<lparr>clock := t, disp := d, upcoming := ts',
                                          reloaded := reloaded st @ [(ByRequest, t)]\<rparr>, True)
                        else Returned (st\<lparr>clock := clock st + periodicReloadInterval,
                                          disp := d, upcoming := ts,
                                          reloaded := reloaded st
                                            @ [(Periodic, clock st + periodicReloadInterval)]\<rparr>, True)
                    | [] \<Rightarrow>
                        Returned (st\<lparr>clock := clock st + periodicReloadInterval,
                                     disp := d, upcoming := ts,
                                     reloaded := reloaded st
                                       @ [(Periodic, clock st + periodicReloadInterval)]\<rparr>, True))))"

text \<open>
  A timer channel, by the times at which the runtime sends on it and whether it is ever
  closed. \<open>time.After(d)\<close> sends one value, \<open>d\<close> after the call, and is never closed.
\<close>

record timer_chan =
  fires :: "nat list"
  closes :: bool

definition time_After :: "nat \<Rightarrow> nat \<Rightarrow> timer_chan" where
  "time_After now d = \<lparr>fires = [now + d], closes = False\<rparr>"

text \<open>
  \<open>for range ch { body }\<close>: the body runs once for each value received from the channel.
  The flag of the result is \<open>False\<close> when the body returned from the function.
\<close>

fun range_timer :: "nat list \<Rightarrow> LoopState \<Rightarrow> (LoopState \<times> bool) outcome" where
  "range_timer [] st = Returned (st, True)"
| "range_timer (f # fs) st =
     (case reload_select (st\<lparr>clock := max (clock st) f\<rparr>) of
        Returned (st', True) \<Rightarrow> range_timer fs st'
      | Returned (st', False) \<Rightarrow> Returned (st', False)
      | Panic m \<Rightarrow> Panic m
      | ProcessExit m \<Rightarrow> ProcessExit m
      | Blocks m \<Rightarrow> Blocks m)"

text \<open>
  How the goroutine ends: it returned, or it waits for ever for a value that the timer
  channel never sends.
\<close>

datatype loop_end = Exited | BlockedForever

fun deliver_rest :: "Dispatcher \<Rightarrow> nat list \<Rightarrow> Dispatcher outcome" where
  "deliver_rest d [] = Returned d"
| "deliver_rest d (t # ts) =
     (case TriggerReloadSlots d of
        Returned (d', r) \<Rightarrow> deliver_rest d' ts
      | Panic m \<Rightarrow> Panic m
      | ProcessExit m \<Rightarrow> ProcessExit m
      | Blocks m \<Rightarrow> Blocks m)"

text \<open>
  \<open>slotsReloadLoop\<close>, dispatcher.go lines 110-134, started at time 0 against the
  schedule \<open>triggers\<close>. Once the timer channel has delivered all its values and is not
  closed, the \<open>range\<close> blocks; the remaining triggers still reach the signal channel.
\<close>

definition slotsReloadLoop :: "Dispatcher \<Rightarrow> nat list \<Rightarrow> (LoopState \<times> loop_end) outcome" where
  "slotsReloadLoop d triggers =
     (let tc = time_After 0 (slotReloadInterval d);
          st0 = \<lparr>clock = 0, disp = d, upcoming = triggers, reloaded = []\<rparr>
      in case range_timer (fires tc) st0 of
           Panic m \<Rightarrow> Panic m
         | ProcessExit m \<Rightarrow> ProcessExit m
         | Blocks m \<Rightarrow> Blocks m
         | Returned (st, False) \<Rightarrow> Returned (st, Exited)
         | Returned (st, True) \<Rightarrow>
             if closes tc then Returned (st, Exited)
             else (case deliver_rest (disp st) (upcoming st) of
                     Panic m \<Rightarrow> Panic m
                   | ProcessExit m \<Rightarrow> ProcessExit m
                   | Blocks m \<Rightarrow> Blocks m
                   | Returned d' \<Rightarrow> Returned (st\<lparr>disp := d', upcoming := []\<rparr>, BlockedForever)))"

text \<open>The dispatcher with \<open>n\<close> signals queued on its reload channel.\<close>

definition with_queued :: "Dispatcher \<Rightarrow> nat \<Rightarrow> Dispatcher" where
  "with_queued d n = d\<lparr>slotReloadChan := (slotReloadChan d)\<lparr>queued := n\<rparr>\<rparr>"

text \<open>Two redirect payloads for evaluation: a well-formed one and one with two fields.\<close>

definition sample_moved :: string where
  "sample_moved = ''-MOVED 1234 10.0.0.2:6379'' @ CRLF"

definition sample_short :: string where
  "sample_short = ''-ASK 1234'' @ CRLF"

section \<open>Session: requests, responses and the writer\<close>

text \<open>
  A command (\<open>resp.Command\<close>) is its argument list; its name is the first argument,
  which \<open>ReadingLoop\<close> has put into upper case. A reply object (\<open>resp.Object\<close>) is
  modelled by its raw bytes (\<open>Raw()\<close>).
\<close>

type_synonym Command = "string list"

type_synonym Object = bytes

definition Name :: "Command \<Rightarrow> string" where
  "Name c = (case c of [] \<Rightarrow> [] | a # _ \<Rightarrow> a)"

definition T_Error :: char where "T_Error = CHR ''-''"
definition T_SimpleString :: char where "T_SimpleString = CHR ''+''"

text \<open>
  Modelled from the spec: \<open>resp.NewObjectFromData\<close> of the proto package (declared
  elsewhere) for a simple string or an error, the two kinds of reply the session
  builds itself. RESP writes the type byte (\<open>+\<close> or \<open>-\<close>), the text and \<open>\r\n\<close>.
\<close>

definition NewObjectFromData :: "char \<Rightarrow> bytes \<Rightarrow> Object" where
  "NewObjectFromData t str = t # str @ CRLF"

text \<open>The constants of the session source, lines 17-27.\<close>

definition OK :: bytes where "OK = ''OK''"
definition MOVED :: bytes where "MOVED = ''-MOVED''"
definition ASK :: bytes where "ASK = ''-ASK''"
definition ASK_CMD_BYTES :: bytes where "ASK_CMD_BYTES = ''+ASKING'' @ CRLF"
definition AUTH_CMD_ERR :: bytes where "AUTH_CMD_ERR = ''ERR invalid password''"
definition UNKNOWN_CMD_ERR :: bytes where "UNKNOWN_CMD_ERR = ''ERR unknown command''"
definition ARGUMENTS_ERR :: bytes where "ARGUMENTS_ERR = ''ERR wrong number of arguments''"
definition NOAUTH_ERR :: bytes where "NOAUTH_ERR = ''NOAUTH Authentication required.''"

text \<open>
  \<open>PipelineRequest\<close> and \<open>PipelineResponse\<close> are declared elsewhere in the package; the
  records hold the fields the session and the backend use. A nil \<open>cmd\<close>, \<open>parentCmd\<close>
  or \<open>backQ\<close> is \<open>None\<close>; a coordinator (\<open>parentCmd\<close>) and a channel (\<open>backQ\<close>) are
  known by a number. The field \<open>wg\<close> always points to the wait group of the session
  that built the request, which is the field \<open>reqWg\<close> of the session below.
\<close>

record PipelineRequest =
  cmd :: "Command option"
  slot :: int
  readOnly :: bool
  seq :: int
  subSeq :: int
  parentCmd :: "nat option"
  backQ :: "nat option"

record PipelineResponse =
  ctx :: PipelineRequest
  rsp :: "Object option"
  err :: "error option"

text \<open>
  Modelled from the spec: the coordinator of a fan-out (\<open>MultiCmd\<close>, outside the files at
  hand), \<open>{ origCmd, expected, received, subResponses }\<close>, complete when
  \<open>received = expected\<close>; a sub-response is stored at its \<open>subSeq\<close>. How the
  sub-responses are merged (\<open>CoalesceRsp\<close>) is a parameter of the writer's environment.
\<close>

record MultiCmd =
  origCmd :: Command
  expected :: nat
  received :: nat
  subResponses :: "Object option list"

definition OnSubCmdFinished :: "MultiCmd \<Rightarrow> PipelineResponse \<Rightarrow> MultiCmd" where
  "OnSubCmdFinished mc plRsp =
     mc\<lparr>received := received mc + 1,
        subResponses := (subResponses mc)[nat (subSeq (ctx plRsp)) := rsp plRsp]\<rparr>"

definition Finished :: "MultiCmd \<Rightarrow> bool" where
  "Finished mc = (received mc = expected mc)"

text \<open>\<open>ValkeyConn\<close>, with the one field the session reads.\<close>

record ValkeyConn =
  password :: string

definition Auth :: "ValkeyConn \<Rightarrow> string \<Rightarrow> bool" where
  "Auth cp pw = (password cp = pw)"

text \<open>
  The session, session source lines 29-45. \<open>rspHeap\<close> is the heap of responses that
  arrived early; \<open>reqWg\<close> is the counter of the wait group; \<open>sessQ\<close> is the number of the
  session's channel \<open>backQ\<close>; \<open>coordinators\<close> holds the \<open>MultiCmd\<close> objects that sub-requests
  point to, and \<open>nextCoordinator\<close> is the number the next one gets.
\<close>

record Session =
  auth :: bool
  reqSeq :: int
  rspSeq :: int
  closed :: bool
  valkeyConn :: ValkeyConn
  multiCmd :: "Command list option"
  multiCmdErr :: bool
  rspHeap :: "PipelineResponse list"
  reqWg :: int
  sessQ :: nat
  coordinators :: "nat \<Rightarrow> MultiCmd"
  nextCoordinator :: nat

text \<open>\<open>x++\<close> on an \<open>int64\<close>.\<close>

definition inc64 :: "int \<Rightarrow> int" where
  "inc64 x = (if x = 2 ^ 63 - 1 then - (2 ^ 63) else x + 1)"

text \<open>
  Modelled from the spec: \<open>PipelineResponseHeap\<close> (declared elsewhere in the package), a min-heap
  keyed by \<open>ctx.seq\<close>. It is kept as a list in ascending order of \<open>seq\<close>: \<open>Top\<close> is the
  head (nil on an empty heap) and \<open>Pop\<close> removes it.
\<close>

fun heap_Push :: "PipelineResponse \<Rightarrow> PipelineResponse list \<Rightarrow> PipelineResponse list" where
  "heap_Push x [] = [x]"
| "heap_Push x (y # ys) =
     (if seq (ctx x) < seq (ctx y) then x # y # ys else y # heap_Push x ys)"

definition heap_Top :: "PipelineResponse list \<Rightarrow> PipelineResponse option" where
  "heap_Top h = (case h of [] \<Rightarrow> None | x # _ \<Rightarrow> Some x)"

definition heap_Pop :: "PipelineResponse list \<Rightarrow> PipelineResponse list" where
  "heap_Pop h = tl h"

text \<open>
  What the writer does to the world, in order. \<open>ClientWrite k buf r\<close> is a call of
  \<open>s.Write(buf)\<close> made while the response with \<open>ctx.seq = k\<close> is handled, with its result
  \<open>r\<close>. What is written to a backend connection is either given bytes or the encoding
  \<open>cmd.Format()\<close> of a command, which the proto package computes.
\<close>

datatype payload = RawBytes bytes | FormatOf Command

datatype event =
    TriggerReload
  | Dial string
  | ConnWrite string payload
  | ConnRead string
  | ConnClose string
  | ClientWrite int bytes "error option"
  | ClientClose

text \<open>
  The writer's environment answers each operation; it may depend on everything that
  happened before (the events so far). \<open>dial\<close> is \<open>s.valkeyConn.Conn(server)\<close>,
  \<open>conn_write\<close> and \<open>conn_read\<close> act on the connection that \<open>redirect\<close> opened,
  \<open>client_write\<close> is \<open>s.Write\<close>, and \<open>CoalesceRsp\<close> is the coordinator's merge.
\<close>

record Env =
  dial :: "event list \<Rightarrow> string \<Rightarrow> error option"
  conn_write :: "event list \<Rightarrow> string \<Rightarrow> payload \<Rightarrow> error option"
  conn_read :: "event list \<Rightarrow> string \<Rightarrow> error + bytes"
  client_write :: "event list \<Rightarrow> bytes \<Rightarrow> error option"
  CoalesceRsp :: "MultiCmd \<Rightarrow> Object"

text \<open>
  How a function of the writer ends: it returned nil, it returned an error, or the
  process ended (a panic or \<open>glog.Fatalf\<close>).
\<close>

datatype status = NoError | Failed error | Aborted string

text \<open>\<open>Session.Close\<close>, lines 416-422.\<close>

definition Close :: "Session \<Rightarrow> event list \<Rightarrow> Session \<times> event list" where
  "Close s tr = (if \<not> closed s then (s\<lparr>closed := True\<rparr>, tr @ [ClientClose]) else (s, tr))"

text \<open>The call \<open>s.Write(buf)\<close> at the end of \<open>writeResp\<close>, lines 129-135.\<close>

definition client_Write :: "Env \<Rightarrow> Session \<Rightarrow> event list \<Rightarrow> int \<Rightarrow> bytes
                            \<Rightarrow> Session \<times> event list \<times> status" where
  "client_Write env s tr k buf =
     (case client_write env tr buf of
        Some e \<Rightarrow> (s, tr @ [ClientWrite k buf (Some e)], Failed e)
      | None \<Rightarrow> (s, tr @ [ClientWrite k buf None], NoError))"

text \<open>\<open>writeResp\<close>, lines 116-136.\<close>

definition writeResp :: "Env \<Rightarrow> Session \<Rightarrow> event list \<Rightarrow> PipelineResponse
                         \<Rightarrow> Session \<times> event list \<times> status" where
  "writeResp env s tr plRsp =
     (case parentCmd (ctx plRsp) of
        Some p \<Rightarrow>
          (let mc = OnSubCmdFinished (coordinators s p) plRsp;
               s1 = s\<lparr>coordinators := (coordinators s)(p := mc)\<rparr>
           in if \<not> Finished mc then (s1, tr, NoError)
              else client_Write env (s1\<lparr>rspSeq := inc64 (rspSeq s1)\<rparr>) tr
                     (seq (ctx plRsp)) (CoalesceRsp env mc))
      | None \<Rightarrow>
          (case rsp plRsp of
             None \<Rightarrow> (s, tr, Aborted ''nil pointer dereference'')
           | Some raw \<Rightarrow> client_Write env s tr (seq (ctx plRsp)) raw))"

text \<open>
  \<open>redirect\<close>, lines 139-180. The deferred \<open>conn.Close()\<close> runs on every return after a
  successful dial.
\<close>

definition redirect :: "Env \<Rightarrow> event list \<Rightarrow> string \<Rightarrow> PipelineResponse \<Rightarrow> bool
                        \<Rightarrow> (event list \<times> PipelineResponse) outcome" where
  "redirect env tr server plRsp ask =
     (let p0 = plRsp\<lparr>err := None\<rparr>;
          tr1 = tr @ [Dial server]
      in case dial env tr server of
           Some e \<Rightarrow> Returned (tr1, p0\<lparr>err := Some e\<rparr>)
         | None \<Rightarrow>
            (let tr2 = (if ask then tr1 @ [ConnWrite server (RawBytes ASK_CMD_BYTES)] else tr1)
             in case (if ask then conn_write env tr1 server (RawBytes ASK_CMD_BYTES) else None) of
                  Some e \<Rightarrow> Returned (tr2 @ [ConnClose server], p0\<lparr>err := Some e\<rparr>)
                | None \<Rightarrow>
                   (case cmd (ctx plRsp) of
                      None \<Rightarrow> Panic ''nil pointer dereference''
                    | Some c \<Rightarrow>
                       (let tr3 = tr2 @ [ConnWrite server (FormatOf c)]
                        in case conn_write env tr2 server (FormatOf c) of
                             Some e \<Rightarrow> Returned (tr3 @ [ConnClose server], p0\<lparr>err := Some e\<rparr>)
                           | None \<Rightarrow>
                              (let tr4 = (if ask then tr3 @ [ConnRead server] else tr3)
                               in case (if ask then conn_read env tr3 server else Inr []) of
                                    Inl e \<Rightarrow>
                                      Returned (tr4 @ [ConnClose server], p0\<lparr>err := Some e\<rparr>)
                                  | Inr discarded \<Rightarrow>
                                     (case conn_read env tr4 server of
                                        Inl e \<Rightarrow>
                                          Returned (tr4 @ [ConnRead server, ConnClose server],
                                                    p0\<lparr>err := Some e\<rparr>)
                                      | Inr obj \<Rightarrow>
                                          Returned (tr4 @ [ConnRead server, ConnClose server],
                                                    p0\<lparr>rsp := Some obj\<rparr>)))))))"

text \<open>
  The middle of \<open>handleResp\<close>, lines 192-208: an error of the backend triggers a reload
  and is turned into an error object; an error reply that starts with \<open>-MOVED\<close> or
  \<open>-ASK\<close> is redirected.
\<close>

definition resolve :: "Env \<Rightarrow> event list \<Rightarrow> PipelineResponse
                       \<Rightarrow> (event list \<times> PipelineResponse) outcome" where
  "resolve env tr plRsp =
     (case err plRsp of
        Some e \<Rightarrow>
          Returned (tr @ [TriggerReload], plRsp\<lparr>rsp := Some (NewObjectFromData T_Error e)\<rparr>)
      | None \<Rightarrow>
          (case rsp plRsp of
             None \<Rightarrow> Panic ''nil pointer dereference''
           | Some raw \<Rightarrow>
               if raw = [] then Panic ''index out of range''
               else if hd raw = T_Error then
                 (if HasPrefix raw MOVED then
                    and_then (ParseRedirectInfo raw)
                      (\<lambda>(n, server). redirect env (tr @ [TriggerReload]) server plRsp False)
                  else if HasPrefix raw ASK then
                    and_then (ParseRedirectInfo raw)
                      (\<lambda>(n, server). redirect env tr server plRsp True)
                  else Returned (tr, plRsp))
               else Returned (tr, plRsp)))"

text \<open>
  The start of \<open>handleResp\<close>, lines 187-190, past the check of the sequence number:
  \<open>wg.Done()\<close>, and \<open>rspSeq++\<close> for a response that is not a sub-response.
\<close>

definition mark_done :: "Session \<Rightarrow> PipelineResponse \<Rightarrow> Session" where
  "mark_done s plRsp =
     (if parentCmd (ctx plRsp) = None
      then s\<lparr>reqWg := reqWg s - 1, rspSeq := inc64 (rspSeq s)\<rparr>
      else s\<lparr>reqWg := reqWg s - 1\<rparr>)"

text \<open>
  \<open>handleResp\<close>, lines 183-221. \<open>wg.Done()\<close> panics when the counter would become
  negative.
\<close>

definition handleResp :: "Env \<Rightarrow> Session \<Rightarrow> event list \<Rightarrow> PipelineResponse
                          \<Rightarrow> Session \<times> event list \<times> status" where
  "handleResp env s tr plRsp =
     (if seq (ctx plRsp) \<noteq> rspSeq s then (s, tr, Aborted ''impossible'')
      else if reqWg s \<le> 0 then (s, tr, Aborted ''sync: negative WaitGroup counter'')
      else
        (case resolve env tr plRsp of
           ProcessExit m \<Rightarrow> (mark_done s plRsp, tr, Aborted m)
         | Panic m \<Rightarrow> (mark_done s plRsp, tr, Aborted m)
         | Blocks m \<Rightarrow> (mark_done s plRsp, tr, Aborted m)
         | Returned (tr', p) \<Rightarrow>
             (case err p of
                Some e \<Rightarrow> (mark_done s plRsp, tr', Failed e)
              | None \<Rightarrow>
                  if \<not> closed (mark_done s plRsp) then writeResp env (mark_done s plRsp) tr' p
                  else (mark_done s plRsp, tr', NoError))))"

text \<open>
  The loop at the end of \<open>handleRespPipeline\<close>, lines 236-244. It ends because every
  round pops one response and \<open>handleResp\<close> leaves the heap alone.
\<close>

lemma client_Write_rspHeap:
  "client_Write env s tr k buf = (s', tr', st) \<Longrightarrow> rspHeap s' = rspHeap s"
  by (auto simp: client_Write_def split: option.splits)

lemma writeResp_rspHeap:
  "writeResp env s tr plRsp = (s', tr', st) \<Longrightarrow> rspHeap s' = rspHeap s"
  by (auto simp: writeResp_def Let_def split: option.splits if_splits
      dest!: client_Write_rspHeap)

lemma handleResp_rspHeap:
  "handleResp env s tr plRsp = (s', tr', st) \<Longrightarrow> rspHeap s' = rspHeap s"
  by (auto simp: handleResp_def mark_done_def split: option.splits if_splits outcome.splits
      dest!: writeResp_rspHeap)

function drain :: "Env \<Rightarrow> Session \<Rightarrow> event list \<Rightarrow> Session \<times> event list \<times> status" where
  "drain env s tr =
     (case heap_Top (rspHeap s) of
        None \<Rightarrow> (s, tr, NoError)
      | Some r \<Rightarrow>
          if seq (ctx r) \<noteq> rspSeq s then (s, tr, NoError)
          else (case handleResp env (s\<lparr>rspHeap := heap_Pop (rspHeap s)\<rparr>) tr r of
                  (s', tr', NoError) \<Rightarrow> drain env s' tr'
                | (s', tr', Failed e) \<Rightarrow> (s', tr', Failed e)
                | (s', tr', Aborted m) \<Rightarrow> (s', tr', Aborted m)))"
  by pat_completeness auto

termination
  apply (relation "measure (\<lambda>(env, s, tr). length (rspHeap s))")
   apply simp
  apply (auto simp: heap_Top_def heap_Pop_def split: list.splits dest!: handleResp_rspHeap[OF sym])
  done

declare drain.simps [simp del]


text \<open>\<open>handleRespPipeline\<close>, lines 226-245.\<close>

definition handleRespPipeline :: "Env \<Rightarrow> Session \<Rightarrow> event list \<Rightarrow> PipelineResponse
                                  \<Rightarrow> Session \<times> event list \<times> status" where
  "handleRespPipeline env s tr plRsp =
     (if seq (ctx plRsp) \<noteq> rspSeq s
      then (s\<lparr>rspHeap := heap_Push plRsp (rspHeap s)\<rparr>, tr, NoError)
      else (case handleResp env s tr plRsp of
              (s', tr', NoError) \<Rightarrow> drain env s' tr'
            | (s', tr', Failed e) \<Rightarrow> (s', tr', Failed e)
            | (s', tr', Aborted m) \<Rightarrow> (s', tr', Aborted m)))"

text \<open>
  \<open>WritingLoop\<close>, lines 54-63, over the responses that arrive on \<open>backQ\<close> until it is
  closed. An error closes the session and the loop goes on; the deferred \<open>Close\<close> runs
  when the channel is closed.
\<close>

fun WritingLoop :: "Env \<Rightarrow> Session \<Rightarrow> event list \<Rightarrow> PipelineResponse list
                    \<Rightarrow> Session \<times> event list \<times> status" where
  "WritingLoop env s tr [] = (case Close s tr of (s', tr') \<Rightarrow> (s', tr', NoError))"
| "WritingLoop env s tr (r # rs) =
     (case handleRespPipeline env s tr r of
        (s', tr', NoError) \<Rightarrow> WritingLoop env s' tr' rs
      | (s', tr', Failed e) \<Rightarrow> (case Close s' tr' of (s'', tr'') \<Rightarrow> WritingLoop env s'' tr'' rs)
      | (s', tr', Aborted m) \<Rightarrow> (s', tr', Aborted m))"

text \<open>
  The sequence numbers of the writes to the client, in the order of the writes, and the
  invariant of the writer: they went out in strictly increasing order and all lie below
  \<open>rspSeq\<close>. A session is settled when the top of its heap is absent or not the
  response \<open>rspSeq\<close> waits for.
\<close>

fun client_seqs :: "event list \<Rightarrow> int list" where
  "client_seqs [] = []"
| "client_seqs (ClientWrite k buf r # es) = k # client_seqs es"
| "client_seqs (e # es) = client_seqs es"

definition written_in_order :: "Session \<Rightarrow> event list \<Rightarrow> bool" where
  "written_in_order s tr =
     (sorted_wrt (<) (client_seqs tr) \<and> list_all (\<lambda>k. k < rspSeq s) (client_seqs tr))"

definition heap_settled :: "Session \<Rightarrow> bool" where
  "heap_settled s =
     (case heap_Top (rspHeap s) of None \<Rightarrow> True | Some t \<Rightarrow> seq (ctx t) \<noteq> rspSeq s)"

text \<open>
  For evaluation: a session right after accept, with password \<open>pw\<close>, channel \<open>q\<close> and a
  wait group that stands at \<open>n\<close>; and an environment in which every dial and write
  succeeds and the reads from redirect connections return the given replies in turn.
\<close>

definition sample_session :: "string \<Rightarrow> nat \<Rightarrow> int \<Rightarrow> Session" where
  "sample_session pw q n =
     \<lparr>auth = False, reqSeq = 0, rspSeq = 0, closed = False, valkeyConn = \<lparr>password = pw\<rparr>,
      multiCmd = None, multiCmdErr = False, rspHeap = [], reqWg = n, sessQ = q,
      coordinators = (\<lambda>i. \<lparr>origCmd = [], expected = 0, received = 0, subResponses = []\<rparr>),
      nextCoordinator = 0\<rparr>"

fun count_reads :: "event list \<Rightarrow> nat" where
  "count_reads [] = 0"
| "count_reads (ConnRead srv # es) = Suc (count_reads es)"
| "count_reads (e # es) = count_reads es"

definition sample_env :: "bytes list \<Rightarrow> Env" where
  "sample_env replies =
     \<lparr>dial = (\<lambda>tr srv. None),
      conn_write = (\<lambda>tr srv p. None),
      conn_read = (\<lambda>tr srv. if count_reads tr < length replies
                               then Inr (replies ! count_reads tr) else Inl ''EOF''),
      client_write = (\<lambda>tr buf. None),
      CoalesceRsp = (\<lambda>mc. concat (map (case_option [] id) (subResponses mc)))\<rparr>"

text \<open>The response of a backend to the request number \<open>k\<close> of a session, with reply \<open>raw\<close>.\<close>

definition sample_response :: "int \<Rightarrow> Command \<Rightarrow> bytes \<Rightarrow> PipelineResponse" where
  "sample_response k c raw =
     \<lparr>ctx = \<lparr>cmd = Some c, slot = 0, readOnly = True, seq = k, subSeq = 0,
              parentCmd = None, backQ = Some 0\<rparr>,
      rsp = Some raw, err = None\<rparr>"

text \<open>Two replies that reach the writer in the wrong order (scenario S3 of the spec).\<close>

definition sample_arrivals :: "PipelineResponse list" where
  "sample_arrivals =
     [sample_response 1 [''GET'', ''b''] (''$1'' @ CRLF @ ''B'' @ CRLF),
      sample_response 0 [''GET'', ''a''] (''$1'' @ CRLF @ ''A'' @ CRLF)]"

text \<open>
  A session with four requests under way, once the reply number 1 waits on the heap for
  the reply number 0; the replies number 2 and 3, which arrive later; and an environment
  whose client connection is broken: every write to it fails.
\<close>

definition sample_stranded_session :: Session where
  "sample_stranded_session = (sample_session [] 0 4)\<lparr>rspHeap := [hd sample_arrivals]\<rparr>"

definition sample_later :: "PipelineResponse list" where
  "sample_later =
     [sample_response 2 [''GET'', ''c''] (''$1'' @ CRLF @ ''C'' @ CRLF),
      sample_response 3 [''GET'', ''d''] (''$1'' @ CRLF @ ''D'' @ CRLF)]"

definition sample_broken_client :: Env where
  "sample_broken_client = (sample_env [])\<lparr>client_write := (\<lambda>tr buf. Some ''broken pipe'')\<rparr>"

text \<open>
  A \<open>-MOVED\<close> and an \<open>-ASK\<close> reply to \<open>GET k\<close>, and an environment whose redirect
  target answers \<open>+OK\<close> and then the value.
\<close>

definition sample_moved_response :: PipelineResponse where
  "sample_moved_response = sample_response 0 [''GET'', ''k''] sample_moved"

definition sample_ask_response :: PipelineResponse where
  "sample_ask_response = sample_response 0 [''GET'', ''k''] (''-ASK 1234 10.0.0.2:6379'' @ CRLF)"

definition sample_redirect_env :: Env where
  "sample_redirect_env = sample_env [''+OK'' @ CRLF, ''$3'' @ CRLF @ ''abc'' @ CRLF]"

text \<open>
  The events on redirect connections among the events of the writer, and the exchange
  with the target of an \<open>-ASK\<close> in the order in which the specification words it: dial,
  send \<open>ASKING\<close>, read its reply, send the command, read its reply.
\<close>

fun conn_events :: "event list \<Rightarrow> event list" where
  "conn_events [] = []"
| "conn_events (TriggerReload # es) = conn_events es"
| "conn_events (ClientWrite k buf r # es) = conn_events es"
| "conn_events (ClientClose # es) = conn_events es"
| "conn_events (e # es) = e # conn_events es"

definition ask_exchange_as_claimed :: "string \<Rightarrow> Command \<Rightarrow> event list" where
  "ask_exchange_as_claimed srv c =
     [Dial srv, ConnWrite srv (RawBytes ASK_CMD_BYTES), ConnRead srv,
      ConnWrite srv (FormatOf c), ConnRead srv, ConnClose srv]"

section \<open>Backend server\<close>

text \<open>
  What the reader does to the world, in order: a send on a channel (\<open>BackQ q r\<close>), the
  pool's \<open>Get\<close> and \<open>Put\<close>, the traffic with a backend, the sleep of \<open>tryRecover\<close>
  (in milliseconds), and the run of a buffered transaction (\<open>ExecMulti\<close>).
\<close>

datatype revent =
    BackQ nat PipelineResponse
  | PoolGet string
  | PoolPut string
  | BackendWrite string Command
  | BackendFlush string
  | BackendRead string
  | BackendDial string
  | Sleep nat
  | ExecMulti "Command list"

text \<open>
  \<open>BackendServer\<close>, backend.go lines 15-22: the FIFO of requests in flight, the
  endpoint, and whether a connection is set up (\<open>tr.w != nil\<close>).
\<close>

record BackendServer =
  inflight :: "PipelineRequest list"
  server :: string
  connected :: bool

text \<open>
  The reader's environment. The slot table, the pool of backend servers and the executor
  of a buffered transaction (\<open>NewMultiCmdExec(s).Exec()\<close>) are declared elsewhere
  in the package and answer here as the environment does, like the backend's socket; each
  answer may depend on the events so far.
\<close>

record REnv =
  ReadServer :: "revent list \<Rightarrow> int \<Rightarrow> string"
  WriteServer :: "revent list \<Rightarrow> int \<Rightarrow> string"
  ServerSlots :: "revent list \<Rightarrow> int list"
  pool_Get :: "revent list \<Rightarrow> string \<Rightarrow> error + BackendServer"
  backend_write :: "revent list \<Rightarrow> error option"
  backend_flush :: "revent list \<Rightarrow> error option"
  backend_read :: "revent list \<Rightarrow> error + Object"
  backend_dial :: "revent list \<Rightarrow> string \<Rightarrow> error option"
  Exec :: "revent list \<Rightarrow> Command list \<Rightarrow> error + Object"

text \<open>\<open>writeToBackend\<close>, backend.go lines 61-81.\<close>

definition writeToBackend :: "REnv \<Rightarrow> BackendServer \<Rightarrow> revent list \<Rightarrow> PipelineRequest
                              \<Rightarrow> (BackendServer \<times> revent list \<times> error option) outcome" where
  "writeToBackend env b tr plReq =
     (let b1 = b\<lparr>inflight := inflight b @ [plReq]\<rparr>
      in if \<not> connected b1 then Returned (b1, tr, Some ''init task runner connection error'')
         else case cmd plReq of
                None \<Rightarrow> Panic ''nil pointer dereference''
              | Some c \<Rightarrow>
                  (case backend_write env tr of
                     Some e \<Rightarrow> Returned (b1, tr @ [BackendWrite (server b) c], Some e)
                   | None \<Rightarrow>
                       Returned (b1, tr @ [BackendWrite (server b) c, BackendFlush (server b)],
                                 backend_flush env (tr @ [BackendWrite (server b) c]))))"

text \<open>
  \<open>cleanupInflight\<close>, backend.go lines 99-114: every request in flight gets a response
  that carries the error, sent on the request's own channel. A send on a nil channel
  never returns.
\<close>

fun cleanup_loop :: "PipelineRequest list \<Rightarrow> revent list \<Rightarrow> error \<Rightarrow> revent list outcome" where
  "cleanup_loop [] tr e = Returned tr"
| "cleanup_loop (plReq # rest) tr e =
     (case backQ plReq of
        None \<Rightarrow> Blocks ''send on nil channel''
      | Some q \<Rightarrow> cleanup_loop rest (tr @ [BackQ q \<lparr>ctx = plReq, rsp = None, err = Some e\<rparr>]) e)"

definition cleanupInflight :: "BackendServer \<Rightarrow> revent list \<Rightarrow> error
                               \<Rightarrow> (BackendServer \<times> revent list) outcome" where
  "cleanupInflight b tr e =
     and_then (cleanup_loop (inflight b) tr e) (\<lambda>tr'. Returned (b\<lparr>inflight := []\<rparr>, tr'))"

text \<open>
  \<open>tryRecover\<close>, backend.go lines 83-97: one dial; on failure a sleep of 100 ms and the
  dial's error, on success the new connection is installed (\<open>initRWConn\<close>).
\<close>

definition tryRecover :: "REnv \<Rightarrow> BackendServer \<Rightarrow> revent list \<Rightarrow> error
                          \<Rightarrow> (BackendServer \<times> revent list \<times> error option) outcome" where
  "tryRecover env b tr e =
     and_then (cleanupInflight b tr e)
       (\<lambda>(b1, tr1).
          case backend_dial env tr1 (server b) of
            Some e' \<Rightarrow> Returned (b1, tr1 @ [BackendDial (server b), Sleep 100], Some e')
          | None \<Rightarrow> Returned (b1\<lparr>connected := True\<rparr>, tr1 @ [BackendDial (server b)], None))"

text \<open>
  \<open>Request\<close>, backend.go lines 40-59. After a failed write or read the result is the
  error of the reconnect when that failed too, and the original error otherwise.
\<close>

definition recover_and_fail :: "REnv \<Rightarrow> BackendServer \<Rightarrow> revent list \<Rightarrow> error
      \<Rightarrow> (BackendServer \<times> revent list \<times> (error + PipelineResponse)) outcome" where
  "recover_and_fail env b tr e =
     and_then (tryRecover env b tr e)
       (\<lambda>(b', tr', r). case r of Some e' \<Rightarrow> Returned (b', tr', Inl e')
                              | None \<Rightarrow> Returned (b', tr', Inl e))"

definition Request :: "REnv \<Rightarrow> BackendServer \<Rightarrow> revent list \<Rightarrow> PipelineRequest
      \<Rightarrow> (BackendServer \<times> revent list \<times> (error + PipelineResponse)) outcome" where
  "Request env b tr req =
     and_then (writeToBackend env b tr req)
       (\<lambda>(b1, tr1, w).
          case w of
            Some e \<Rightarrow> recover_and_fail env b1 tr1 e
          | None \<Rightarrow>
              (case backend_read env tr1 of
                 Inl e \<Rightarrow> recover_and_fail env b1 (tr1 @ [BackendRead (server b)]) e
               | Inr obj \<Rightarrow>
                   (case inflight b1 of
                      [] \<Rightarrow> Panic ''nil pointer dereference''
                    | front # rest \<Rightarrow>
                        Returned (b1\<lparr>inflight := rest\<rparr>, tr1 @ [BackendRead (server b)],
                                  Inr \<lparr>ctx = front, rsp = Some obj, err = None\<rparr>))))"

section \<open>Session: the reader\<close>

text \<open>
  The command tables and the key hashing are declared elsewhere in the package; they are
  parameters. \<open>KeySlot c\<close> stands for \<open>Key2Slot(c.Value(1))\<close> and \<open>SubCmd c i n\<close> for
  \<open>mc.SubCmd(i, n)\<close> of the coordinator of \<open>c\<close>.
\<close>

record Lib =
  CmdAuthRequired :: "Command \<Rightarrow> bool"
  CmdFlag :: "Command \<Rightarrow> int"
  CMD_FLAG_GENERAL :: int
  CMD_FLAG_READ :: int
  CmdUnknown :: "Command \<Rightarrow> bool"
  CmdReadAll :: "Command \<Rightarrow> bool"
  IsMultiCmd :: "Command \<Rightarrow> bool \<times> int"
  CmdReadOnly :: "Command \<Rightarrow> bool"
  KeySlot :: "Command \<Rightarrow> int"
  SubCmd :: "Command \<Rightarrow> nat \<Rightarrow> nat \<Rightarrow> error + Command"

definition checkAuth :: "Session \<Rightarrow> bool" where
  "checkAuth s = (auth s \<or> Auth (valkeyConn s) [])"

text \<open>The request of a reply that the session makes up itself: only \<open>seq\<close> (and \<open>wg\<close>) is set.\<close>

definition local_request :: "int \<Rightarrow> PipelineRequest" where
  "local_request k = \<lparr>cmd = None, slot = 0, readOnly = False, seq = k, subSeq = 0,
                       parentCmd = None, backQ = None\<rparr>"

text \<open>\<open>handleErrorCmd\<close>, lines 288-300, and \<open>handleSimpleStringCmd\<close>, lines 339-349.\<close>

definition handleErrorCmd :: "Session \<Rightarrow> revent list \<Rightarrow> bytes \<Rightarrow> Session \<times> revent list" where
  "handleErrorCmd s tr msg =
     (s\<lparr>reqSeq := inc64 (reqSeq s), reqWg := reqWg s + 1\<rparr>,
      tr @ [BackQ (sessQ s) \<lparr>ctx = local_request (reqSeq s),
                              rsp = Some (NewObjectFromData T_Error msg), err = None\<rparr>])"

definition handleSimpleStringCmd :: "Session \<Rightarrow> revent list \<Rightarrow> bytes \<Rightarrow> Session \<times> revent list" where
  "handleSimpleStringCmd s tr msg =
     (s\<lparr>reqSeq := inc64 (reqSeq s), reqWg := reqWg s + 1\<rparr>,
      tr @ [BackQ (sessQ s) \<lparr>ctx = local_request (reqSeq s),
                              rsp = Some (NewObjectFromData T_SimpleString msg), err = None\<rparr>])"

text \<open>\<open>handleAuthCmd\<close>, lines 326-337.\<close>

definition handleAuthCmd :: "Session \<Rightarrow> revent list \<Rightarrow> Command \<Rightarrow> Session \<times> revent list" where
  "handleAuthCmd s tr c =
     (if length c = 2 then
        (if Auth (valkeyConn s) (c ! 1)
         then (case handleSimpleStringCmd s tr OK of (s', tr') \<Rightarrow> (s'\<lparr>auth := True\<rparr>, tr'))
         else handleErrorCmd s tr AUTH_CMD_ERR)
      else handleErrorCmd s tr ARGUMENTS_ERR)"

text \<open>
  \<open>Schedule\<close>, lines 393-414. \<open>fmt.Sprintf("ERR %v", err)\<close> is the text \<open>ERR\<close>, a space
  and the error's message; the deferred \<open>Put\<close> runs last.
\<close>

definition Schedule :: "REnv \<Rightarrow> Session \<Rightarrow> revent list \<Rightarrow> PipelineRequest
                        \<Rightarrow> (Session \<times> revent list) outcome" where
  "Schedule env s tr req =
     (let srv = (if readOnly req then ReadServer env tr (slot req)
                 else WriteServer env tr (slot req))
      in case pool_Get env tr srv of
           Inl e \<Rightarrow> Returned (handleErrorCmd s (tr @ [PoolGet srv]) (''ERR '' @ e))
         | Inr b \<Rightarrow>
             and_then (Request env b (tr @ [PoolGet srv]) req)
               (\<lambda>(b', tr', res).
                  case res of
                    Inr resp \<Rightarrow> Returned (s, tr' @ [BackQ (sessQ s) resp, PoolPut srv])
                  | Inl e \<Rightarrow>
                      (case handleErrorCmd s tr' (''ERR '' @ e) of
                         (s', tr'') \<Rightarrow> Returned (s', tr'' @ [PoolPut srv]))))"

text \<open>\<open>handleGeneralCmd\<close>, lines 351-365.\<close>

definition handleGeneralCmd :: "Lib \<Rightarrow> REnv \<Rightarrow> Session \<Rightarrow> revent list \<Rightarrow> Command
                                \<Rightarrow> (Session \<times> revent list) outcome" where
  "handleGeneralCmd lib env s tr c =
     Schedule env (s\<lparr>reqSeq := inc64 (reqSeq s), reqWg := reqWg s + 1\<rparr>) tr
       \<lparr>cmd = Some c, slot = KeySlot lib c, readOnly = CmdReadOnly lib c, seq = reqSeq s,
        subSeq = 0, parentCmd = None, backQ = Some (sessQ s)\<rparr>"

text \<open>
  Modelled from the spec: \<open>NewMultiCmd\<close> (declared elsewhere in the package) makes a coordinator
  that expects \<open>n\<close> sub-responses and has received none.
\<close>

definition NewMultiCmd :: "Session \<Rightarrow> Command \<Rightarrow> nat \<Rightarrow> Session \<times> nat" where
  "NewMultiCmd s c n =
     (s\<lparr>coordinators := (coordinators s)
           (nextCoordinator s := \<lparr>origCmd = c, expected = n, received = 0,
                                   subResponses = replicate n None\<rparr>),
        nextCoordinator := nextCoordinator s + 1\<rparr>,
      nextCoordinator s)"

text \<open>
  The loops of \<open>handleMultiKeyCmd\<close>, lines 371-390, and \<open>handleReadAll\<close>, lines 306-323,
  over the indices (and slots) still to do. A failing \<open>SubCmd\<close> panics.
\<close>

fun multiKey_loop :: "Lib \<Rightarrow> REnv \<Rightarrow> Command \<Rightarrow> nat \<Rightarrow> int \<Rightarrow> nat \<Rightarrow> nat list
                      \<Rightarrow> Session \<Rightarrow> revent list \<Rightarrow> (Session \<times> revent list) outcome" where
  "multiKey_loop lib env c mc k n [] s tr = Returned (s, tr)"
| "multiKey_loop lib env c mc k n (i # rest) s tr =
     (case SubCmd lib c i n of
        Inl e \<Rightarrow> Panic e
      | Inr subCmd \<Rightarrow>
          and_then
            (Schedule env (s\<lparr>reqWg := reqWg s + 1\<rparr>) tr
               \<lparr>cmd = Some subCmd, slot = KeySlot lib subCmd, readOnly = CmdReadOnly lib c,
                seq = k, subSeq = int i, parentCmd = Some mc, backQ = Some (sessQ s)\<rparr>)
            (\<lambda>(s', tr'). multiKey_loop lib env c mc k n rest s' tr'))"

definition handleMultiKeyCmd :: "Lib \<Rightarrow> REnv \<Rightarrow> Session \<Rightarrow> revent list \<Rightarrow> Command \<Rightarrow> int
                                 \<Rightarrow> (Session \<times> revent list) outcome" where
  "handleMultiKeyCmd lib env s tr c numKeys =
     (case NewMultiCmd s c (nat numKeys) of
        (s1, mc) \<Rightarrow>
          multiKey_loop lib env c mc (reqSeq s1) (nat numKeys) [0..<nat numKeys]
            (s1\<lparr>reqSeq := inc64 (reqSeq s1)\<rparr>) tr)"

fun readAll_loop :: "Lib \<Rightarrow> REnv \<Rightarrow> Command \<Rightarrow> nat \<Rightarrow> int \<Rightarrow> nat \<Rightarrow> (nat \<times> int) list
                     \<Rightarrow> Session \<Rightarrow> revent list \<Rightarrow> (Session \<times> revent list) outcome" where
  "readAll_loop lib env c mc k n [] s tr = Returned (s, tr)"
| "readAll_loop lib env c mc k n ((i, sl) # rest) s tr =
     (case SubCmd lib c i n of
        Inl e \<Rightarrow> Panic e
      | Inr subCmd \<Rightarrow>
          and_then
            (Schedule env (s\<lparr>reqWg := reqWg s + 1\<rparr>) tr
               \<lparr>cmd = Some subCmd, slot = sl, readOnly = True,
                seq = k, subSeq = int i, parentCmd = Some mc, backQ = Some (sessQ s)\<rparr>)
            (\<lambda>(s', tr'). readAll_loop lib env c mc k n rest s' tr'))"

definition handleReadAll :: "Lib \<Rightarrow> REnv \<Rightarrow> Session \<Rightarrow> revent list \<Rightarrow> Command
                             \<Rightarrow> (Session \<times> revent list) outcome" where
  "handleReadAll lib env s tr c =
     (let k = reqSeq s;
          slots = ServerSlots env tr
      in case NewMultiCmd (s\<lparr>reqSeq := inc64 k\<rparr>) c (length slots) of
           (s1, mc) \<Rightarrow>
             readAll_loop lib env c mc k (length slots) (zip [0..<length slots] slots) s1 tr)"

text \<open>
  \<open>handleMultiCmd\<close>, lines 247-286. In the last branch \<open>*s.multiCmd\<close> dereferences the
  buffer, which panics when there is none.
\<close>

definition handleMultiCmd :: "Lib \<Rightarrow> REnv \<Rightarrow> Session \<Rightarrow> revent list \<Rightarrow> Command
                              \<Rightarrow> (Session \<times> revent list) outcome" where
  "handleMultiCmd lib env s tr c =
     (if Name c = ''MULTI'' then
        (if multiCmd s \<noteq> None
         then Returned (handleErrorCmd s tr ''ERR MULTI calls can not be nested'')
         else Returned (handleSimpleStringCmd (s\<lparr>multiCmd := Some []\<rparr>) tr OK))
      else if Name c = ''EXEC'' then
        (case multiCmd s of
           None \<Rightarrow>
             (case handleErrorCmd s tr ''ERR EXEC without MULTI'' of
                (s', tr') \<Rightarrow> Returned (s'\<lparr>multiCmd := None\<rparr>, tr'))
         | Some buf \<Rightarrow>
             if multiCmdErr s then
               (case handleErrorCmd (s\<lparr>multiCmdErr := False\<rparr>) tr
                       ''EXECABORT Transaction discarded'' of
                  (s', tr') \<Rightarrow> Returned (s'\<lparr>multiCmd := None\<rparr>, tr'))
             else
               (case Exec env tr buf of
                  Inl e \<Rightarrow>
                    (case handleErrorCmd s (tr @ [ExecMulti buf]) (''ERR EXEC error '' @ e) of
                       (s', tr') \<Rightarrow> Returned (s'\<lparr>multiCmd := None\<rparr>, tr'))
                | Inr data \<Rightarrow>
                    Returned
                      (s\<lparr>reqWg := reqWg s + 1, reqSeq := inc64 (reqSeq s), multiCmd := None\<rparr>,
                       tr @ [ExecMulti buf,
                             BackQ (sessQ s) \<lparr>ctx = local_request (reqSeq s), rsp = Some data,
                                               err = None\<rparr>])))
      else
        (if CmdFlag lib c = CMD_FLAG_GENERAL lib \<or> CmdFlag lib c = CMD_FLAG_READ lib then
           (case multiCmd s of
              None \<Rightarrow> Panic ''nil pointer dereference''
            | Some buf \<Rightarrow>
                Returned (handleSimpleStringCmd (s\<lparr>multiCmd := Some (buf @ [c])\<rparr>) tr ''QUEUED''))
         else Returned (handleErrorCmd (s\<lparr>multiCmdErr := True\<rparr>) tr UNKNOWN_CMD_ERR)))"

text \<open>\<open>handle\<close>, lines 93-113.\<close>

definition handle :: "Lib \<Rightarrow> REnv \<Rightarrow> Session \<Rightarrow> revent list \<Rightarrow> Command
                      \<Rightarrow> (Session \<times> revent list) outcome" where
  "handle lib env s tr c =
     (if CmdAuthRequired lib c \<and> \<not> checkAuth s then Returned (handleErrorCmd s tr NOAUTH_ERR)
      else if Name c = ''MULTI'' \<or> multiCmd s \<noteq> None \<or> Name c = ''EXEC''
        then handleMultiCmd lib env s tr c
      else if Name c = ''AUTH'' then Returned (handleAuthCmd s tr c)
      else if Name c = ''SELECT'' then Returned (handleSimpleStringCmd s tr OK)
      else if Name c = ''PING'' then Returned (handleSimpleStringCmd s tr ''PONG'')
      else if CmdUnknown lib c then Returned (handleErrorCmd s tr UNKNOWN_CMD_ERR)
      else if CmdReadAll lib c then handleReadAll lib env s tr c
      else if fst (IsMultiCmd lib c) \<and> 1 < snd (IsMultiCmd lib c)
        then handleMultiKeyCmd lib env s tr c (snd (IsMultiCmd lib c))
      else handleGeneralCmd lib env s tr c)"

text \<open>
  The loop of \<open>ReadingLoop\<close>, lines 69-85, over the commands read from the client (with
  their names in upper case).
\<close>

fun ReadingLoop :: "Lib \<Rightarrow> REnv \<Rightarrow> Session \<Rightarrow> revent list \<Rightarrow> Command list
                    \<Rightarrow> (Session \<times> revent list) outcome" where
  "ReadingLoop lib env s tr [] = Returned (s, tr)"
| "ReadingLoop lib env s tr (c # cs) =
     and_then (handle lib env s tr c) (\<lambda>(s', tr'). ReadingLoop lib env s' tr' cs)"

text \<open>The responses sent on channel \<open>q\<close>, in order.\<close>

fun sent_on :: "nat \<Rightarrow> revent list \<Rightarrow> PipelineResponse list" where
  "sent_on q [] = []"
| "sent_on q (BackQ q' r # es) = (if q' = q then r # sent_on q es else sent_on q es)"
| "sent_on q (e # es) = sent_on q es"

text \<open>
  For evaluation: a small command table (\<open>GET\<close> reads, \<open>SET\<close> is general, every other
  name is unknown; every command but \<open>AUTH\<close> needs authentication) and a reader's
  environment with one healthy pool entry per endpoint, whose backend answers a read as
  given and whose transaction executor returns an empty array.
\<close>

definition sample_lib :: Lib where
  "sample_lib =
     \<lparr>CmdAuthRequired = (\<lambda>c. Name c \<noteq> ''AUTH''),
      CmdFlag = (\<lambda>c. if Name c = ''GET'' then 0 else if Name c = ''SET'' then 4 else 3),
      CMD_FLAG_GENERAL = 4,
      CMD_FLAG_READ = 0,
      CmdUnknown = (\<lambda>c. Name c \<noteq> ''GET'' \<and> Name c \<noteq> ''SET''),
      CmdReadAll = (\<lambda>c. False),
      IsMultiCmd = (\<lambda>c. (False, 0)),
      CmdReadOnly = (\<lambda>c. Name c = ''GET''),
      KeySlot = (\<lambda>c. 0),
      SubCmd = (\<lambda>c i n. Inr c)\<rparr>"

definition sample_renv :: "error + Object \<Rightarrow> REnv" where
  "sample_renv answer =
     \<lparr>ReadServer = (\<lambda>tr sl. ''10.4.0.2:7000''),
      WriteServer = (\<lambda>tr sl. ''10.4.0.1:7000''),
      ServerSlots = (\<lambda>tr. [0]),
      pool_Get = (\<lambda>tr srv. Inr \<lparr>inflight = [], server = srv, connected = True\<rparr>),
      backend_write = (\<lambda>tr. None),
      backend_flush = (\<lambda>tr. None),
      backend_read = (\<lambda>tr. answer),
      backend_dial = (\<lambda>tr srv. None),
      Exec = (\<lambda>tr buf. Inr (''*0'' @ CRLF))\<rparr>"

text \<open>The replies among the events of the reader: the reply objects sent on channel \<open>q\<close>.\<close>

definition replies_on :: "nat \<Rightarrow> revent list \<Rightarrow> Object option list" where
  "replies_on q tr = map rsp (sent_on q tr)"

text \<open>An event of the reader that is not a send on a channel involves a backend.\<close>

fun is_send :: "revent \<Rightarrow> bool" where
  "is_send (BackQ q r) = True"
| "is_send e = False"

text \<open>The reply of a locally answered request \<open>k\<close>, as an event on channel \<open>q\<close>.\<close>

definition local_reply :: "nat \<Rightarrow> int \<Rightarrow> char \<Rightarrow> bytes \<Rightarrow> revent" where
  "local_reply q k t msg =
     BackQ q \<lparr>ctx = local_request k, rsp = Some (NewObjectFromData t msg), err = None\<rparr>"

text \<open>The session after a locally answered request: one more request, one more in flight.\<close>

definition answered :: "Session \<Rightarrow> Session" where
  "answered s = s\<lparr>reqSeq := inc64 (reqSeq s), reqWg := reqWg s + 1\<rparr>"

text \<open>
  Two sessions in the middle of a transaction: one without password after \<open>MULTI\<close> and
  \<open>GET k\<close>, and one with password \<open>pw\<close> after \<open>AUTH pw\<close> and \<open>MULTI\<close>.
\<close>

definition sample_open_session :: Session where
  "sample_open_session =
     (sample_session [] 7 2)\<lparr>multiCmd := Some [[''GET'', ''k'']], reqSeq := 2\<rparr>"

definition sample_authed_session :: Session where
  "sample_authed_session =
     (sample_session ''pw'' 7 2)\<lparr>auth := True, multiCmd := Some [], reqSeq := 2\<rparr>"

text \<open>
  For stating what a failing \<open>Request\<close> does: the response that \<open>cleanupInflight\<close>
  makes for a request, the sends of these responses for a list of requests, and the first
  error of the exchange with the backend together with the events up to it (\<open>None\<close>
  when the write, the flush and the read all succeed).
\<close>

definition error_response :: "error \<Rightarrow> PipelineRequest \<Rightarrow> PipelineResponse" where
  "error_response e r = \<lparr>ctx = r, rsp = None, err = Some e\<rparr>"

definition deliveries :: "error \<Rightarrow> PipelineRequest list \<Rightarrow> revent list" where
  "deliveries e reqs = map (\<lambda>r. BackQ (the (backQ r)) (error_response e r)) reqs"

definition io_error :: "REnv \<Rightarrow> BackendServer \<Rightarrow> revent list \<Rightarrow> Command
                        \<Rightarrow> (error \<times> revent list) option" where
  "io_error env b tr c =
     (if \<not> connected b then Some (''init task runner connection error'', [])
      else case backend_write env tr of
             Some e \<Rightarrow> Some (e, [BackendWrite (server b) c])
           | None \<Rightarrow>
               (case backend_flush env (tr @ [BackendWrite (server b) c]) of
                  Some e \<Rightarrow> Some (e, [BackendWrite (server b) c, BackendFlush (server b)])
                | None \<Rightarrow>
                    (case backend_read env (tr @ [BackendWrite (server b) c, BackendFlush (server b)]) of
                       Inl e \<Rightarrow> Some (e, [BackendWrite (server b) c, BackendFlush (server b),
                                          BackendRead (server b)])
                     | Inr obj \<Rightarrow> None)))"

text \<open>
  A \<open>GET k\<close> whose backend closes the connection before it answers: the request, and the
  events of the reader.
\<close>

definition sample_failed_request :: PipelineRequest where
  "sample_failed_request =
     \<lparr>cmd = Some [''GET'', ''k''], slot = 0, readOnly = True, seq = 0, subSeq = 0,
      parentCmd = None, backQ = Some 7\<rparr>"

definition sample_failure_events :: "revent list" where
  "sample_failure_events =
     [PoolGet ''10.4.0.2:7000'', BackendWrite ''10.4.0.2:7000'' [''GET'', ''k''],
      BackendFlush ''10.4.0.2:7000'', BackendRead ''10.4.0.2:7000'',
      BackQ 7 (error_response ''EOF'' sample_failed_request),
      BackendDial ''10.4.0.2:7000'',
      local_reply 7 1 T_Error ''ERR EOF'',
      PoolPut ''10.4.0.2:7000'']"

section \<open>Properties of redirect parsing\<close>

lemma ParseRedirectInfo_malformed:
  assumes "length (strings_Fields msg) \<noteq> 3 \<or> strconv_Atoi (strings_Fields msg ! 1) = None"
  shows "ParseRedirectInfo msg = ProcessExit (''invalid redirect message: '' @ msg)"
  using assms by (auto simp: ParseRedirectInfo_def Let_def)

lemma ParseRedirectInfo_wellformed:
  assumes "length (strings_Fields msg) = 3"
    and "strconv_Atoi (strings_Fields msg ! 1) = Some sl"
  shows "ParseRedirectInfo msg = Returned (sl, strings_Fields msg ! 2)"
  using assms by (simp add: ParseRedirectInfo_def Let_def)

text \<open>
  Claim C9. A redirect payload that does not split into exactly three white-space
  separated fields, or whose second field \<open>strconv.Atoi\<close> rejects, ends the process
  (\<open>glog.Fatalf\<close>) instead of returning an error; a payload with three fields whose
  second one is an integer returns that integer as the slot and the third field as the
  server.
\<close>

theorem ParseRedirectInfo_aborts_or_returns:
  "((length (strings_Fields msg) \<noteq> 3 \<or> strconv_Atoi (strings_Fields msg ! 1) = None) \<longrightarrow>
      ParseRedirectInfo msg = ProcessExit (''invalid redirect message: '' @ msg)) \<and>
   (\<forall>sl. length (strings_Fields msg) = 3 \<and> strconv_Atoi (strings_Fields msg ! 1) = Some sl \<longrightarrow>
      ParseRedirectInfo msg = Returned (sl, strings_Fields msg ! 2))"
  using ParseRedirectInfo_malformed ParseRedirectInfo_wellformed by blast

lemma sample_fields_moved:
  "strings_Fields sample_moved = [''-MOVED'', ''1234'', ''10.0.0.2:6379'']"
  by code_simp

lemma sample_fields_short:
  "strings_Fields sample_short = [''-ASK'', ''1234'']"
  by code_simp

lemma sample_atoi: "strconv_Atoi ''1234'' = Some 1234"
  by code_simp

theorem ParseRedirectInfo_aborts_or_returns_witness:
  "ParseRedirectInfo sample_moved = Returned (1234, ''10.0.0.2:6379'') \<and>
   ParseRedirectInfo sample_short = ProcessExit (''invalid redirect message: '' @ sample_short)"
proof -
  have m: "length (strings_Fields sample_moved) = 3
           \<and> strconv_Atoi (strings_Fields sample_moved ! 1) = Some 1234"
    by (simp add: sample_fields_moved sample_atoi)
  have n: "length (strings_Fields sample_short) \<noteq> 3"
    by (simp add: sample_fields_short)
  from ParseRedirectInfo_aborts_or_returns [of sample_moved] m
  have "ParseRedirectInfo sample_moved = Returned (1234, strings_Fields sample_moved ! 2)"
    by blast
  moreover from ParseRedirectInfo_aborts_or_returns [of sample_short] n
  have "ParseRedirectInfo sample_short = ProcessExit (''invalid redirect message: '' @ sample_short)"
    by blast
  ultimately show ?thesis by (simp add: sample_fields_moved)
qed

section \<open>Properties of the topology reload\<close>

lemma readNodes_loop_filter:
  "readNodes_loop prefer pre alive nodes acc =
     acc @ filter (\<lambda>n. n \<in> alive \<and> (prefer = READ_PREFER_SLAVE_IDC \<longrightarrow> HasPrefix n pre)) nodes"
  by (induction nodes arbitrary: acc) auto

lemma aliveNodes_loop_mem:
  "aliveNodes_loop lines acc = Some alive \<Longrightarrow>
     (n \<in> alive \<longleftrightarrow> n \<in> acc \<or> node_alive lines n)"
proof (induction lines arbitrary: acc)
  case Nil
  then show ?case by (simp add: node_alive_def)
next
  case (Cons line lines)
  then show ?case
    by (auto simp: node_alive_def Let_def CLUSTER_NODES_FIELD_SPLIT_NUM_def
        CLUSTER_NODES_FIELD_NUM_FLAGS_def CLUSTER_NODES_FIELD_NUM_IP_PORT_def
        split: if_splits)
qed

lemma doReload_success:
  assumes "doReload d localIP io = Returned (infos, None)"
  obtains orig ntext alive where
    "slots_reply io = Inr orig" "nodes_reply io = Inr ntext"
    "aliveNodes_loop (strings_Split (strings_TrimSpace ntext) (CHR 0x0A)) {} = Some alive"
    "infos = map (rewrite_read (readPrefer d) localIP alive) orig"
  using assms unfolding doReload_def
  by (auto split: option.splits sum.splits)


lemma rewrite_read_write [simp]: "si_write (rewrite_read p ip alive si) = si_write si"
  by (simp add: rewrite_read_def Let_def)

lemma rewrite_read_master:
  "si_read (rewrite_read READ_PREFER_MASTER ip alive si) = [si_write si]"
  by (simp add: rewrite_read_def)

lemma rewrite_read_slave:
  "si_read (rewrite_read READ_PREFER_SLAVE ip alive si) =
     (if filter (\<lambda>n. n \<in> alive) (si_read si) = [] then [si_write si]
      else filter (\<lambda>n. n \<in> alive) (si_read si))"
  by (simp add: rewrite_read_def readNodes_loop_filter Let_def READ_PREFER_MASTER_def
      READ_PREFER_SLAVE_def READ_PREFER_SLAVE_IDC_def)

lemma rewrite_read_slave_idc:
  "si_read (rewrite_read READ_PREFER_SLAVE_IDC ip alive si) =
     (if filter (\<lambda>n. n \<in> alive \<and> HasPrefix n (localIPPrefix_of ip)) (si_read si) = []
      then [si_write si]
      else filter (\<lambda>n. n \<in> alive \<and> HasPrefix n (localIPPrefix_of ip)) (si_read si))"
  by (simp add: rewrite_read_def readNodes_loop_filter Let_def READ_PREFER_MASTER_def
      READ_PREFER_SLAVE_def READ_PREFER_SLAVE_IDC_def)

lemma rewrite_read_closure:
  assumes "p = READ_PREFER_MASTER \<or> p = READ_PREFER_SLAVE \<or> p = READ_PREFER_SLAVE_IDC"
  shows "si_read (rewrite_read p ip alive si) \<noteq> []"
    and "e \<in> set (si_read (rewrite_read p ip alive si)) \<Longrightarrow> e \<in> alive \<or> e = si_write si"
  using assms
  by (auto simp: rewrite_read_master rewrite_read_slave rewrite_read_slave_idc
      split: if_splits)


text \<open>
  Claim C6. After a successful \<open>doReload\<close>, every slot record keeps its master and has a
  read list rewritten by the read preference: the master alone under \<open>READ_PREFER_MASTER\<close>;
  the replicas that are alive under \<open>READ_PREFER_SLAVE\<close>; the alive replicas whose
  endpoint starts with the local two-segment prefix under \<open>READ_PREFER_SLAVE_IDC\<close>; the
  master alone when the filtered list is empty. So the read list is never empty and each
  of its endpoints is alive or is the master.
\<close>

theorem doReload_read_preference:
  assumes ok: "doReload d localIP io = Returned (infos, None)"
    and slots: "slots_reply io = Inr orig"
    and nodes: "nodes_reply io = Inr ntext"
    and i: "i < length orig"
  shows "length infos = length orig \<and>
    si_write (infos ! i) = si_write (orig ! i) \<and>
    (readPrefer d = READ_PREFER_MASTER \<longrightarrow> si_read (infos ! i) = [si_write (orig ! i)]) \<and>
    (readPrefer d = READ_PREFER_SLAVE \<longrightarrow>
       si_read (infos ! i) =
         (if filter (node_alive (cluster_nodes_lines ntext)) (si_read (orig ! i)) = []
          then [si_write (orig ! i)]
          else filter (node_alive (cluster_nodes_lines ntext)) (si_read (orig ! i)))) \<and>
    (readPrefer d = READ_PREFER_SLAVE_IDC \<longrightarrow>
       si_read (infos ! i) =
         (if filter (\<lambda>n. node_alive (cluster_nodes_lines ntext) n
                          \<and> HasPrefix n (localIPPrefix_of localIP)) (si_read (orig ! i)) = []
          then [si_write (orig ! i)]
          else filter (\<lambda>n. node_alive (cluster_nodes_lines ntext) n
                          \<and> HasPrefix n (localIPPrefix_of localIP)) (si_read (orig ! i)))) \<and>
    (readPrefer d = READ_PREFER_MASTER \<or> readPrefer d = READ_PREFER_SLAVE
       \<or> readPrefer d = READ_PREFER_SLAVE_IDC \<longrightarrow>
       si_read (infos ! i) \<noteq> [] \<and>
       (\<forall>e \<in> set (si_read (infos ! i)).
          node_alive (cluster_nodes_lines ntext) e \<or> e = si_write (infos ! i)))"
proof -
  from ok obtain orig' ntext' alive where
    o: "slots_reply io = Inr orig'" and n: "nodes_reply io = Inr ntext'"
    and al: "aliveNodes_loop (strings_Split (strings_TrimSpace ntext') (CHR 0x0A)) {} = Some alive"
    and inf: "infos = map (rewrite_read (readPrefer d) localIP alive) orig'"
    by (rule doReload_success)
  from o slots have [simp]: "orig' = orig" by simp
  from n nodes have [simp]: "ntext' = ntext" by simp
  have mem: "\<And>x. x \<in> alive \<longleftrightarrow> node_alive (cluster_nodes_lines ntext) x"
    using aliveNodes_loop_mem[OF al] by (simp add: cluster_nodes_lines_def)
  have alive_eq: "(\<lambda>x. x \<in> alive) = node_alive (cluster_nodes_lines ntext)"
    using mem by auto
  have nth: "infos ! i = rewrite_read (readPrefer d) localIP alive (orig ! i)"
    using inf i by simp
  have len: "length infos = length orig" using inf by simp
  have m: "readPrefer d = READ_PREFER_MASTER \<Longrightarrow> si_read (infos ! i) = [si_write (orig ! i)]"
    using nth by (simp add: rewrite_read_master)
  have s: "readPrefer d = READ_PREFER_SLAVE \<Longrightarrow>
       si_read (infos ! i) =
         (if filter (node_alive (cluster_nodes_lines ntext)) (si_read (orig ! i)) = []
          then [si_write (orig ! i)]
          else filter (node_alive (cluster_nodes_lines ntext)) (si_read (orig ! i)))"
    using nth rewrite_read_slave[of localIP alive "orig ! i"] by (simp add: alive_eq)
  have c: "readPrefer d = READ_PREFER_SLAVE_IDC \<Longrightarrow>
       si_read (infos ! i) =
         (if filter (\<lambda>n. node_alive (cluster_nodes_lines ntext) n
                          \<and> HasPrefix n (localIPPrefix_of localIP)) (si_read (orig ! i)) = []
          then [si_write (orig ! i)]
          else filter (\<lambda>n. node_alive (cluster_nodes_lines ntext) n
                          \<and> HasPrefix n (localIPPrefix_of localIP)) (si_read (orig ! i)))"
    using nth rewrite_read_slave_idc[of localIP alive "orig ! i"] by (simp add: mem)
  have cl: "readPrefer d = READ_PREFER_MASTER \<or> readPrefer d = READ_PREFER_SLAVE
       \<or> readPrefer d = READ_PREFER_SLAVE_IDC \<Longrightarrow>
       si_read (infos ! i) \<noteq> [] \<and>
       (\<forall>e \<in> set (si_read (infos ! i)).
          node_alive (cluster_nodes_lines ntext) e \<or> e = si_write (infos ! i))"
    using nth rewrite_read_closure[where p = "readPrefer d" and ip = localIP and alive = alive
        and si = "orig ! i"] mem by auto
  show ?thesis using len nth m s c cl by simp
qed

lemma sample_reload_result:
  "doReload (NewDispatcher [] 1000 READ_PREFER_SLAVE_IDC) ''10.4.17.1'' sample_reload_io
     = Returned ([sample_slot\<lparr>si_read := [''10.4.0.2:7000'']\<rparr>], None)"
  by code_simp

theorem doReload_read_preference_witness:
  "doReload (NewDispatcher [] 1000 READ_PREFER_SLAVE_IDC) ''10.4.17.1'' sample_reload_io
     = Returned ([sample_slot\<lparr>si_read := [''10.4.0.2:7000'']\<rparr>], None) \<and>
   filter (\<lambda>n. node_alive (cluster_nodes_lines sample_nodes_text) n
                \<and> HasPrefix n (localIPPrefix_of ''10.4.17.1'')) (si_read sample_slot)
     = [''10.4.0.2:7000''] \<and>
   node_alive (cluster_nodes_lines sample_nodes_text) ''10.4.0.2:7000''"
proof -
  have io1: "slots_reply sample_reload_io = Inr [sample_slot]"
    and io2: "nodes_reply sample_reload_io = Inr sample_nodes_text"
    by (simp_all add: sample_reload_io_def)
  have p: "readPrefer (NewDispatcher [] 1000 READ_PREFER_SLAVE_IDC) = READ_PREFER_SLAVE_IDC"
    by (simp add: NewDispatcher_def)
  have i: "0 < length [sample_slot]" by simp
  note t = doReload_read_preference[OF sample_reload_result io1 io2 i]
  from t p have r: "si_read (sample_slot\<lparr>si_read := [''10.4.0.2:7000'']\<rparr>) =
     (if filter (\<lambda>n. node_alive (cluster_nodes_lines sample_nodes_text) n
                \<and> HasPrefix n (localIPPrefix_of ''10.4.17.1'')) (si_read sample_slot) = []
      then [si_write sample_slot]
      else filter (\<lambda>n. node_alive (cluster_nodes_lines sample_nodes_text) n
                \<and> HasPrefix n (localIPPrefix_of ''10.4.17.1'')) (si_read sample_slot))"
    by simp
  have w: "si_write sample_slot \<noteq> ''10.4.0.2:7000''" by (simp add: sample_slot_def)
  from r w have f: "filter (\<lambda>n. node_alive (cluster_nodes_lines sample_nodes_text) n
                \<and> HasPrefix n (localIPPrefix_of ''10.4.17.1'')) (si_read sample_slot)
     = [''10.4.0.2:7000'']"
    by (simp split: if_splits)
  from t p have "\<forall>e \<in> set (si_read (sample_slot\<lparr>si_read := [''10.4.0.2:7000'']\<rparr>)).
      node_alive (cluster_nodes_lines sample_nodes_text) e
      \<or> e = si_write (sample_slot\<lparr>si_read := [''10.4.0.2:7000'']\<rparr>)"
    by simp
  with w have a: "node_alive (cluster_nodes_lines sample_nodes_text) ''10.4.0.2:7000''"
    by simp
  show ?thesis using sample_reload_result f a by simp
qed


section \<open>Properties of the reload signal and the reload loop\<close>

lemma TriggerReloadSlots_returns:
  "\<not> is_closed (slotReloadChan d) \<Longrightarrow>
     TriggerReloadSlots d =
       (if queued (slotReloadChan d) < capacity (slotReloadChan d)
        then Returned (d\<lparr>slotReloadChan := (slotReloadChan d)\<lparr>queued := queued (slotReloadChan d) + 1\<rparr>\<rparr>, Sent)
        else Returned (d, Dropped))"
  by (simp add: TriggerReloadSlots_def try_send_def)

lemma TriggerReloadSlots_pending_dropped:
  "\<not> is_closed (slotReloadChan d) \<Longrightarrow> queued (slotReloadChan d) = capacity (slotReloadChan d) \<Longrightarrow>
     TriggerReloadSlots d = Returned (d, Dropped)"
  by (simp add: TriggerReloadSlots_returns)

lemma TriggerReloadSlots_bound:
  "TriggerReloadSlots d = Returned (d', r) \<Longrightarrow>
   queued (slotReloadChan d) \<le> capacity (slotReloadChan d) \<Longrightarrow>
   queued (slotReloadChan d') \<le> capacity (slotReloadChan d') \<and>
   capacity (slotReloadChan d') = capacity (slotReloadChan d) \<and>
   is_closed (slotReloadChan d') = is_closed (slotReloadChan d)"
  by (auto simp: TriggerReloadSlots_def try_send_def split: if_splits)

lemmas loop_defs = slotsReloadLoop_def time_After_def reload_select_def TriggerReloadSlots_def
  try_send_def NewDispatcher_def make_chan_def periodicReloadInterval_def Let_def

lemma reload_select_count:
  "reload_select st = Returned (st', b) \<Longrightarrow> length (reloaded st') \<le> length (reloaded st) + 1"
  by (auto simp: reload_select_def Let_def split: outcome.splits if_splits list.splits prod.splits)

lemma slotsReloadLoop_at_most_one_reload:
  "slotsReloadLoop d triggers = Returned (st, e) \<Longrightarrow> length (reloaded st) \<le> 1"
  by (auto simp: slotsReloadLoop_def time_After_def Let_def
      split: outcome.splits if_splits prod.splits bool.splits dest!: reload_select_count)


lemma deliver_is_closed:
  "deliver T d ts = Returned (d', ts') \<Longrightarrow>
     is_closed (slotReloadChan d') = is_closed (slotReloadChan d)"
proof (induction ts arbitrary: d)
  case Nil
  then show ?case by simp
next
  case (Cons t ts)
  show ?case
  proof (cases "T < t")
    case True
    with Cons.prems show ?thesis by simp
  next
    case False
    with Cons.prems obtain d1 r where
      t: "TriggerReloadSlots d = Returned (d1, r)" and d: "deliver T d1 ts = Returned (d', ts')"
      by (auto split: outcome.splits)
    from t have "is_closed (slotReloadChan d1) = is_closed (slotReloadChan d)"
      by (auto simp: TriggerReloadSlots_def try_send_def split: if_splits)
    with Cons.IH[OF d] show ?thesis by simp
  qed
qed

lemma reload_select_continues:
  assumes "reload_select st = Returned (st', b)" "\<not> is_closed (slotReloadChan (disp st))"
  shows "b"
proof -
  from assms(1) obtain d ts where d: "deliver (clock st) (disp st) (upcoming st) = Returned (d, ts)"
    by (auto simp: reload_select_def split: outcome.splits)
  from deliver_is_closed[OF d] assms(2) have "\<not> is_closed (slotReloadChan d)" by simp
  with assms(1) d show ?thesis
    by (auto simp: reload_select_def Let_def split: if_splits list.splits)
qed

text \<open>
  Claim C4 (code defect). The loop wakes on the signal or on the 60 s timer, but only
  once: \<open>for range time.After(d.slotReloadInterval)\<close> receives the single value the
  timer channel ever delivers, runs the body for it, and then waits for a second value
  that never comes. For every dispatcher and every schedule of triggers the loop calls
  \<open>reloadTopology\<close> at most once, and with an open signal channel the goroutine ends
  blocked for ever.
\<close>

theorem slotsReloadLoop_single_wakeup:
  assumes "slotsReloadLoop d triggers = Returned (st, e)"
  shows "length (reloaded st) \<le> 1 \<and> (\<not> is_closed (slotReloadChan d) \<longrightarrow> e = BlockedForever)"
proof
  show "length (reloaded st) \<le> 1" using assms by (rule slotsReloadLoop_at_most_one_reload)
  show "\<not> is_closed (slotReloadChan d) \<longrightarrow> e = BlockedForever"
  proof
    assume op: "\<not> is_closed (slotReloadChan d)"
    let ?st0 = "\<lparr>clock = max 0 (0 + slotReloadInterval d), disp = d, upcoming = triggers,
                  reloaded = []\<rparr>"
    have "b" if "reload_select ?st0 = Returned (st', b)" for st' b
      using reload_select_continues[OF that] op by simp
    with assms show "e = BlockedForever"
      by (auto simp: slotsReloadLoop_def time_After_def Let_def
          split: outcome.splits if_splits prod.splits bool.splits)
  qed
qed

lemma sample_loop_run:
  "slotsReloadLoop (NewDispatcher [] 1000 READ_PREFER_MASTER) [500, 5000, 200000]
     = Returned
        (\<lparr>clock = 1000, disp = with_queued (NewDispatcher [] 1000 READ_PREFER_MASTER) 1,
           upcoming = [], reloaded = [(ByRequest, 1000)]\<rparr>,
         BlockedForever)"
  by (simp add: loop_defs with_queued_def)

lemma sample_loop_idle:
  "slotsReloadLoop (NewDispatcher [] 1000 READ_PREFER_MASTER) []
     = Returned
        (\<lparr>clock = 61000, disp = NewDispatcher [] 1000 READ_PREFER_MASTER,
           upcoming = [], reloaded = [(Periodic, 61000)]\<rparr>,
         BlockedForever)"
  by (simp add: loop_defs)

theorem slotsReloadLoop_single_wakeup_witness:
  "slotsReloadLoop (NewDispatcher [] 1000 READ_PREFER_MASTER) [500, 5000, 200000]
     = Returned
        (\<lparr>clock = 1000, disp = with_queued (NewDispatcher [] 1000 READ_PREFER_MASTER) 1,
           upcoming = [], reloaded = [(ByRequest, 1000)]\<rparr>,
         BlockedForever) \<and>
   length [(ByRequest, 1000::nat)] \<le> 1"
  using slotsReloadLoop_single_wakeup [OF sample_loop_run] sample_loop_run by simp

lemma with_queued_simps [simp]:
  "queued (slotReloadChan (with_queued d n)) = n"
  "capacity (slotReloadChan (with_queued d n)) = capacity (slotReloadChan d)"
  "is_closed (slotReloadChan (with_queued d n)) = is_closed (slotReloadChan d)"
  "with_queued (with_queued d n) m = with_queued d m"
  "with_queued d (queued (slotReloadChan d)) = d"
  by (simp_all add: with_queued_def)

lemma TriggerReloadSlots_with_queued:
  assumes "\<not> is_closed (slotReloadChan d)" "queued (slotReloadChan d) \<le> capacity (slotReloadChan d)"
  shows "\<exists>r. TriggerReloadSlots d =
           Returned (with_queued d (min (capacity (slotReloadChan d)) (queued (slotReloadChan d) + 1)), r)"
proof (cases "queued (slotReloadChan d) < capacity (slotReloadChan d)")
  case True
  then have "min (capacity (slotReloadChan d)) (queued (slotReloadChan d) + 1) = queued (slotReloadChan d) + 1"
    by simp
  with True assms show ?thesis
    by (simp add: TriggerReloadSlots_returns with_queued_def)
next
  case False
  with assms have q: "capacity (slotReloadChan d) = queued (slotReloadChan d)"
    by simp
  have w: "with_queued d (min (capacity (slotReloadChan d)) (queued (slotReloadChan d) + 1)) = d"
    by (simp add: q)
  have "TriggerReloadSlots d = Returned (d, Dropped)"
    using False assms by (simp add: TriggerReloadSlots_returns)
  then show ?thesis unfolding w by blast
qed

lemma deliver_rest_coalesces:
  assumes "\<not> is_closed (slotReloadChan d)" "queued (slotReloadChan d) \<le> capacity (slotReloadChan d)"
  shows "deliver_rest d ts =
           Returned (with_queued d (min (capacity (slotReloadChan d)) (queued (slotReloadChan d) + length ts)))"
  using assms
proof (induction ts arbitrary: d)
  case Nil
  then show ?case by simp
next
  case (Cons t ts)
  from TriggerReloadSlots_with_queued[OF Cons.prems] obtain r where
    tr: "TriggerReloadSlots d =
           Returned (with_queued d (min (capacity (slotReloadChan d)) (queued (slotReloadChan d) + 1)), r)"
    by blast
  let ?d' = "with_queued d (min (capacity (slotReloadChan d)) (queued (slotReloadChan d) + 1))"
  have "deliver_rest ?d' ts =
      Returned (with_queued ?d' (min (capacity (slotReloadChan ?d')) (queued (slotReloadChan ?d') + length ts)))"
    by (rule Cons.IH) (use Cons.prems in simp_all)
  moreover have "min (capacity (slotReloadChan d))
       (min (capacity (slotReloadChan d)) (queued (slotReloadChan d) + 1) + length ts)
      = min (capacity (slotReloadChan d)) (queued (slotReloadChan d) + length (t # ts))"
    by simp
  ultimately show ?case using tr by simp
qed

lemma deliver_all_due:
  assumes "\<not> is_closed (slotReloadChan d)" "queued (slotReloadChan d) \<le> capacity (slotReloadChan d)"
    and "\<forall>t \<in> set ts. t \<le> T"
  shows "deliver T d ts =
           Returned (with_queued d (min (capacity (slotReloadChan d)) (queued (slotReloadChan d) + length ts)), [])"
  using assms
proof (induction ts arbitrary: d)
  case Nil
  then show ?case by simp
next
  case (Cons t ts)
  from TriggerReloadSlots_with_queued[OF Cons.prems(1,2)] obtain r where
    tr: "TriggerReloadSlots d =
           Returned (with_queued d (min (capacity (slotReloadChan d)) (queued (slotReloadChan d) + 1)), r)"
    by blast
  let ?d' = "with_queued d (min (capacity (slotReloadChan d)) (queued (slotReloadChan d) + 1))"
  have "deliver T ?d' ts =
      Returned (with_queued ?d' (min (capacity (slotReloadChan ?d')) (queued (slotReloadChan ?d') + length ts)), [])"
    by (rule Cons.IH) (use Cons.prems in simp_all)
  moreover have "min (capacity (slotReloadChan d))
       (min (capacity (slotReloadChan d)) (queued (slotReloadChan d) + 1) + length ts)
      = min (capacity (slotReloadChan d)) (queued (slotReloadChan d) + length (t # ts))"
    by simp
  moreover have "\<not> T < t" using Cons.prems(3) by auto
  ultimately show ?case using tr by simp
qed

lemma deliver_none_due:
  "ts = [] \<or> T < hd ts \<Longrightarrow> deliver T d ts = Returned (d, ts)"
  by (cases ts) auto

lemma NewDispatcher_chan [simp]:
  "slotReloadChan (NewDispatcher n i p) = \<lparr>queued = 0, capacity = 1, is_closed = False\<rparr>"
  "slotReloadInterval (NewDispatcher n i p) = i"
  by (simp_all add: NewDispatcher_def make_chan_def)

text \<open>
  One or more triggers before the first wake-up are served by one reload, and no signal
  stays queued.
\<close>

lemma slotsReloadLoop_first_interval:
  assumes "ts \<noteq> []" "\<forall>t \<in> set ts. t \<le> i"
  shows "slotsReloadLoop (NewDispatcher n i p) ts =
     Returned (\<lparr>clock = i, disp = NewDispatcher n i p, upcoming = [],
                reloaded = [(ByRequest, i)]\<rparr>, BlockedForever)"
proof -
  let ?d = "NewDispatcher n i p"
  have d: "deliver i ?d ts = Returned (with_queued ?d 1, [])"
    using deliver_all_due[of ?d ts i] assms by (cases ts) simp_all
  have w: "with_queued ?d 1\<lparr>slotReloadChan := slotReloadChan (with_queued ?d 1)\<lparr>queued := 0\<rparr>\<rparr> = ?d"
    by (simp add: with_queued_def NewDispatcher_def make_chan_def)
  show ?thesis
    using d w by (simp add: slotsReloadLoop_def time_After_def reload_select_def Let_def)
qed

text \<open>
  Claim C5 (code defect). \<open>TriggerReloadSlots\<close> never blocks and at most one signal is
  queued (the lemmas above), but a burst of triggers is served by one reload only if it
  precedes the first wake-up of the loop. The loop ranges over \<open>time.After\<close>, which
  delivers a single value, so after its first wake-up nothing receives from the signal
  channel any more: with one trigger \<open>t0\<close> before the first wake-up and any burst after it,
  the only reload is the one for \<open>t0\<close>; the burst causes none, and one signal of it stays
  queued for ever.
\<close>

theorem slotsReloadLoop_late_triggers_unserved:
  assumes "t0 \<le> i" "burst = [] \<or> i < hd burst"
  shows "slotsReloadLoop (NewDispatcher n i p) (t0 # burst) =
     Returned (\<lparr>clock = i, disp = with_queued (NewDispatcher n i p) (min 1 (length burst)),
                upcoming = [], reloaded = [(ByRequest, i)]\<rparr>, BlockedForever)"
proof -
  let ?d = "NewDispatcher n i p"
  have t: "TriggerReloadSlots ?d = Returned (with_queued ?d 1, Sent)"
    by (simp add: TriggerReloadSlots_returns with_queued_def)
  have d: "deliver i ?d (t0 # burst) = Returned (with_queued ?d 1, burst)"
    using assms t deliver_none_due[of burst i "with_queued ?d 1"] by simp
  have w: "with_queued ?d 1\<lparr>slotReloadChan := slotReloadChan (with_queued ?d 1)\<lparr>queued := 0\<rparr>\<rparr> = ?d"
    by (simp add: with_queued_def NewDispatcher_def make_chan_def)
  have r: "deliver_rest ?d burst = Returned (with_queued ?d (min 1 (length burst)))"
    using deliver_rest_coalesces[of ?d burst] by simp
  show ?thesis
    using d w r by (simp add: slotsReloadLoop_def time_After_def reload_select_def Let_def)
qed


theorem slotsReloadLoop_late_triggers_unserved_witness:
  "slotsReloadLoop (NewDispatcher [] 1000 READ_PREFER_MASTER) [500, 10000, 10100, 10200]
     = Returned
        (\<lparr>clock = 1000, disp = with_queued (NewDispatcher [] 1000 READ_PREFER_MASTER) 1,
           upcoming = [], reloaded = [(ByRequest, 1000)]\<rparr>,
         BlockedForever)"
  using slotsReloadLoop_late_triggers_unserved
          [of 500 1000 "[10000, 10100, 10200]" "[]" READ_PREFER_MASTER]
  by simp

section \<open>Properties of the writer\<close>

lemma client_seqs_append [simp]: "client_seqs (xs @ ys) = client_seqs xs @ client_seqs ys"
  by (induction xs rule: client_seqs.induct) auto

lemma inc64_no_wrap: "x < 2 ^ 63 - 1 \<Longrightarrow> inc64 x = x + 1"
  by (simp add: inc64_def)

lemma redirect_client_seqs:
  "redirect env tr srv plRsp ask = Returned (tr', p) \<Longrightarrow> client_seqs tr' = client_seqs tr"
  by (auto simp: redirect_def Let_def split: option.splits sum.splits if_splits)

lemma resolve_client_seqs:
  "resolve env tr plRsp = Returned (tr', p) \<Longrightarrow> client_seqs tr' = client_seqs tr"
  by (auto simp: resolve_def and_then_def split: option.splits if_splits outcome.splits
      dest!: redirect_client_seqs)

lemma resolve_ctx:
  "resolve env tr plRsp = Returned (tr', p) \<Longrightarrow> ctx p = ctx plRsp"
  by (auto simp: resolve_def and_then_def redirect_def Let_def
      split: option.splits if_splits outcome.splits sum.splits)

lemma written_in_order_mono:
  "written_in_order s tr \<Longrightarrow> rspSeq s \<le> rspSeq s' \<Longrightarrow> client_seqs tr' = client_seqs tr \<Longrightarrow>
     written_in_order s' tr'"
  by (auto simp: written_in_order_def list_all_iff)

lemma written_in_order_write:
  "written_in_order s tr \<Longrightarrow> rspSeq s \<le> k \<Longrightarrow> k < rspSeq s' \<Longrightarrow>
     client_seqs tr' = client_seqs tr @ [k] \<Longrightarrow> written_in_order s' tr'"
  by (auto simp: written_in_order_def list_all_iff sorted_wrt_append)

lemma writeResp_order:
  assumes "writeResp env s tr p = (s', tr', st)"
    and "written_in_order s0 tr" "rspSeq s0 = seq (ctx p)" "seq (ctx p) < 2 ^ 63 - 1"
    and "parentCmd (ctx p) = None \<longrightarrow> rspSeq s = seq (ctx p) + 1"
    and "parentCmd (ctx p) \<noteq> None \<longrightarrow> rspSeq s = seq (ctx p)"
  shows "written_in_order s' tr' \<and> rspSeq s0 \<le> rspSeq s' \<and> rspSeq s' \<le> rspSeq s0 + 1"
  using assms
  by (auto simp: writeResp_def client_Write_def Let_def inc64_no_wrap
      split: option.splits if_splits
      intro: written_in_order_mono[of s0 tr] written_in_order_write[of s0 tr])

lemma handleResp_order:
  assumes "handleResp env s tr plRsp = (s', tr', st)"
    and "written_in_order s tr" "rspSeq s < 2 ^ 63 - 1"
  shows "written_in_order s' tr' \<and> rspSeq s \<le> rspSeq s' \<and> rspSeq s' \<le> rspSeq s + 1"
proof (cases "seq (ctx plRsp) \<noteq> rspSeq s \<or> reqWg s \<le> 0")
  case True
  with assms(1) have "s' = s" "tr' = tr" by (auto simp: handleResp_def split: if_splits)
  with assms(2) show ?thesis by simp
next
  case False
  then have sq: "seq (ctx plRsp) = rspSeq s" and wg: "\<not> reqWg s \<le> 0" by auto
  define s2 where "s2 = mark_done s plRsp"
  have s2: "rspSeq s \<le> rspSeq s2" "rspSeq s2 \<le> rspSeq s + 1"
    "parentCmd (ctx plRsp) = None \<longrightarrow> rspSeq s2 = rspSeq s + 1"
    "parentCmd (ctx plRsp) \<noteq> None \<longrightarrow> rspSeq s2 = rspSeq s"
    using assms(3) by (auto simp: s2_def mark_done_def inc64_no_wrap)
  have h: "handleResp env s tr plRsp =
      (case resolve env tr plRsp of
         ProcessExit m \<Rightarrow> (s2, tr, Aborted m)
       | Panic m \<Rightarrow> (s2, tr, Aborted m)
       | Blocks m \<Rightarrow> (s2, tr, Aborted m)
       | Returned (tr', p) \<Rightarrow>
           (case err p of
              Some e \<Rightarrow> (s2, tr', Failed e)
            | None \<Rightarrow> if \<not> closed s2 then writeResp env s2 tr' p else (s2, tr', NoError)))"
    unfolding s2_def using sq wg by (simp add: handleResp_def)
  show ?thesis
  proof (cases "resolve env tr plRsp")
    case (Returned x)
    obtain tr1 p where x: "x = (tr1, p)" by (cases x)
    from Returned x have cs: "client_seqs tr1 = client_seqs tr" and cx: "ctx p = ctx plRsp"
      by (auto dest: resolve_client_seqs resolve_ctx)
    have w1: "written_in_order s tr1"
      using assms(2) cs by (auto intro: written_in_order_mono)
    show ?thesis
    proof (cases "err p = None \<and> \<not> closed s2")
      case True
      with h Returned x assms(1) have w: "writeResp env s2 tr1 p = (s', tr', st)" by simp
      from writeResp_order[OF w w1] sq cx s2 assms(3) show ?thesis by simp
    next
      case False
      with h Returned x assms(1) have "s' = s2" "tr' = tr1"
        by (auto split: option.splits if_splits)
      with s2 w1 show ?thesis by (auto intro: written_in_order_mono)
    qed
  next
    case (ProcessExit m)
    with h assms(1) have "s' = s2" "tr' = tr" by auto
    with s2 assms(2) show ?thesis by (auto intro: written_in_order_mono)
  next
    case (Panic m)
    with h assms(1) have "s' = s2" "tr' = tr" by auto
    with s2 assms(2) show ?thesis by (auto intro: written_in_order_mono)
  next
    case (Blocks m)
    with h assms(1) have "s' = s2" "tr' = tr" by auto
    with s2 assms(2) show ?thesis by (auto intro: written_in_order_mono)
  qed
qed


lemma heap_Push_length [simp]: "length (heap_Push x h) = Suc (length h)"
  by (induction h) auto

lemma drain_order:
  assumes "drain env s tr = (s', tr', st)"
    and "written_in_order s tr"
    and "rspSeq s + int (length (rspHeap s)) < 2 ^ 63"
  shows "written_in_order s' tr' \<and>
         rspSeq s' + int (length (rspHeap s')) \<le> rspSeq s + int (length (rspHeap s)) \<and>
         rspSeq s \<le> rspSeq s'"
  using assms
proof (induction env s tr arbitrary: s' tr' st rule: drain.induct)
  case (1 env s tr)
  show ?case
  proof (cases "rspHeap s")
    case Nil
    with "1.prems" show ?thesis by (subst (asm) drain.simps) (simp add: heap_Top_def)
  next
    case (Cons r rest)
    show ?thesis
    proof (cases "seq (ctx r) \<noteq> rspSeq s")
      case True
      with Cons "1.prems" show ?thesis by (subst (asm) drain.simps) (simp add: heap_Top_def)
    next
      case False
      obtain s1 tr1 st1 where h: "handleResp env (s\<lparr>rspHeap := heap_Pop (rspHeap s)\<rparr>) tr r = (s1, tr1, st1)"
        by (metis prod_cases3)
      have w0: "written_in_order (s\<lparr>rspHeap := heap_Pop (rspHeap s)\<rparr>) tr"
        using "1.prems"(2) by (simp add: written_in_order_def)
      have b0: "rspSeq (s\<lparr>rspHeap := heap_Pop (rspHeap s)\<rparr>) < 2 ^ 63 - 1"
        using "1.prems"(3) Cons by simp
      from handleResp_order[OF h w0 b0]
      have w1: "written_in_order s1 tr1" and m1: "rspSeq s \<le> rspSeq s1" "rspSeq s1 \<le> rspSeq s + 1"
        by simp_all
      from handleResp_rspHeap[OF h] Cons have hp: "rspHeap s1 = rest" by (simp add: heap_Pop_def)
      have d: "drain env s tr =
          (case st1 of NoError \<Rightarrow> drain env s1 tr1 | Failed e \<Rightarrow> (s1, tr1, Failed e)
                     | Aborted m \<Rightarrow> (s1, tr1, Aborted m))"
        using Cons False h by (subst drain.simps) (simp add: heap_Top_def split: status.splits)
      show ?thesis
      proof (cases st1)
        case NoError
        with d "1.prems"(1) have dr: "drain env s1 tr1 = (s', tr', st)" by simp
        have b1: "rspSeq s1 + int (length (rspHeap s1)) < 2 ^ 63"
          using m1 hp Cons "1.prems"(3) by simp
        have top: "heap_Top (rspHeap s) = Some r" using Cons by (simp add: heap_Top_def)
        have "written_in_order s' tr' \<and>
              rspSeq s' + int (length (rspHeap s')) \<le> rspSeq s1 + int (length (rspHeap s1)) \<and>
              rspSeq s1 \<le> rspSeq s'"
          using "1.IH"[OF top _ _ _ _ dr w1 b1] False h NoError by simp
        with m1 hp Cons show ?thesis by simp
      next
        case (Failed e)
        with d "1.prems"(1) have "s' = s1" "tr' = tr1" by simp_all
        with w1 m1 hp Cons show ?thesis by simp
      next
        case (Aborted m)
        with d "1.prems"(1) have "s' = s1" "tr' = tr1" by simp_all
        with w1 m1 hp Cons show ?thesis by simp
      qed
    qed
  qed
qed

lemma handleRespPipeline_order:
  assumes "handleRespPipeline env s tr r = (s', tr', st)"
    and "written_in_order s tr"
    and "rspSeq s + int (length (rspHeap s)) + 1 < 2 ^ 63"
  shows "written_in_order s' tr' \<and>
         rspSeq s' + int (length (rspHeap s')) \<le> rspSeq s + int (length (rspHeap s)) + 1"
proof (cases "seq (ctx r) \<noteq> rspSeq s")
  case True
  with assms show ?thesis
    by (auto simp: handleRespPipeline_def written_in_order_def)
next
  case False
  obtain s1 tr1 st1 where h: "handleResp env s tr r = (s1, tr1, st1)" by (metis prod_cases3)
  have b0: "rspSeq s < 2 ^ 63 - 1" using assms(3) by simp
  from handleResp_order[OF h assms(2) b0]
  have w1: "written_in_order s1 tr1" and m1: "rspSeq s \<le> rspSeq s1" "rspSeq s1 \<le> rspSeq s + 1"
    by simp_all
  from handleResp_rspHeap[OF h] have hp: "rspHeap s1 = rspHeap s" .
  show ?thesis
  proof (cases st1)
    case NoError
    with False h assms(1) have dr: "drain env s1 tr1 = (s', tr', st)"
      by (simp add: handleRespPipeline_def)
    have "rspSeq s1 + int (length (rspHeap s1)) < 2 ^ 63" using m1 hp assms(3) by simp
    from drain_order[OF dr w1 this] m1 hp show ?thesis by simp
  next
    case (Failed e)
    with False h assms(1) have "s' = s1" "tr' = tr1" by (simp_all add: handleRespPipeline_def)
    with w1 m1 hp show ?thesis by simp
  next
    case (Aborted m)
    with False h assms(1) have "s' = s1" "tr' = tr1" by (simp_all add: handleRespPipeline_def)
    with w1 m1 hp show ?thesis by simp
  qed
qed

lemma Close_order:
  "Close s tr = (s', tr') \<Longrightarrow> written_in_order s tr \<Longrightarrow>
     written_in_order s' tr' \<and> rspSeq s' = rspSeq s \<and> rspHeap s' = rspHeap s"
  by (auto simp: Close_def written_in_order_def split: if_splits)

lemma WritingLoop_order:
  assumes "WritingLoop env s tr rs = (s', tr', st)"
    and "written_in_order s tr"
    and "rspSeq s + int (length (rspHeap s)) + int (length rs) < 2 ^ 63"
  shows "written_in_order s' tr'"
  using assms
proof (induction rs arbitrary: s tr)
  case Nil
  then show ?case by (auto split: prod.splits dest: Close_order)
next
  case (Cons r rs)
  obtain s1 tr1 st1 where h: "handleRespPipeline env s tr r = (s1, tr1, st1)"
    by (metis prod_cases3)
  have "rspSeq s + int (length (rspHeap s)) + 1 < 2 ^ 63" using Cons.prems(3) by simp
  from handleRespPipeline_order[OF h Cons.prems(2) this]
  have w1: "written_in_order s1 tr1"
    and b1: "rspSeq s1 + int (length (rspHeap s1)) \<le> rspSeq s + int (length (rspHeap s)) + 1"
    by simp_all
  have b2: "rspSeq s1 + int (length (rspHeap s1)) + int (length rs) < 2 ^ 63"
    using b1 Cons.prems(3) by simp
  show ?case
  proof (cases st1)
    case NoError
    with h Cons.prems(1) have "WritingLoop env s1 tr1 rs = (s', tr', st)" by simp
    from Cons.IH[OF this w1 b2] show ?thesis .
  next
    case (Failed e)
    obtain s2 tr2 where c: "Close s1 tr1 = (s2, tr2)" by (cases "Close s1 tr1")
    with Failed h Cons.prems(1) have l: "WritingLoop env s2 tr2 rs = (s', tr', st)" by simp
    from Close_order[OF c w1] b2
    have "written_in_order s2 tr2" "rspSeq s2 + int (length (rspHeap s2)) + int (length rs) < 2 ^ 63"
      by simp_all
    from Cons.IH[OF l this] show ?thesis .
  next
    case (Aborted m)
    with h Cons.prems(1) have "s' = s1" "tr' = tr1" by simp_all
    with w1 show ?thesis by simp
  qed
qed


lemma handleRespPipeline_early:
  "seq (ctx r) \<noteq> rspSeq s \<Longrightarrow>
     handleRespPipeline env s tr r = (s\<lparr>rspHeap := heap_Push r (rspHeap s)\<rparr>, tr, NoError)"
  by (simp add: handleRespPipeline_def)

lemma handleRespPipeline_due:
  "seq (ctx r) = rspSeq s \<Longrightarrow>
     handleRespPipeline env s tr r =
       (case handleResp env s tr r of
          (s1, tr1, NoError) \<Rightarrow> drain env s1 tr1
        | (s1, tr1, Failed e) \<Rightarrow> (s1, tr1, Failed e)
        | (s1, tr1, Aborted m) \<Rightarrow> (s1, tr1, Aborted m))"
  by (simp add: handleRespPipeline_def)

lemma drain_settles:
  "drain env s tr = (s', tr', NoError) \<Longrightarrow> heap_settled s'"
proof (induction env s tr arbitrary: s' tr' rule: drain.induct)
  case (1 env s tr)
  show ?case
  proof (cases "heap_Top (rspHeap s)")
    case None
    with "1.prems" show ?thesis by (subst (asm) drain.simps) (auto simp: heap_settled_def)
  next
    case (Some r)
    show ?thesis
    proof (cases "seq (ctx r) \<noteq> rspSeq s")
      case True
      with Some "1.prems" show ?thesis by (subst (asm) drain.simps) (auto simp: heap_settled_def)
    next
      case False
      obtain s1 tr1 st1 where h: "handleResp env (s\<lparr>rspHeap := heap_Pop (rspHeap s)\<rparr>) tr r = (s1, tr1, st1)"
        by (metis prod_cases3)
      from "1.prems" Some False h have st1: "st1 = NoError" and d: "drain env s1 tr1 = (s', tr', NoError)"
        by (subst (asm) drain.simps; simp split: status.splits)+
      from "1.IH"[OF Some _ _ _ _ d] False h st1 show ?thesis by simp
    qed
  qed
qed


text \<open>
  The order of the writes. Whatever the session's environment does and in whatever order
  the responses arrive, the writes to the client go out in strictly increasing order of
  \<open>seq\<close> (as long as the 64-bit counter \<open>rspSeq\<close> cannot wrap). A response whose \<open>seq\<close>
  is not \<open>rspSeq\<close> is pushed on the heap and nothing is written; one whose \<open>seq\<close> is
  \<open>rspSeq\<close> is handled at once, and the heap is drained after it when \<open>handleResp\<close>
  returns no error; a drain that ends without an error leaves a heap whose top is not
  the response \<open>rspSeq\<close> waits for.
\<close>

theorem responses_written_in_seq_order:
  assumes "written_in_order s tr"
    and "rspSeq s + int (length (rspHeap s)) + int (length arrivals) < 2 ^ 63"
  shows "sorted_wrt (<) (client_seqs (fst (snd (WritingLoop env s tr arrivals)))) \<and>
    (seq (ctx r) \<noteq> rspSeq s \<longrightarrow>
       handleRespPipeline env s tr r = (s\<lparr>rspHeap := heap_Push r (rspHeap s)\<rparr>, tr, NoError)) \<and>
    (seq (ctx r) = rspSeq s \<longrightarrow>
       handleRespPipeline env s tr r =
         (case handleResp env s tr r of
            (s1, tr1, NoError) \<Rightarrow> drain env s1 tr1
          | (s1, tr1, Failed e) \<Rightarrow> (s1, tr1, Failed e)
          | (s1, tr1, Aborted m) \<Rightarrow> (s1, tr1, Aborted m))) \<and>
    (snd (snd (drain env s tr)) = NoError \<longrightarrow> heap_settled (fst (drain env s tr)))"
proof -
  obtain s' tr' st where w: "WritingLoop env s tr arrivals = (s', tr', st)"
    by (metis prod_cases3)
  from WritingLoop_order[OF w assms] have "sorted_wrt (<) (client_seqs tr')"
    by (simp add: written_in_order_def)
  with w have a: "sorted_wrt (<) (client_seqs (fst (snd (WritingLoop env s tr arrivals))))"
    by simp
  have d: "snd (snd (drain env s tr)) = NoError \<longrightarrow> heap_settled (fst (drain env s tr))"
  proof
    assume n: "snd (snd (drain env s tr)) = NoError"
    obtain s1 tr1 st1 where e: "drain env s tr = (s1, tr1, st1)" by (metis prod_cases3)
    with n have "drain env s tr = (s1, tr1, NoError)" by simp
    from drain_settles[OF this] e show "heap_settled (fst (drain env s tr))" by simp
  qed
  show ?thesis
    using a d handleRespPipeline_early[of r s env tr] handleRespPipeline_due[of r s env tr]
    by blast
qed

lemma sample_writing_run:
  "fst (snd (WritingLoop (sample_env []) (sample_session [] 0 2) [] sample_arrivals))
     = [ClientWrite 0 (''$1'' @ CRLF @ ''A'' @ CRLF) None,
        ClientWrite 1 (''$1'' @ CRLF @ ''B'' @ CRLF) None, ClientClose]"
  by code_simp

theorem responses_written_in_seq_order_witness:
  "fst (snd (WritingLoop (sample_env []) (sample_session [] 0 2) [] sample_arrivals))
     = [ClientWrite 0 (''$1'' @ CRLF @ ''A'' @ CRLF) None,
        ClientWrite 1 (''$1'' @ CRLF @ ''B'' @ CRLF) None, ClientClose] \<and>
   sorted_wrt (<) (client_seqs (fst (snd (WritingLoop (sample_env []) (sample_session [] 0 2) []
      sample_arrivals)))) \<and>
   handleRespPipeline (sample_env []) (sample_session [] 0 2) [] (hd sample_arrivals)
     = ((sample_session [] 0 2)\<lparr>rspHeap := [hd sample_arrivals]\<rparr>, [], NoError)"
proof -
  have i: "written_in_order (sample_session [] 0 2) []"
    by (simp add: written_in_order_def)
  have b: "rspSeq (sample_session [] 0 2) + int (length (rspHeap (sample_session [] 0 2)))
      + int (length sample_arrivals) < 2 ^ 63"
    by (simp add: sample_session_def sample_arrivals_def)
  have n: "seq (ctx (hd sample_arrivals)) \<noteq> rspSeq (sample_session [] 0 2)"
    by (simp add: sample_session_def sample_arrivals_def sample_response_def)
  have h: "heap_Push (hd sample_arrivals) (rspHeap (sample_session [] 0 2)) = [hd sample_arrivals]"
    by (simp add: sample_session_def)
  from responses_written_in_seq_order[OF i b, of "sample_env []" "hd sample_arrivals"] n h
  show ?thesis using sample_writing_run by simp
qed


text \<open>
  Responses that are all early are pushed one after the other and nothing else happens.
\<close>

lemma heap_Push_set: "set (heap_Push x h) = insert x (set h)"
  by (induction h) auto

lemma foldl_heap_Push_set:
  "set (foldl (\<lambda>h x. heap_Push x h) h xs) = set h \<union> set xs"
  by (induction xs arbitrary: h) (auto simp: heap_Push_set)

lemma WritingLoop_all_early:
  assumes "\<forall>x \<in> set later. seq (ctx x) \<noteq> rspSeq s"
  shows "WritingLoop env s tr later =
     (case Close (s\<lparr>rspHeap := foldl (\<lambda>h x. heap_Push x h) (rspHeap s) later\<rparr>) tr of
        (s', tr') \<Rightarrow> (s', tr', NoError))"
  using assms
proof (induction later arbitrary: s)
  case Nil
  then show ?case by simp
next
  case (Cons x xs)
  from Cons.prems have x: "seq (ctx x) \<noteq> rspSeq s" by simp
  let ?s = "s\<lparr>rspHeap := heap_Push x (rspHeap s)\<rparr>"
  have "\<forall>y \<in> set xs. seq (ctx y) \<noteq> rspSeq ?s" using Cons.prems by simp
  from Cons.IH[OF this] x show ?case by (simp add: handleRespPipeline_def)
qed

text \<open>
  The replies number 0, 2 and 3 reach the writer of the sample session. With a broken
  client connection the write of reply 0 fails; on a session that was closed before,
  nothing is written, \<open>handleResp\<close> returns nil and the heap is drained.
\<close>

lemma sample_stranded_failure:
  "handleResp sample_broken_client sample_stranded_session [] (sample_arrivals ! 1) =
     (sample_stranded_session\<lparr>reqWg := 3, rspSeq := 1\<rparr>,
      [ClientWrite 0 (''$1'' @ CRLF @ ''A'' @ CRLF) (Some ''broken pipe'')],
      Failed ''broken pipe'')"
  by (simp add: handleResp_def resolve_def writeResp_def client_Write_def
      mark_done_def sample_broken_client_def sample_env_def sample_stranded_session_def
      sample_session_def sample_arrivals_def sample_response_def inc64_def CRLF_def T_Error_def)

lemma sample_closed_session_drains:
  "(case WritingLoop sample_broken_client (sample_stranded_session\<lparr>closed := True\<rparr>) []
          (sample_arrivals ! 1 # sample_later) of
      (s', tr', st) \<Rightarrow> (reqWg s', rspSeq s', rspHeap s', tr', st))
   = (0, 4, [], [], NoError)"
  by code_simp

text \<open>
  Claim C1 (code defect). The writes go out in order and an early response is pushed, but
  a due response is not always followed by the drain of the heap: when \<open>handleResp\<close>
  returns an error, \<open>handleRespPipeline\<close> returns before its loop. If the response that
  \<open>rspSeq\<close> now waits for is already on the heap, it stays there: \<open>WritingLoop\<close> closes
  the session and goes on, every later response is early and is pushed, none of them is
  handled, and the wait group is never counted down for them, so the reader's
  \<open>reqWg.Wait()\<close> does not return.
\<close>

theorem failed_response_strands_heap:
  assumes due: "seq (ctx r) = rspSeq s"
    and failed: "handleResp env s tr r = (s1, tr1, Failed e)"
    and waiting: "heap_Top (rspHeap s) = Some t" "seq (ctx t) = rspSeq s1"
    and later: "\<forall>x \<in> set later. seq (ctx x) \<noteq> rspSeq s1"
  shows "handleRespPipeline env s tr r = (s1, tr1, Failed e) \<and>
    heap_Top (rspHeap s1) = Some t \<and> \<not> heap_settled s1 \<and>
    WritingLoop env s tr (r # later) =
      (s1\<lparr>closed := True, rspHeap := foldl (\<lambda>h x. heap_Push x h) (rspHeap s) later\<rparr>,
       snd (Close s1 tr1), NoError) \<and>
    t \<in> set (rspHeap (fst (WritingLoop env s tr (r # later)))) \<and>
    reqWg (fst (WritingLoop env s tr (r # later))) = reqWg s1 \<and>
    rspSeq (fst (WritingLoop env s tr (r # later))) = rspSeq s1 \<and>
    client_seqs (fst (snd (WritingLoop env s tr (r # later)))) = client_seqs tr1"
proof -
  have p: "handleRespPipeline env s tr r = (s1, tr1, Failed e)"
    using due failed by (simp add: handleRespPipeline_def)
  have h: "rspHeap s1 = rspHeap s" using handleResp_rspHeap[OF failed] .
  have top: "heap_Top (rspHeap s1) = Some t" using h waiting(1) by simp
  have ns: "\<not> heap_settled s1" using top waiting(2) by (simp add: heap_settled_def)
  let ?s2 = "fst (Close s1 tr1)"
  let ?tr2 = "snd (Close s1 tr1)"
  have c: "?s2 = s1\<lparr>closed := True\<rparr>" by (simp add: Close_def)
  have cs: "client_seqs ?tr2 = client_seqs tr1"
    by (simp add: Close_def)
  have l2: "\<forall>x \<in> set later. seq (ctx x) \<noteq> rspSeq ?s2" using later c by simp
  have w: "WritingLoop env s tr (r # later) = WritingLoop env ?s2 ?tr2 later"
    using p by (simp add: case_prod_beta)
  have w2: "WritingLoop env ?s2 ?tr2 later =
      (s1\<lparr>closed := True, rspHeap := foldl (\<lambda>h x. heap_Push x h) (rspHeap s) later\<rparr>,
       ?tr2, NoError)"
    unfolding WritingLoop_all_early[OF l2] using c h by (simp add: Close_def)
  have m: "t \<in> set (rspHeap s)" using waiting(1) by (auto simp: heap_Top_def split: list.splits)
  show ?thesis using p top ns w w2 cs m by (simp add: foldl_heap_Push_set)
qed

theorem failed_response_strands_heap_witness:
  "WritingLoop sample_broken_client sample_stranded_session [] (sample_arrivals ! 1 # sample_later)
     = (sample_stranded_session\<lparr>reqWg := 3, rspSeq := 1, closed := True,
          rspHeap := hd sample_arrivals # sample_later\<rparr>,
        [ClientWrite 0 (''$1'' @ CRLF @ ''A'' @ CRLF) (Some ''broken pipe''), ClientClose],
        NoError) \<and>
   map (\<lambda>x. seq (ctx x)) (hd sample_arrivals # sample_later) = [1, 2, 3] \<and>
   \<not> heap_settled (sample_stranded_session\<lparr>reqWg := 3, rspSeq := 1\<rparr>)"
proof -
  have d: "seq (ctx (sample_arrivals ! 1)) = rspSeq sample_stranded_session"
    by (simp add: sample_arrivals_def sample_response_def sample_stranded_session_def
        sample_session_def)
  have t: "heap_Top (rspHeap sample_stranded_session) = Some (hd sample_arrivals)"
    by (simp add: sample_stranded_session_def heap_Top_def)
  have k: "seq (ctx (hd sample_arrivals))
      = rspSeq (sample_stranded_session\<lparr>reqWg := 3, rspSeq := 1\<rparr>)"
    by (simp add: sample_arrivals_def sample_response_def)
  have l: "\<forall>x \<in> set sample_later.
      seq (ctx x) \<noteq> rspSeq (sample_stranded_session\<lparr>reqWg := 3, rspSeq := 1\<rparr>)"
    by (simp add: sample_later_def sample_response_def)
  have f: "foldl (\<lambda>h x. heap_Push x h) (rspHeap sample_stranded_session) sample_later
      = hd sample_arrivals # sample_later"
    by (simp add: sample_stranded_session_def sample_later_def sample_arrivals_def
        sample_response_def)
  have c: "snd (Close (sample_stranded_session\<lparr>reqWg := 3, rspSeq := 1\<rparr>)
        [ClientWrite 0 (''$1'' @ CRLF @ ''A'' @ CRLF) (Some ''broken pipe'')])
      = [ClientWrite 0 (''$1'' @ CRLF @ ''A'' @ CRLF) (Some ''broken pipe''), ClientClose]"
    by (simp add: Close_def sample_stranded_session_def sample_session_def)
  have m: "map (\<lambda>x. seq (ctx x)) (hd sample_arrivals # sample_later) = [1, 2, 3]"
    by (simp add: sample_later_def sample_arrivals_def sample_response_def)
  note th = failed_response_strands_heap[OF d sample_stranded_failure t k l]
  from th have w: "WritingLoop sample_broken_client sample_stranded_session []
       (sample_arrivals ! 1 # sample_later)
     = (sample_stranded_session\<lparr>reqWg := 3, rspSeq := 1, closed := True,
          rspHeap := hd sample_arrivals # sample_later\<rparr>,
        [ClientWrite 0 (''$1'' @ CRLF @ ''A'' @ CRLF) (Some ''broken pipe''), ClientClose],
        NoError)"
    unfolding f c by blast
  from th have n: "\<not> heap_settled (sample_stranded_session\<lparr>reqWg := 3, rspSeq := 1\<rparr>)"
    by blast
  from w m n show ?thesis by blast
qed



lemma HasPrefix_MOVED_error: "HasPrefix raw MOVED \<Longrightarrow> raw \<noteq> [] \<and> hd raw = T_Error"
  by (cases raw) (auto simp: HasPrefix_def MOVED_def T_Error_def)

lemma HasPrefix_take:
  assumes "HasPrefix s pre" "n \<le> length pre"
  shows "take n s = take n pre"
proof -
  have "take n (take (length pre) s) = take n s" using assms(2) by (simp add: min_def)
  with assms(1) show ?thesis by (simp add: HasPrefix_def)
qed

lemma HasPrefix_ASK_error:
  assumes "HasPrefix raw ASK"
  shows "raw \<noteq> [] \<and> hd raw = T_Error \<and> \<not> HasPrefix raw MOVED"
proof -
  have a: "take 2 raw = ''-A''" using HasPrefix_take[OF assms, of 2] by (simp add: ASK_def)
  have "take 2 raw = ''-M''" if "HasPrefix raw MOVED"
    using HasPrefix_take[OF that, of 2] by (simp add: MOVED_def)
  with a have "\<not> HasPrefix raw MOVED" by auto
  moreover from assms have "raw \<noteq> [] \<and> hd raw = T_Error"
    by (cases raw) (auto simp: HasPrefix_def ASK_def T_Error_def)
  ultimately show ?thesis by simp
qed

lemma redirect_success_moved:
  assumes "cmd (ctx plRsp) = Some c" "err plRsp = None"
    and "dial env tr srv = None"
    and "conn_write env (tr @ [Dial srv]) srv (FormatOf c) = None"
    and "conn_read env (tr @ [Dial srv, ConnWrite srv (FormatOf c)]) srv = Inr obj"
  shows "redirect env tr srv plRsp False =
     Returned (tr @ [Dial srv, ConnWrite srv (FormatOf c), ConnRead srv, ConnClose srv],
               plRsp\<lparr>rsp := Some obj\<rparr>)"
  using assms by (simp add: redirect_def)

lemma redirect_success_ask:
  assumes "cmd (ctx plRsp) = Some c" "err plRsp = None"
    and "dial env tr srv = None"
    and "conn_write env (tr @ [Dial srv]) srv (RawBytes ASK_CMD_BYTES) = None"
    and "conn_write env (tr @ [Dial srv, ConnWrite srv (RawBytes ASK_CMD_BYTES)]) srv (FormatOf c) = None"
    and "conn_read env (tr @ [Dial srv, ConnWrite srv (RawBytes ASK_CMD_BYTES),
                                ConnWrite srv (FormatOf c)]) srv = Inr discarded"
    and "conn_read env (tr @ [Dial srv, ConnWrite srv (RawBytes ASK_CMD_BYTES),
                                ConnWrite srv (FormatOf c), ConnRead srv]) srv = Inr obj"
  shows "redirect env tr srv plRsp True =
     Returned (tr @ [Dial srv, ConnWrite srv (RawBytes ASK_CMD_BYTES), ConnWrite srv (FormatOf c),
                     ConnRead srv, ConnRead srv, ConnClose srv],
               plRsp\<lparr>rsp := Some obj\<rparr>)"
  using assms by (simp add: redirect_def)

text \<open>
  Claim C2, as amended. With a well-formed payload and a target that can be dialled and
  written to: on \<open>-MOVED\<close> the writer triggers a slot reload, dials the named endpoint,
  sends the original command, reads one reply, closes the connection and puts the reply
  in the place of the \<open>-MOVED\<close>; on \<open>-ASK\<close> it triggers no reload, dials, sends \<open>ASKING\<close>
  and then the original command, and only then reads twice: the first reply is dropped,
  the second one is put in the place of the \<open>-ASK\<close>.
\<close>

theorem resolve_redirects:
  assumes "err plRsp = None" "rsp plRsp = Some raw" "cmd (ctx plRsp) = Some c"
    and "ParseRedirectInfo raw = Returned (n, srv)"
    and "\<forall>t x. dial env t x = None"
    and "\<forall>t x p. conn_write env t x p = None"
  shows
   "(HasPrefix raw MOVED \<and>
     conn_read env (tr @ [TriggerReload, Dial srv, ConnWrite srv (FormatOf c)]) srv = Inr obj \<longrightarrow>
       resolve env tr plRsp =
         Returned (tr @ [TriggerReload, Dial srv, ConnWrite srv (FormatOf c), ConnRead srv,
                         ConnClose srv],
                   plRsp\<lparr>rsp := Some obj\<rparr>)) \<and>
    (HasPrefix raw ASK \<and>
     conn_read env (tr @ [Dial srv, ConnWrite srv (RawBytes ASK_CMD_BYTES),
                           ConnWrite srv (FormatOf c)]) srv = Inr discarded \<and>
     conn_read env (tr @ [Dial srv, ConnWrite srv (RawBytes ASK_CMD_BYTES),
                           ConnWrite srv (FormatOf c), ConnRead srv]) srv = Inr obj \<longrightarrow>
       resolve env tr plRsp =
         Returned (tr @ [Dial srv, ConnWrite srv (RawBytes ASK_CMD_BYTES),
                         ConnWrite srv (FormatOf c), ConnRead srv, ConnRead srv, ConnClose srv],
                   plRsp\<lparr>rsp := Some obj\<rparr>))"
proof (intro conjI impI)
  assume a: "HasPrefix raw MOVED \<and>
     conn_read env (tr @ [TriggerReload, Dial srv, ConnWrite srv (FormatOf c)]) srv = Inr obj"
  from a HasPrefix_MOVED_error have e: "raw \<noteq> []" "hd raw = T_Error" by auto
  have "redirect env (tr @ [TriggerReload]) srv plRsp False =
     Returned ((tr @ [TriggerReload]) @ [Dial srv, ConnWrite srv (FormatOf c), ConnRead srv, ConnClose srv],
               plRsp\<lparr>rsp := Some obj\<rparr>)"
    by (rule redirect_success_moved) (use assms a in simp_all)
  then show "resolve env tr plRsp =
         Returned (tr @ [TriggerReload, Dial srv, ConnWrite srv (FormatOf c), ConnRead srv,
                         ConnClose srv],
                   plRsp\<lparr>rsp := Some obj\<rparr>)"
    using assms a e by (simp add: resolve_def and_then_def)
next
  assume a: "HasPrefix raw ASK \<and>
     conn_read env (tr @ [Dial srv, ConnWrite srv (RawBytes ASK_CMD_BYTES),
                           ConnWrite srv (FormatOf c)]) srv = Inr discarded \<and>
     conn_read env (tr @ [Dial srv, ConnWrite srv (RawBytes ASK_CMD_BYTES),
                           ConnWrite srv (FormatOf c), ConnRead srv]) srv = Inr obj"
  from a HasPrefix_ASK_error have e: "raw \<noteq> []" "hd raw = T_Error" "\<not> HasPrefix raw MOVED" by auto
  have "redirect env tr srv plRsp True =
     Returned (tr @ [Dial srv, ConnWrite srv (RawBytes ASK_CMD_BYTES), ConnWrite srv (FormatOf c),
                     ConnRead srv, ConnRead srv, ConnClose srv],
               plRsp\<lparr>rsp := Some obj\<rparr>)"
    by (rule redirect_success_ask) (use assms a in simp_all)
  then show "resolve env tr plRsp =
         Returned (tr @ [Dial srv, ConnWrite srv (RawBytes ASK_CMD_BYTES),
                         ConnWrite srv (FormatOf c), ConnRead srv, ConnRead srv, ConnClose srv],
                   plRsp\<lparr>rsp := Some obj\<rparr>)"
    using assms a e by (simp add: resolve_def and_then_def)
qed



lemma sample_ask_parse:
  "ParseRedirectInfo (''-ASK 1234 10.0.0.2:6379'' @ CRLF) = Returned (1234, ''10.0.0.2:6379'')"
  by code_simp

lemma sample_moved_parse:
  "ParseRedirectInfo sample_moved = Returned (1234, ''10.0.0.2:6379'')"
  by code_simp

theorem resolve_redirects_witness:
  "resolve (sample_env [''$3'' @ CRLF @ ''abc'' @ CRLF]) [] sample_moved_response =
     Returned ([TriggerReload, Dial ''10.0.0.2:6379'',
                ConnWrite ''10.0.0.2:6379'' (FormatOf [''GET'', ''k'']),
                ConnRead ''10.0.0.2:6379'', ConnClose ''10.0.0.2:6379''],
               sample_moved_response\<lparr>rsp := Some (''$3'' @ CRLF @ ''abc'' @ CRLF)\<rparr>) \<and>
   resolve sample_redirect_env [] sample_ask_response =
     Returned ([Dial ''10.0.0.2:6379'',
                ConnWrite ''10.0.0.2:6379'' (RawBytes ASK_CMD_BYTES),
                ConnWrite ''10.0.0.2:6379'' (FormatOf [''GET'', ''k'']),
                ConnRead ''10.0.0.2:6379'', ConnRead ''10.0.0.2:6379'',
                ConnClose ''10.0.0.2:6379''],
               sample_ask_response\<lparr>rsp := Some (''$3'' @ CRLF @ ''abc'' @ CRLF)\<rparr>)"
proof -
  have m: "err sample_moved_response = None" "rsp sample_moved_response = Some sample_moved"
    "cmd (ctx sample_moved_response) = Some [''GET'', ''k'']"
    by (simp_all add: sample_moved_response_def sample_response_def)
  have a: "err sample_ask_response = None"
    "rsp sample_ask_response = Some (''-ASK 1234 10.0.0.2:6379'' @ CRLF)"
    "cmd (ctx sample_ask_response) = Some [''GET'', ''k'']"
    by (simp_all add: sample_ask_response_def sample_response_def)
  have d: "\<forall>t x. dial (sample_env rs) t x = None"
    and w: "\<forall>t x p. conn_write (sample_env rs) t x p = None" for rs
    by (simp_all add: sample_env_def)
  have pm: "HasPrefix sample_moved MOVED"
    by (simp add: HasPrefix_def sample_moved_def MOVED_def)
  have pa: "HasPrefix (''-ASK 1234 10.0.0.2:6379'' @ CRLF) ASK"
    by (simp add: HasPrefix_def ASK_def)
  have rm: "conn_read (sample_env [''$3'' @ CRLF @ ''abc'' @ CRLF])
      ([] @ [TriggerReload, Dial ''10.0.0.2:6379'',
             ConnWrite ''10.0.0.2:6379'' (FormatOf [''GET'', ''k''])]) ''10.0.0.2:6379''
      = Inr (''$3'' @ CRLF @ ''abc'' @ CRLF)"
    by (simp add: sample_env_def)
  have ra1: "conn_read sample_redirect_env
      ([] @ [Dial ''10.0.0.2:6379'', ConnWrite ''10.0.0.2:6379'' (RawBytes ASK_CMD_BYTES),
             ConnWrite ''10.0.0.2:6379'' (FormatOf [''GET'', ''k''])]) ''10.0.0.2:6379''
      = Inr (''+OK'' @ CRLF)"
    by (simp add: sample_env_def sample_redirect_env_def)
  have ra2: "conn_read sample_redirect_env
      ([] @ [Dial ''10.0.0.2:6379'', ConnWrite ''10.0.0.2:6379'' (RawBytes ASK_CMD_BYTES),
             ConnWrite ''10.0.0.2:6379'' (FormatOf [''GET'', ''k'']),
             ConnRead ''10.0.0.2:6379'']) ''10.0.0.2:6379''
      = Inr (''$3'' @ CRLF @ ''abc'' @ CRLF)"
    by (simp add: sample_env_def sample_redirect_env_def)
  from resolve_redirects[OF m sample_moved_parse d w,
      where rs2 = "[''$3'' @ CRLF @ ''abc'' @ CRLF]" and tr = "[]"
        and obj = "''$3'' @ CRLF @ ''abc'' @ CRLF"] pm rm
  have 1: "resolve (sample_env [''$3'' @ CRLF @ ''abc'' @ CRLF]) [] sample_moved_response =
     Returned ([] @ [TriggerReload, Dial ''10.0.0.2:6379'',
                ConnWrite ''10.0.0.2:6379'' (FormatOf [''GET'', ''k'']),
                ConnRead ''10.0.0.2:6379'', ConnClose ''10.0.0.2:6379''],
               sample_moved_response\<lparr>rsp := Some (''$3'' @ CRLF @ ''abc'' @ CRLF)\<rparr>)"
    by blast
  from resolve_redirects[OF a sample_ask_parse d[of "[''+OK'' @ CRLF, ''$3'' @ CRLF @ ''abc'' @ CRLF]"]
      w[of "[''+OK'' @ CRLF, ''$3'' @ CRLF @ ''abc'' @ CRLF]"],
      folded sample_redirect_env_def, where tr = "[]" and discarded = "''+OK'' @ CRLF"
        and obj = "''$3'' @ CRLF @ ''abc'' @ CRLF"] pa ra1 ra2
  have 2: "resolve sample_redirect_env [] sample_ask_response =
     Returned ([] @ [Dial ''10.0.0.2:6379'',
                ConnWrite ''10.0.0.2:6379'' (RawBytes ASK_CMD_BYTES),
                ConnWrite ''10.0.0.2:6379'' (FormatOf [''GET'', ''k'']),
                ConnRead ''10.0.0.2:6379'', ConnRead ''10.0.0.2:6379'',
                ConnClose ''10.0.0.2:6379''],
               sample_ask_response\<lparr>rsp := Some (''$3'' @ CRLF @ ''abc'' @ CRLF)\<rparr>)"
    by blast
  from 1 2 show ?thesis by simp
qed

lemma sample_ask_run:
  "fst (snd (handleResp sample_redirect_env (sample_session [] 0 1) [] sample_ask_response)) =
     [Dial ''10.0.0.2:6379'',
      ConnWrite ''10.0.0.2:6379'' (RawBytes ASK_CMD_BYTES),
      ConnWrite ''10.0.0.2:6379'' (FormatOf [''GET'', ''k'']),
      ConnRead ''10.0.0.2:6379'', ConnRead ''10.0.0.2:6379'',
      ConnClose ''10.0.0.2:6379'',
      ClientWrite 0 (''$3'' @ CRLF @ ''abc'' @ CRLF) None]"
  by code_simp

text \<open>
  The claim as worded has the reply to \<open>ASKING\<close> read before the command is sent. The
  code writes both before it reads.
\<close>

theorem ask_exchange_counterexample:
  "conn_events (fst (snd (handleResp sample_redirect_env (sample_session [] 0 1) []
       sample_ask_response))) =
     [Dial ''10.0.0.2:6379'',
      ConnWrite ''10.0.0.2:6379'' (RawBytes ASK_CMD_BYTES),
      ConnWrite ''10.0.0.2:6379'' (FormatOf [''GET'', ''k'']),
      ConnRead ''10.0.0.2:6379'', ConnRead ''10.0.0.2:6379'',
      ConnClose ''10.0.0.2:6379''] \<and>
   conn_events (fst (snd (handleResp sample_redirect_env (sample_session [] 0 1) []
       sample_ask_response))) \<noteq> ask_exchange_as_claimed ''10.0.0.2:6379'' [''GET'', ''k'']"
  by (simp add: sample_ask_run ask_exchange_as_claimed_def)


section \<open>Properties of the reader\<close>

lemma and_then_Returned [simp]: "and_then (Returned x) f = f x"
  by (simp add: and_then_def)

lemma ReadingLoop_append:
  "ReadingLoop lib env s tr (xs @ ys) =
     and_then (ReadingLoop lib env s tr xs) (\<lambda>(s', tr'). ReadingLoop lib env s' tr' ys)"
proof (induction xs arbitrary: s tr)
  case Nil
  then show ?case by simp
next
  case (Cons c xs)
  show ?case
    by (cases "handle lib env s tr c") (auto simp: and_then_def Cons.IH)
qed

lemma handle_gate:
  assumes "CmdAuthRequired lib c" "\<not> checkAuth s"
  shows "handle lib env s tr c =
     Returned (answered s, tr @ [local_reply (sessQ s) (reqSeq s) T_Error NOAUTH_ERR])"
  using assms by (simp add: handle_def handleErrorCmd_def answered_def local_reply_def)

lemma handle_buffer_open:
  assumes "CmdAuthRequired lib c \<longrightarrow> checkAuth s" "multiCmd s = Some buf"
  shows "handle lib env s tr c = handleMultiCmd lib env s tr c"
  using assms by (auto simp: handle_def)

lemma handleMultiCmd_nested:
  assumes "Name c = ''MULTI''" "multiCmd s = Some buf"
  shows "handleMultiCmd lib env s tr c =
     Returned (answered s,
       tr @ [local_reply (sessQ s) (reqSeq s) T_Error ''ERR MULTI calls can not be nested''])"
  using assms by (simp add: handleMultiCmd_def handleErrorCmd_def answered_def local_reply_def)

lemma handleMultiCmd_queued:
  assumes "Name c \<noteq> ''MULTI''" "Name c \<noteq> ''EXEC''" "multiCmd s = Some buf"
    and "CmdFlag lib c = CMD_FLAG_GENERAL lib \<or> CmdFlag lib c = CMD_FLAG_READ lib"
  shows "handleMultiCmd lib env s tr c =
     Returned (answered (s\<lparr>multiCmd := Some (buf @ [c])\<rparr>),
       tr @ [local_reply (sessQ s) (reqSeq s) T_SimpleString ''QUEUED''])"
  using assms
  by (auto simp: handleMultiCmd_def handleSimpleStringCmd_def answered_def local_reply_def)

lemma handleMultiCmd_rejected:
  assumes "Name c \<noteq> ''MULTI''" "Name c \<noteq> ''EXEC''"
    and "CmdFlag lib c \<noteq> CMD_FLAG_GENERAL lib" "CmdFlag lib c \<noteq> CMD_FLAG_READ lib"
  shows "handleMultiCmd lib env s tr c =
     Returned (answered (s\<lparr>multiCmdErr := True\<rparr>),
       tr @ [local_reply (sessQ s) (reqSeq s) T_Error UNKNOWN_CMD_ERR])"
  using assms
  by (simp add: handleMultiCmd_def handleErrorCmd_def answered_def local_reply_def)

lemma handleMultiCmd_abort:
  assumes "Name c = ''EXEC''" "multiCmd s = Some buf" "multiCmdErr s"
  shows "handleMultiCmd lib env s tr c =
     Returned ((answered s)\<lparr>multiCmdErr := False, multiCmd := None\<rparr>,
       tr @ [local_reply (sessQ s) (reqSeq s) T_Error ''EXECABORT Transaction discarded''])"
  using assms
  by (simp add: handleMultiCmd_def handleErrorCmd_def answered_def local_reply_def)

lemma answered_simps [simp]:
  "multiCmd (answered s) = multiCmd s" "multiCmdErr (answered s) = multiCmdErr s"
  "auth (answered s) = auth s" "valkeyConn (answered s) = valkeyConn s"
  "sessQ (answered s) = sessQ s" "checkAuth (answered s) = checkAuth s"
  "reqSeq (answered s) = inc64 (reqSeq s)" "reqWg (answered s) = reqWg s + 1"
  by (simp_all add: answered_def checkAuth_def)

lemma is_send_local_reply [simp]: "is_send (local_reply q k t msg)"
  by (simp add: local_reply_def)

text \<open>While a buffer is open, a command other than \<open>EXEC\<close> is answered by the session itself.\<close>

lemma handle_while_open:
  assumes "multiCmd s = Some buf" "Name c \<noteq> ''EXEC''"
  shows "\<exists>s' e. handle lib env s tr c = Returned (s', tr @ [e]) \<and> is_send e \<and>
           multiCmd s' \<noteq> None \<and> (multiCmdErr s \<longrightarrow> multiCmdErr s') \<and>
           checkAuth s' = checkAuth s \<and> sessQ s' = sessQ s"
proof (cases "CmdAuthRequired lib c \<and> \<not> checkAuth s")
  case True
  with assms show ?thesis by (simp add: handle_gate)
next
  case False
  then have g: "CmdAuthRequired lib c \<longrightarrow> checkAuth s" by simp
  note h = handle_buffer_open[OF g assms(1)]
  show ?thesis
  proof (cases "Name c = ''MULTI''")
    case True
    with assms h show ?thesis by (simp add: handleMultiCmd_nested)
  next
    case nm: False
    show ?thesis
    proof (cases "CmdFlag lib c = CMD_FLAG_GENERAL lib \<or> CmdFlag lib c = CMD_FLAG_READ lib")
      case True
      from handleMultiCmd_queued[OF nm assms(2,1) True] h show ?thesis
        by (simp add: checkAuth_def)
    next
      case False
      then have "CmdFlag lib c \<noteq> CMD_FLAG_GENERAL lib" "CmdFlag lib c \<noteq> CMD_FLAG_READ lib" by auto
      from handleMultiCmd_rejected[OF nm assms(2) this] h assms(1) show ?thesis
        by (simp add: checkAuth_def)
    qed
  qed
qed

lemma ReadingLoop_while_open:
  assumes "multiCmd s = Some buf" "\<forall>c \<in> set cs. Name c \<noteq> ''EXEC''"
  shows "\<exists>s' evs. ReadingLoop lib env s tr cs = Returned (s', tr @ evs) \<and> list_all is_send evs \<and>
           multiCmd s' \<noteq> None \<and> (multiCmdErr s \<longrightarrow> multiCmdErr s') \<and>
           checkAuth s' = checkAuth s \<and> sessQ s' = sessQ s"
  using assms
proof (induction cs arbitrary: s tr buf)
  case Nil
  then show ?case by simp
next
  case (Cons c cs)
  from Cons.prems have nc: "Name c \<noteq> ''EXEC''" by simp
  from handle_while_open[OF Cons.prems(1) nc, of lib env tr] obtain s1 e where
    h: "handle lib env s tr c = Returned (s1, tr @ [e])" and e: "is_send e"
    and m: "multiCmd s1 \<noteq> None" and er: "multiCmdErr s \<longrightarrow> multiCmdErr s1"
    and a: "checkAuth s1 = checkAuth s" and q: "sessQ s1 = sessQ s"
    by blast
  from m obtain buf1 where b1: "multiCmd s1 = Some buf1" by auto
  from Cons.prems have "\<forall>c \<in> set cs. Name c \<noteq> ''EXEC''" by simp
  from Cons.IH[OF b1 this, of "tr @ [e]"] obtain s2 evs where
    r: "ReadingLoop lib env s1 (tr @ [e]) cs = Returned (s2, (tr @ [e]) @ evs)"
    and es: "list_all is_send evs" and m2: "multiCmd s2 \<noteq> None"
    and er2: "multiCmdErr s1 \<longrightarrow> multiCmdErr s2"
    and a2: "checkAuth s2 = checkAuth s1" and q2: "sessQ s2 = sessQ s1"
    by blast
  have "ReadingLoop lib env s tr (c # cs) = Returned (s2, tr @ (e # evs))"
    using h r by simp
  moreover have "list_all is_send (e # evs)" using e es by simp
  ultimately show ?case using m2 er er2 a a2 q q2 by metis
qed


text \<open>
  Claim C7, as amended. While a transaction buffer is open, a command other than
  \<open>MULTI\<close> and \<open>EXEC\<close> that passes the authentication gate is appended and answered
  \<open>+QUEUED\<close> when its flag is general or read; otherwise it is answered
  \<open>-ERR unknown command\<close> and the transaction is marked bad, and then, whatever
  commands other than \<open>EXEC\<close> come before and after it, the next \<open>EXEC\<close> is answered
  \<open>-EXECABORT Transaction discarded\<close>, the buffer is dropped, and every event from the
  open buffer to that answer is a reply of the session itself: nothing reaches a backend.
\<close>

theorem multi_buffer_rejects_and_aborts:
  assumes buffer: "multiCmd s = Some buf"
    and gate: "CmdAuthRequired lib b \<longrightarrow> checkAuth s" "CmdAuthRequired lib x \<longrightarrow> checkAuth s"
    and b: "Name b \<noteq> ''MULTI''" "Name b \<noteq> ''EXEC''"
    and exec: "Name x = ''EXEC''"
    and others: "\<forall>c \<in> set pre. Name c \<noteq> ''EXEC''" "\<forall>c \<in> set post. Name c \<noteq> ''EXEC''"
  shows
    "(CmdFlag lib b \<noteq> CMD_FLAG_GENERAL lib \<and> CmdFlag lib b \<noteq> CMD_FLAG_READ lib \<longrightarrow>
        handle lib env s tr b =
          Returned (answered (s\<lparr>multiCmdErr := True\<rparr>),
                    tr @ [local_reply (sessQ s) (reqSeq s) T_Error UNKNOWN_CMD_ERR]) \<and>
        (\<exists>s' evs k. ReadingLoop lib env s tr (pre @ [b] @ post @ [x]) =
            Returned (s', tr @ evs @ [local_reply (sessQ s) k T_Error
                                        ''EXECABORT Transaction discarded'']) \<and>
            list_all is_send evs \<and> multiCmd s' = None)) \<and>
     (CmdFlag lib b = CMD_FLAG_GENERAL lib \<or> CmdFlag lib b = CMD_FLAG_READ lib \<longrightarrow>
        handle lib env s tr b =
          Returned (answered (s\<lparr>multiCmd := Some (buf @ [b])\<rparr>),
                    tr @ [local_reply (sessQ s) (reqSeq s) T_SimpleString ''QUEUED'']))"
proof (intro conjI impI)
  assume q: "CmdFlag lib b = CMD_FLAG_GENERAL lib \<or> CmdFlag lib b = CMD_FLAG_READ lib"
  from handleMultiCmd_queued[OF b buffer q] handle_buffer_open[OF gate(1) buffer]
  show "handle lib env s tr b =
          Returned (answered (s\<lparr>multiCmd := Some (buf @ [b])\<rparr>),
                    tr @ [local_reply (sessQ s) (reqSeq s) T_SimpleString ''QUEUED''])"
    by simp
next
  assume n: "CmdFlag lib b \<noteq> CMD_FLAG_GENERAL lib \<and> CmdFlag lib b \<noteq> CMD_FLAG_READ lib"
  then have n1: "CmdFlag lib b \<noteq> CMD_FLAG_GENERAL lib" and n2: "CmdFlag lib b \<noteq> CMD_FLAG_READ lib"
    by simp_all
  from handleMultiCmd_rejected[OF b n1 n2] handle_buffer_open[OF gate(1) buffer]
  show "handle lib env s tr b =
          Returned (answered (s\<lparr>multiCmdErr := True\<rparr>),
                    tr @ [local_reply (sessQ s) (reqSeq s) T_Error UNKNOWN_CMD_ERR])"
    by simp
next
  assume n: "CmdFlag lib b \<noteq> CMD_FLAG_GENERAL lib \<and> CmdFlag lib b \<noteq> CMD_FLAG_READ lib"
  then have n1: "CmdFlag lib b \<noteq> CMD_FLAG_GENERAL lib" and n2: "CmdFlag lib b \<noteq> CMD_FLAG_READ lib"
    by simp_all
  \<comment> \<open>the commands before the rejected one\<close>
  from ReadingLoop_while_open[OF buffer others(1), of lib env tr] obtain s1 ev1 where
    r1: "ReadingLoop lib env s tr pre = Returned (s1, tr @ ev1)" and e1: "list_all is_send ev1"
    and m1: "multiCmd s1 \<noteq> None" and a1: "checkAuth s1 = checkAuth s" and q1: "sessQ s1 = sessQ s"
    by blast
  from m1 obtain buf1 where b1: "multiCmd s1 = Some buf1" by auto
  \<comment> \<open>the rejected command\<close>
  have g1: "CmdAuthRequired lib b \<longrightarrow> checkAuth s1" using gate(1) a1 by simp
  let ?e2 = "local_reply (sessQ s1) (reqSeq s1) T_Error UNKNOWN_CMD_ERR"
  let ?s2 = "answered (s1\<lparr>multiCmdErr := True\<rparr>)"
  have r2: "handle lib env s1 (tr @ ev1) b = Returned (?s2, (tr @ ev1) @ [?e2])"
    using handleMultiCmd_rejected[OF b n1 n2] handle_buffer_open[OF g1 b1] by simp
  have b2: "multiCmd ?s2 = Some buf1" and err2: "multiCmdErr ?s2" using b1 by simp_all
  have a2: "checkAuth ?s2 = checkAuth s" using a1 by (simp add: checkAuth_def)
  have q2: "sessQ ?s2 = sessQ s" using q1 by simp
  \<comment> \<open>the commands after it\<close>
  from ReadingLoop_while_open[OF b2 others(2), of lib env "(tr @ ev1) @ [?e2]"] err2
  obtain s3 ev3 where
    r3: "ReadingLoop lib env ?s2 ((tr @ ev1) @ [?e2]) post = Returned (s3, ((tr @ ev1) @ [?e2]) @ ev3)"
    and e3: "list_all is_send ev3" and m3: "multiCmd s3 \<noteq> None" and err3: "multiCmdErr s3"
    and a3: "checkAuth s3 = checkAuth ?s2" and q3: "sessQ s3 = sessQ ?s2"
    by blast
  from m3 obtain buf3 where b3: "multiCmd s3 = Some buf3" by auto
  \<comment> \<open>EXEC\<close>
  have g3: "CmdAuthRequired lib x \<longrightarrow> checkAuth s3" using gate(2) a3 a2 by simp
  let ?tr3 = "((tr @ ev1) @ [?e2]) @ ev3"
  let ?e4 = "local_reply (sessQ s3) (reqSeq s3) T_Error ''EXECABORT Transaction discarded''"
  let ?s4 = "(answered s3)\<lparr>multiCmdErr := False, multiCmd := None\<rparr>"
  have r4: "handle lib env s3 ?tr3 x = Returned (?s4, ?tr3 @ [?e4])"
    using handleMultiCmd_abort[OF exec b3 err3] handle_buffer_open[OF g3 b3] by simp
  have "ReadingLoop lib env s tr (pre @ [b] @ post @ [x]) = Returned (?s4, ?tr3 @ [?e4])"
    using r1 r2 r3 r4 by (simp add: ReadingLoop_append)
  moreover have "?tr3 @ [?e4] = tr @ (ev1 @ [?e2] @ ev3)
      @ [local_reply (sessQ s) (reqSeq s3) T_Error ''EXECABORT Transaction discarded'']"
    using q3 q2 by simp
  moreover have "list_all is_send (ev1 @ [?e2] @ ev3)" using e1 e3 by simp
  moreover have "multiCmd ?s4 = None" by simp
  ultimately show "\<exists>s' evs k. ReadingLoop lib env s tr (pre @ [b] @ post @ [x]) =
            Returned (s', tr @ evs @ [local_reply (sessQ s) k T_Error
                                        ''EXECABORT Transaction discarded'']) \<and>
            list_all is_send evs \<and> multiCmd s' = None"
    by metis
qed


lemma sample_open_reached:
  "ReadingLoop sample_lib (sample_renv (Inr [])) (sample_session [] 7 0) []
      [[''MULTI''], [''GET'', ''k'']]
     = Returned (sample_open_session,
         [local_reply 7 0 T_SimpleString OK, local_reply 7 1 T_SimpleString ''QUEUED''])"
  by (simp add: handle_def handleMultiCmd_def handleSimpleStringCmd_def sample_lib_def
      sample_session_def sample_open_session_def Name_def checkAuth_def Auth_def
      local_reply_def inc64_def)

lemma sample_authed_reached:
  "ReadingLoop sample_lib (sample_renv (Inr [])) (sample_session ''pw'' 7 0) []
      [[''AUTH'', ''pw''], [''MULTI'']]
     = Returned (sample_authed_session,
         [local_reply 7 0 T_SimpleString OK, local_reply 7 1 T_SimpleString OK])"
  by (simp add: handle_def handleMultiCmd_def handleAuthCmd_def handleSimpleStringCmd_def
      sample_lib_def sample_session_def sample_authed_session_def Name_def checkAuth_def Auth_def
      local_reply_def inc64_def)

theorem multi_buffer_rejects_and_aborts_witness:
  "handle sample_lib (sample_renv (Inr [])) sample_open_session [] [''BOGUS''] =
     Returned (answered (sample_open_session\<lparr>multiCmdErr := True\<rparr>),
               [local_reply 7 2 T_Error UNKNOWN_CMD_ERR]) \<and>
   (\<exists>s' evs k. ReadingLoop sample_lib (sample_renv (Inr [])) sample_open_session []
                  [[''SET'', ''a'', ''1''], [''BOGUS''], [''GET'', ''a''], [''EXEC'']] =
        Returned (s', evs @ [local_reply 7 k T_Error ''EXECABORT Transaction discarded'']) \<and>
        list_all is_send evs \<and> multiCmd s' = None) \<and>
   handle sample_lib (sample_renv (Inr [])) sample_open_session [] [''SET'', ''a'', ''1''] =
     Returned (answered (sample_open_session\<lparr>multiCmd := Some [[''GET'', ''k''], [''SET'', ''a'', ''1'']]\<rparr>),
               [local_reply 7 2 T_SimpleString ''QUEUED''])"
proof -
  have o: "multiCmd sample_open_session = Some [[''GET'', ''k'']]"
    "sessQ sample_open_session = 7" "reqSeq sample_open_session = 2"
    by (simp_all add: sample_open_session_def sample_session_def)
  have c: "checkAuth sample_open_session"
    by (simp add: sample_open_session_def sample_session_def checkAuth_def Auth_def)
  have f: "CmdFlag sample_lib [''BOGUS''] \<noteq> CMD_FLAG_GENERAL sample_lib"
    "CmdFlag sample_lib [''BOGUS''] \<noteq> CMD_FLAG_READ sample_lib"
    "CmdFlag sample_lib [''SET'', ''a'', ''1''] = CMD_FLAG_GENERAL sample_lib"
    by (simp_all add: sample_lib_def Name_def)
  have n: "Name [''BOGUS''] \<noteq> ''MULTI''" "Name [''BOGUS''] \<noteq> ''EXEC''"
    "Name [''SET'', ''a'', ''1''] \<noteq> ''MULTI''" "Name [''SET'', ''a'', ''1''] \<noteq> ''EXEC''"
    "Name [''EXEC''] = ''EXEC''"
    by (simp_all add: Name_def)
  have p: "\<forall>c \<in> set [[''SET'', ''a'', ''1'']]. Name c \<noteq> ''EXEC''"
    "\<forall>c \<in> set [[''GET'', ''a'']]. Name c \<noteq> ''EXEC''" "\<forall>c \<in> set ([]::Command list). Name c \<noteq> ''EXEC''"
    by (simp_all add: Name_def)
  from multi_buffer_rejects_and_aborts[where lib = sample_lib and env = "sample_renv (Inr [])"
      and s = sample_open_session and tr = "[]" and b = "[''BOGUS'']" and x = "[''EXEC'']"
      and pre = "[[''SET'', ''a'', ''1'']]" and post = "[[''GET'', ''a'']]", OF o(1) _ _ n(1,2,5) p(1,2)]
    c f(1,2) o
  have 1: "handle sample_lib (sample_renv (Inr [])) sample_open_session [] [''BOGUS''] =
     Returned (answered (sample_open_session\<lparr>multiCmdErr := True\<rparr>),
               [local_reply 7 2 T_Error UNKNOWN_CMD_ERR])"
    and 2: "\<exists>s' evs k. ReadingLoop sample_lib (sample_renv (Inr [])) sample_open_session []
                  [[''SET'', ''a'', ''1''], [''BOGUS''], [''GET'', ''a''], [''EXEC'']] =
        Returned (s', evs @ [local_reply 7 k T_Error ''EXECABORT Transaction discarded'']) \<and>
        list_all is_send evs \<and> multiCmd s' = None"
    by simp_all
  from multi_buffer_rejects_and_aborts[where lib = sample_lib and env = "sample_renv (Inr [])"
      and s = sample_open_session and tr = "[]" and b = "[''SET'', ''a'', ''1'']" and x = "[''EXEC'']"
      and pre = "[]" and post = "[]", OF o(1) _ _ n(3,4,5) p(3,3)]
    c f(3) o
  have 3: "handle sample_lib (sample_renv (Inr [])) sample_open_session [] [''SET'', ''a'', ''1''] =
     Returned (answered (sample_open_session\<lparr>multiCmd := Some [[''GET'', ''k''], [''SET'', ''a'', ''1'']]\<rparr>),
               [local_reply 7 2 T_SimpleString ''QUEUED''])"
    by simp
  from 1 2 3 show ?thesis by blast
qed

text \<open>
  A nested \<open>MULTI\<close> is a command that is neither general nor read, received while the
  buffer is open. It is answered \<open>-ERR MULTI calls can not be nested\<close>, the transaction
  is not marked bad, and the following \<open>EXEC\<close> runs the buffered commands.
\<close>

theorem nested_MULTI_counterexample:
  "ReadingLoop sample_lib (sample_renv (Inr [])) sample_open_session [] [[''MULTI''], [''EXEC'']] =
     Returned ((answered (answered sample_open_session))\<lparr>multiCmd := None\<rparr>,
       [local_reply 7 2 T_Error ''ERR MULTI calls can not be nested'',
        ExecMulti [[''GET'', ''k'']],
        BackQ 7 \<lparr>ctx = local_request 3, rsp = Some (''*0'' @ CRLF), err = None\<rparr>]) \<and>
   CmdFlag sample_lib [''MULTI''] \<noteq> CMD_FLAG_GENERAL sample_lib \<and>
   CmdFlag sample_lib [''MULTI''] \<noteq> CMD_FLAG_READ sample_lib"
  by (simp add: handle_def handleMultiCmd_def handleErrorCmd_def sample_lib_def sample_renv_def
      sample_session_def sample_open_session_def Name_def checkAuth_def Auth_def
      local_reply_def answered_def inc64_def)


lemma handle_AUTH:
  assumes "Name a = ''AUTH''" "\<not> CmdAuthRequired lib a" "multiCmd s = None"
  shows "handle lib env s tr a = Returned (handleAuthCmd s tr a)"
  using assms by (simp add: handle_def)

lemma handleAuthCmd_match:
  assumes "length a = 2" "a ! 1 = password (valkeyConn s)"
  shows "handleAuthCmd s tr a =
     ((answered s)\<lparr>auth := True\<rparr>, tr @ [local_reply (sessQ s) (reqSeq s) T_SimpleString OK])"
  using assms
  by (simp add: handleAuthCmd_def handleSimpleStringCmd_def Auth_def answered_def local_reply_def)

lemma handleAuthCmd_mismatch:
  assumes "length a = 2" "a ! 1 \<noteq> password (valkeyConn s)"
  shows "handleAuthCmd s tr a =
     (answered s, tr @ [local_reply (sessQ s) (reqSeq s) T_Error AUTH_CMD_ERR])"
  using assms
  by (auto simp: handleAuthCmd_def handleErrorCmd_def Auth_def answered_def local_reply_def)

text \<open>
  Claim C8, as amended. With a password configured and the session not authenticated, a
  command that requires authentication is answered \<open>-NOAUTH Authentication required.\<close>
  by the session itself and nothing else happens (no backend is involved). An
  \<open>AUTH <pw>\<close> outside a transaction is answered \<open>+OK\<close> and marks the session when
  \<open>pw\<close> is the configured password, and is answered \<open>-ERR invalid password\<close> and
  leaves the mark as it was otherwise.
\<close>

theorem auth_gate_and_AUTH:
  "(password (valkeyConn s) \<noteq> [] \<and> \<not> auth s \<and> CmdAuthRequired lib c \<longrightarrow>
      handle lib env s tr c =
        Returned (answered s, tr @ [local_reply (sessQ s) (reqSeq s) T_Error NOAUTH_ERR])) \<and>
   (Name a = ''AUTH'' \<and> length a = 2 \<and> \<not> CmdAuthRequired lib a \<and> multiCmd s = None \<longrightarrow>
      (a ! 1 = password (valkeyConn s) \<longrightarrow>
         handle lib env s tr a =
           Returned ((answered s)\<lparr>auth := True\<rparr>,
                     tr @ [local_reply (sessQ s) (reqSeq s) T_SimpleString OK])) \<and>
      (a ! 1 \<noteq> password (valkeyConn s) \<longrightarrow>
         handle lib env s tr a =
           Returned (answered s, tr @ [local_reply (sessQ s) (reqSeq s) T_Error AUTH_CMD_ERR]) \<and>
         auth (answered s) = auth s))"
proof (intro conjI impI)
  assume "password (valkeyConn s) \<noteq> [] \<and> \<not> auth s \<and> CmdAuthRequired lib c"
  then have "CmdAuthRequired lib c" "\<not> checkAuth s" by (auto simp: checkAuth_def Auth_def)
  then show "handle lib env s tr c =
        Returned (answered s, tr @ [local_reply (sessQ s) (reqSeq s) T_Error NOAUTH_ERR])"
    by (rule handle_gate)
next
  assume a: "Name a = ''AUTH'' \<and> length a = 2 \<and> \<not> CmdAuthRequired lib a \<and> multiCmd s = None"
    and m: "a ! 1 = password (valkeyConn s)"
  from a m show "handle lib env s tr a =
           Returned ((answered s)\<lparr>auth := True\<rparr>,
                     tr @ [local_reply (sessQ s) (reqSeq s) T_SimpleString OK])"
    by (simp add: handle_AUTH handleAuthCmd_match)
next
  assume a: "Name a = ''AUTH'' \<and> length a = 2 \<and> \<not> CmdAuthRequired lib a \<and> multiCmd s = None"
    and m: "a ! 1 \<noteq> password (valkeyConn s)"
  from a m show "handle lib env s tr a =
           Returned (answered s, tr @ [local_reply (sessQ s) (reqSeq s) T_Error AUTH_CMD_ERR])"
    by (simp add: handle_AUTH handleAuthCmd_mismatch)
next
  show "auth (answered s) = auth s" by simp
qed

theorem auth_gate_and_AUTH_witness:
  "handle sample_lib (sample_renv (Inr [])) (sample_session ''pw'' 7 0) [] [''GET'', ''k''] =
     Returned (answered (sample_session ''pw'' 7 0), [local_reply 7 0 T_Error NOAUTH_ERR]) \<and>
   handle sample_lib (sample_renv (Inr [])) (sample_session ''pw'' 7 0) [] [''AUTH'', ''pw''] =
     Returned ((answered (sample_session ''pw'' 7 0))\<lparr>auth := True\<rparr>,
               [local_reply 7 0 T_SimpleString OK]) \<and>
   handle sample_lib (sample_renv (Inr [])) (sample_session ''pw'' 7 0) [] [''AUTH'', ''no''] =
     Returned (answered (sample_session ''pw'' 7 0), [local_reply 7 0 T_Error AUTH_CMD_ERR])"
proof -
  have s: "password (valkeyConn (sample_session ''pw'' 7 0)) = ''pw''"
    "\<not> auth (sample_session ''pw'' 7 0)" "multiCmd (sample_session ''pw'' 7 0) = None"
    "sessQ (sample_session ''pw'' 7 0) = 7" "reqSeq (sample_session ''pw'' 7 0) = 0"
    by (simp_all add: sample_session_def)
  have l: "CmdAuthRequired sample_lib [''GET'', ''k'']" "\<not> CmdAuthRequired sample_lib [''AUTH'', ''pw'']"
    "\<not> CmdAuthRequired sample_lib [''AUTH'', ''no'']"
    "Name [''AUTH'', ''pw''] = ''AUTH''" "Name [''AUTH'', ''no''] = ''AUTH''"
    by (simp_all add: sample_lib_def Name_def)
  from auth_gate_and_AUTH[of "sample_session ''pw'' 7 0" sample_lib "[''GET'', ''k'']"
      "sample_renv (Inr [])" "[]" "[''AUTH'', ''pw'']"] s l
  have 1: "handle sample_lib (sample_renv (Inr [])) (sample_session ''pw'' 7 0) [] [''GET'', ''k''] =
     Returned (answered (sample_session ''pw'' 7 0), [local_reply 7 0 T_Error NOAUTH_ERR])"
    and 2: "handle sample_lib (sample_renv (Inr [])) (sample_session ''pw'' 7 0) [] [''AUTH'', ''pw''] =
     Returned ((answered (sample_session ''pw'' 7 0))\<lparr>auth := True\<rparr>,
               [local_reply 7 0 T_SimpleString OK])"
    by simp_all
  from auth_gate_and_AUTH[of "sample_session ''pw'' 7 0" sample_lib "[''GET'', ''k'']"
      "sample_renv (Inr [])" "[]" "[''AUTH'', ''no'']"] s l
  have 3: "handle sample_lib (sample_renv (Inr [])) (sample_session ''pw'' 7 0) [] [''AUTH'', ''no''] =
     Returned (answered (sample_session ''pw'' 7 0), [local_reply 7 0 T_Error AUTH_CMD_ERR])"
    by simp
  from 1 2 3 show ?thesis by simp
qed

text \<open>
  While a transaction buffer is open, \<open>handle\<close> passes every command to
  \<open>handleMultiCmd\<close>, \<open>AUTH\<close> too: with the right password it is answered like any other
  command of the transaction, not \<open>+OK\<close>.
\<close>

theorem AUTH_in_transaction_counterexample:
  "ReadingLoop sample_lib (sample_renv (Inr [])) (sample_session ''pw'' 7 0) []
      [[''AUTH'', ''pw''], [''MULTI''], [''AUTH'', ''pw'']] =
     Returned (answered (sample_authed_session\<lparr>multiCmdErr := True\<rparr>),
       [local_reply 7 0 T_SimpleString OK, local_reply 7 1 T_SimpleString OK,
        local_reply 7 2 T_Error UNKNOWN_CMD_ERR]) \<and>
   local_reply 7 2 T_Error UNKNOWN_CMD_ERR \<noteq> local_reply 7 2 T_SimpleString OK"
  by (simp add: handle_def handleMultiCmd_def handleAuthCmd_def handleSimpleStringCmd_def
      handleErrorCmd_def sample_lib_def sample_session_def sample_authed_session_def Name_def
      checkAuth_def Auth_def local_reply_def answered_def inc64_def NewObjectFromData_def
      T_Error_def T_SimpleString_def)

lemma handle_EXEC:
  assumes "Name c = ''EXEC''" "CmdAuthRequired lib c \<longrightarrow> checkAuth s"
  shows "handle lib env s tr c = handleMultiCmd lib env s tr c"
  using assms by (auto simp: handle_def)

text \<open>
  Claim C10. \<open>handleMultiCmd\<close> on \<open>EXEC\<close> always returns, and with the buffer nil, in
  each of its four branches: no open transaction, a transaction marked bad, an execution
  that fails, an execution that succeeds. \<open>handle\<close> passes an \<open>EXEC\<close> that is let
  through the authentication gate to \<open>handleMultiCmd\<close>.
\<close>

theorem EXEC_clears_buffer:
  assumes "Name c = ''EXEC''"
  shows "(\<exists>s' tr'. handleMultiCmd lib env s tr c = Returned (s', tr') \<and> multiCmd s' = None) \<and>
    (multiCmd s = None \<longrightarrow>
       handleMultiCmd lib env s tr c =
         Returned ((answered s)\<lparr>multiCmd := None\<rparr>,
                   tr @ [local_reply (sessQ s) (reqSeq s) T_Error ''ERR EXEC without MULTI''])) \<and>
    (multiCmd s = Some buf \<and> multiCmdErr s \<longrightarrow>
       handleMultiCmd lib env s tr c =
         Returned ((answered s)\<lparr>multiCmdErr := False, multiCmd := None\<rparr>,
                   tr @ [local_reply (sessQ s) (reqSeq s) T_Error
                           ''EXECABORT Transaction discarded''])) \<and>
    (multiCmd s = Some buf \<and> \<not> multiCmdErr s \<and> Exec env tr buf = Inl e \<longrightarrow>
       handleMultiCmd lib env s tr c =
         Returned ((answered s)\<lparr>multiCmd := None\<rparr>,
                   tr @ [ExecMulti buf,
                         local_reply (sessQ s) (reqSeq s) T_Error (''ERR EXEC error '' @ e)])) \<and>
    (multiCmd s = Some buf \<and> \<not> multiCmdErr s \<and> Exec env tr buf = Inr data \<longrightarrow>
       handleMultiCmd lib env s tr c =
         Returned ((answered s)\<lparr>multiCmd := None\<rparr>,
                   tr @ [ExecMulti buf,
                         BackQ (sessQ s) \<lparr>ctx = local_request (reqSeq s), rsp = Some data,
                                           err = None\<rparr>])) \<and>
    ((CmdAuthRequired lib c \<longrightarrow> checkAuth s) \<longrightarrow>
       handle lib env s tr c = handleMultiCmd lib env s tr c)"
proof -
  have n: "Name c \<noteq> ''MULTI''" using assms by simp
  have 1: "multiCmd s = None \<longrightarrow>
       handleMultiCmd lib env s tr c =
         Returned ((answered s)\<lparr>multiCmd := None\<rparr>,
                   tr @ [local_reply (sessQ s) (reqSeq s) T_Error ''ERR EXEC without MULTI''])"
    using assms n by (simp add: handleMultiCmd_def handleErrorCmd_def answered_def local_reply_def)
  have 2: "multiCmd s = Some buf \<and> multiCmdErr s \<longrightarrow>
       handleMultiCmd lib env s tr c =
         Returned ((answered s)\<lparr>multiCmdErr := False, multiCmd := None\<rparr>,
                   tr @ [local_reply (sessQ s) (reqSeq s) T_Error
                           ''EXECABORT Transaction discarded''])" for buf
    using assms by (simp add: handleMultiCmd_abort)
  have 3: "multiCmd s = Some buf \<and> \<not> multiCmdErr s \<and> Exec env tr buf = Inl e \<longrightarrow>
       handleMultiCmd lib env s tr c =
         Returned ((answered s)\<lparr>multiCmd := None\<rparr>,
                   tr @ [ExecMulti buf,
                         local_reply (sessQ s) (reqSeq s) T_Error (''ERR EXEC error '' @ e)])" for buf e
    using assms n by (simp add: handleMultiCmd_def handleErrorCmd_def answered_def local_reply_def)
  have 4: "multiCmd s = Some buf \<and> \<not> multiCmdErr s \<and> Exec env tr buf = Inr data \<longrightarrow>
       handleMultiCmd lib env s tr c =
         Returned ((answered s)\<lparr>multiCmd := None\<rparr>,
                   tr @ [ExecMulti buf,
                         BackQ (sessQ s) \<lparr>ctx = local_request (reqSeq s), rsp = Some data,
                                           err = None\<rparr>])" for buf data
    using assms n by (simp add: handleMultiCmd_def answered_def)
  have 0: "\<exists>s' tr'. handleMultiCmd lib env s tr c = Returned (s', tr') \<and> multiCmd s' = None"
  proof (cases "multiCmd s")
    case None
    with 1 show ?thesis by simp
  next
    case (Some b)
    show ?thesis
    proof (cases "multiCmdErr s")
      case True
      with Some 2[of b] show ?thesis by simp
    next
      case False
      show ?thesis
      proof (cases "Exec env tr b")
        case (Inl e)
        with Some False 3[of b e] show ?thesis by simp
      next
        case (Inr d)
        with Some False 4[of b d] show ?thesis by simp
      qed
    qed
  qed
  have 5: "(CmdAuthRequired lib c \<longrightarrow> checkAuth s) \<longrightarrow>
       handle lib env s tr c = handleMultiCmd lib env s tr c"
    using handle_EXEC[OF assms] by blast
  show ?thesis using 0 1 2 3 4 5 by blast
qed

theorem EXEC_clears_buffer_witness:
  "handle sample_lib (sample_renv (Inr [])) sample_open_session [] [''EXEC''] =
     Returned ((answered sample_open_session)\<lparr>multiCmd := None\<rparr>,
       [ExecMulti [[''GET'', ''k'']],
        BackQ 7 \<lparr>ctx = local_request 2, rsp = Some (''*0'' @ CRLF), err = None\<rparr>]) \<and>
   multiCmd ((answered sample_open_session)\<lparr>multiCmd := None\<rparr>) = None \<and>
   handleMultiCmd sample_lib (sample_renv (Inr [])) (sample_session [] 7 0) [] [''EXEC''] =
     Returned ((answered (sample_session [] 7 0))\<lparr>multiCmd := None\<rparr>,
       [local_reply 7 0 T_Error ''ERR EXEC without MULTI''])"
proof -
  have n: "Name [''EXEC''] = ''EXEC''" by (simp add: Name_def)
  have o: "multiCmd sample_open_session = Some [[''GET'', ''k'']]" "\<not> multiCmdErr sample_open_session"
    "sessQ sample_open_session = 7" "reqSeq sample_open_session = 2"
    "checkAuth sample_open_session"
    by (simp_all add: sample_open_session_def sample_session_def checkAuth_def Auth_def)
  have e: "Exec (sample_renv (Inr [])) [] [[''GET'', ''k'']] = Inr (''*0'' @ CRLF)"
    by (simp add: sample_renv_def)
  have f: "multiCmd (sample_session [] 7 0) = None" "sessQ (sample_session [] 7 0) = 7"
    "reqSeq (sample_session [] 7 0) = 0"
    by (simp_all add: sample_session_def)
  from EXEC_clears_buffer[OF n, of sample_lib "sample_renv (Inr [])" sample_open_session "[]"
      "[[''GET'', ''k'']]" _ "''*0'' @ CRLF"] o e
  have 1: "handle sample_lib (sample_renv (Inr [])) sample_open_session [] [''EXEC''] =
     Returned ((answered sample_open_session)\<lparr>multiCmd := None\<rparr>,
       [ExecMulti [[''GET'', ''k'']],
        BackQ 7 \<lparr>ctx = local_request 2, rsp = Some (''*0'' @ CRLF), err = None\<rparr>])"
    by simp
  from EXEC_clears_buffer[OF n, of sample_lib "sample_renv (Inr [])" "sample_session [] 7 0" "[]"] f
  have 2: "handleMultiCmd sample_lib (sample_renv (Inr [])) (sample_session [] 7 0) [] [''EXEC''] =
     Returned ((answered (sample_session [] 7 0))\<lparr>multiCmd := None\<rparr>,
       [local_reply 7 0 T_Error ''ERR EXEC without MULTI''])"
    by simp
  from 1 2 show ?thesis by simp
qed


section \<open>Properties of a backend failure\<close>

text \<open>
  A failing \<open>Request\<close>: every request in flight, the failing one last, gets an error
  response on its channel, the FIFO is left empty, one reconnect is tried (with a sleep of
  100 ms when it fails), and the caller gets an error, not a response: nothing is sent
  to the backend again.
\<close>

lemma cleanup_loop_delivers:
  "\<forall>r \<in> set reqs. backQ r \<noteq> None \<Longrightarrow>
     cleanup_loop reqs tr e = Returned (tr @ deliveries e reqs)"
  by (induction reqs arbitrary: tr) (auto simp: deliveries_def error_response_def)

lemma tryRecover_result:
  assumes "\<forall>r \<in> set (inflight b). backQ r \<noteq> None"
  shows "tryRecover env b tr e =
     (case backend_dial env (tr @ deliveries e (inflight b)) (server b) of
        Some e' \<Rightarrow> Returned (b\<lparr>inflight := []\<rparr>,
                     tr @ deliveries e (inflight b) @ [BackendDial (server b), Sleep 100], Some e')
      | None \<Rightarrow> Returned (b\<lparr>inflight := [], connected := True\<rparr>,
                     tr @ deliveries e (inflight b) @ [BackendDial (server b)], None))"
  using assms
  by (simp add: tryRecover_def cleanupInflight_def cleanup_loop_delivers and_then_def
      split: option.splits)

lemma Request_failure:
  assumes q: "\<forall>r \<in> set (inflight b @ [req]). backQ r \<noteq> None"
    and c: "cmd req = Some c"
    and io: "io_error env b tr c = Some (e, pre)"
  shows "Request env b tr req =
     (case backend_dial env (tr @ pre @ deliveries e (inflight b @ [req])) (server b) of
        Some e' \<Rightarrow>
          Returned (b\<lparr>inflight := []\<rparr>,
                    tr @ pre @ deliveries e (inflight b @ [req]) @ [BackendDial (server b), Sleep 100],
                    Inl e')
      | None \<Rightarrow>
          Returned (b\<lparr>inflight := [], connected := True\<rparr>,
                    tr @ pre @ deliveries e (inflight b @ [req]) @ [BackendDial (server b)],
                    Inl e))"
proof -
  let ?b1 = "b\<lparr>inflight := inflight b @ [req]\<rparr>"
  have q1: "\<forall>r \<in> set (inflight ?b1). backQ r \<noteq> None" using q by simp
  have r: "recover_and_fail env ?b1 t e =
      (case backend_dial env (t @ deliveries e (inflight b @ [req])) (server b) of
        Some e' \<Rightarrow>
          Returned (b\<lparr>inflight := []\<rparr>,
                    t @ deliveries e (inflight b @ [req]) @ [BackendDial (server b), Sleep 100],
                    Inl e')
      | None \<Rightarrow>
          Returned (b\<lparr>inflight := [], connected := True\<rparr>,
                    t @ deliveries e (inflight b @ [req]) @ [BackendDial (server b)],
                    Inl e))" for t
    using tryRecover_result[OF q1, of env t e]
    by (simp add: recover_and_fail_def and_then_def split: option.splits)
  show ?thesis
    using io c r
    by (auto simp: Request_def writeToBackend_def io_error_def and_then_def Let_def
        split: if_splits option.splits sum.splits)
qed


lemma Request_success:
  assumes "cmd req = Some c" "io_error env b tr c = None"
  shows "\<exists>obj. backend_read env (tr @ [BackendWrite (server b) c, BackendFlush (server b)]) = Inr obj \<and>
     Request env b tr req =
       Returned (b\<lparr>inflight := tl (inflight b @ [req])\<rparr>,
                 tr @ [BackendWrite (server b) c, BackendFlush (server b), BackendRead (server b)],
                 Inr \<lparr>ctx = hd (inflight b @ [req]), rsp = Some obj, err = None\<rparr>)"
  using assms
  by (cases "inflight b")
     (auto simp: Request_def writeToBackend_def io_error_def and_then_def Let_def
        split: if_splits option.splits sum.splits)

text \<open>
  \<open>Schedule\<close> on a failing backend: after the error responses of \<open>cleanupInflight\<close> and
  the reconnect, it queues an \<open>-ERR\<close> reply under a new sequence number.
\<close>

lemma Schedule_failure:
  assumes g: "pool_Get env tr srv = Inr b"
    and srv: "srv = (if readOnly req then ReadServer env tr (slot req) else WriteServer env tr (slot req))"
    and q: "\<forall>r \<in> set (inflight b @ [req]). backQ r \<noteq> None"
    and c: "cmd req = Some c"
    and io: "io_error env b (tr @ [PoolGet srv]) c = Some (e, pre)"
  shows "\<exists>e' rest. Schedule env s tr req =
     Returned (answered s,
       tr @ [PoolGet srv] @ pre @ deliveries e (inflight b @ [req]) @ BackendDial (server b) # rest
          @ [local_reply (sessQ s) (reqSeq s) T_Error (''ERR '' @ e'), PoolPut srv]) \<and>
     (rest = [] \<or> rest = [Sleep 100])"
proof (cases "backend_dial env ((tr @ [PoolGet srv]) @ pre @ deliveries e (inflight b @ [req])) (server b)")
  case None
  with Request_failure[OF q c io] g srv
  have "Schedule env s tr req =
     Returned (answered s,
       tr @ [PoolGet srv] @ pre @ deliveries e (inflight b @ [req]) @ BackendDial (server b) # []
          @ [local_reply (sessQ s) (reqSeq s) T_Error (''ERR '' @ e), PoolPut srv])"
    by (simp add: Schedule_def Let_def handleErrorCmd_def answered_def local_reply_def)
  then show ?thesis by blast
next
  case (Some e')
  with Request_failure[OF q c io] g srv
  have "Schedule env s tr req =
     Returned (answered s,
       tr @ [PoolGet srv] @ pre @ deliveries e (inflight b @ [req]) @ BackendDial (server b) # [Sleep 100]
          @ [local_reply (sessQ s) (reqSeq s) T_Error (''ERR '' @ e'), PoolPut srv])"
    by (simp add: Schedule_def Let_def handleErrorCmd_def answered_def local_reply_def)
  then show ?thesis by blast
qed

lemma handleResp_backend_error:
  assumes "err plRsp = Some e" "seq (ctx plRsp) = rspSeq s" "0 < reqWg s"
  shows "handleResp env s tr plRsp = (mark_done s plRsp, tr @ [TriggerReload], Failed e)"
  using assms by (simp add: handleResp_def resolve_def)

lemma mark_done_closed [simp]: "closed (mark_done s r) = closed s"
  by (simp add: mark_done_def)

lemma handleResp_closed:
  assumes "handleResp env s tr r = (s', tr', st)" "closed s"
  shows "closed s' \<and> client_seqs tr' = client_seqs tr"
  using assms
  by (auto simp: handleResp_def split: if_splits outcome.splits option.splits
      dest: resolve_client_seqs)

lemma drain_closed:
  assumes "drain env s tr = (s', tr', st)" "closed s"
  shows "closed s' \<and> client_seqs tr' = client_seqs tr"
  using assms
proof (induction env s tr arbitrary: s' tr' st rule: drain.induct)
  case (1 env s tr)
  show ?case
  proof (cases "heap_Top (rspHeap s)")
    case None
    with "1.prems" show ?thesis by (subst (asm) drain.simps) simp
  next
    case (Some r)
    show ?thesis
    proof (cases "seq (ctx r) \<noteq> rspSeq s")
      case True
      with Some "1.prems" show ?thesis by (subst (asm) drain.simps) simp
    next
      case False
      obtain s1 tr1 st1 where h: "handleResp env (s\<lparr>rspHeap := heap_Pop (rspHeap s)\<rparr>) tr r = (s1, tr1, st1)"
        by (metis prod_cases3)
      have "closed (s\<lparr>rspHeap := heap_Pop (rspHeap s)\<rparr>)" using "1.prems"(2) by simp
      from handleResp_closed[OF h this] have c1: "closed s1" "client_seqs tr1 = client_seqs tr"
        by simp_all
      show ?thesis
      proof (cases st1)
        case NoError
        with "1.prems"(1) Some False h have d: "drain env s1 tr1 = (s', tr', st)"
          by (subst (asm) drain.simps) simp
        from "1.IH"[OF Some _ _ _ _ d c1(1)] False h NoError c1 show ?thesis by simp
      next
        case (Failed e)
        with "1.prems"(1) Some False h have "s' = s1" "tr' = tr1"
          by (subst (asm) drain.simps; simp)+
        with c1 show ?thesis by simp
      next
        case (Aborted m)
        with "1.prems"(1) Some False h have "s' = s1" "tr' = tr1"
          by (subst (asm) drain.simps; simp)+
        with c1 show ?thesis by simp
      qed
    qed
  qed
qed

lemma handleRespPipeline_closed:
  assumes "handleRespPipeline env s tr r = (s', tr', st)" "closed s"
  shows "closed s' \<and> client_seqs tr' = client_seqs tr"
proof (cases "seq (ctx r) \<noteq> rspSeq s")
  case True
  with assms show ?thesis by (auto simp: handleRespPipeline_def)
next
  case False
  obtain s1 tr1 st1 where h: "handleResp env s tr r = (s1, tr1, st1)" by (metis prod_cases3)
  from handleResp_closed[OF h assms(2)] have c1: "closed s1" "client_seqs tr1 = client_seqs tr"
    by simp_all
  show ?thesis
  proof (cases st1)
    case NoError
    with False h assms(1) have "drain env s1 tr1 = (s', tr', st)" by (simp add: handleRespPipeline_def)
    from drain_closed[OF this c1(1)] c1 show ?thesis by simp
  next
    case (Failed e)
    with False h assms(1) c1 show ?thesis by (auto simp: handleRespPipeline_def)
  next
    case (Aborted m)
    with False h assms(1) c1 show ?thesis by (auto simp: handleRespPipeline_def)
  qed
qed

lemma WritingLoop_closed:
  assumes "WritingLoop env s tr rs = (s', tr', st)" "closed s"
  shows "closed s' \<and> client_seqs tr' = client_seqs tr"
  using assms
proof (induction rs arbitrary: s tr)
  case Nil
  then show ?case by (auto simp: Close_def)
next
  case (Cons r rs)
  obtain s1 tr1 st1 where h: "handleRespPipeline env s tr r = (s1, tr1, st1)" by (metis prod_cases3)
  from handleRespPipeline_closed[OF h Cons.prems(2)]
  have c1: "closed s1" "client_seqs tr1 = client_seqs tr" by simp_all
  show ?case
  proof (cases st1)
    case NoError
    with h Cons.prems(1) have "WritingLoop env s1 tr1 rs = (s', tr', st)" by simp
    from Cons.IH[OF this c1(1)] c1 show ?thesis by simp
  next
    case (Failed e)
    with h Cons.prems(1) c1 have "WritingLoop env s1 tr1 rs = (s', tr', st)" by (simp add: Close_def)
    from Cons.IH[OF this c1(1)] c1 show ?thesis by simp
  next
    case (Aborted m)
    with h Cons.prems(1) c1 show ?thesis by simp
  qed
qed

text \<open>
  Claim C3 (code defect). The error response of a failed request never reaches the client
  as \<open>-ERR <msg>\<close>. When the writer handles a response that carries an error it
  triggers a slot reload and builds the error object, but \<open>plRsp.err\<close> is still set, so
  \<open>handleResp\<close> returns the error before \<open>writeResp\<close>; \<open>WritingLoop\<close> then closes the
  session, and a closed session writes nothing any more, also not the \<open>-ERR\<close> reply that
  \<open>Schedule\<close> queued behind the error response.
\<close>

theorem backend_error_closes_session:
  assumes "err plRsp = Some e" "seq (ctx plRsp) = rspSeq s" "0 < reqWg s"
  shows "handleResp env s tr plRsp = (mark_done s plRsp, tr @ [TriggerReload], Failed e) \<and>
         closed (fst (WritingLoop env s tr (plRsp # rest))) \<and>
         client_seqs (fst (snd (WritingLoop env s tr (plRsp # rest)))) = client_seqs tr"
proof -
  note h = handleResp_backend_error[OF assms, of env tr]
  obtain s1 tr1 where c: "Close (mark_done s plRsp) (tr @ [TriggerReload]) = (s1, tr1)"
    by (cases "Close (mark_done s plRsp) (tr @ [TriggerReload])")
  then have c1: "closed s1" "client_seqs tr1 = client_seqs tr"
    by (auto simp: Close_def split: if_splits)
  have w: "WritingLoop env s tr (plRsp # rest) = WritingLoop env s1 tr1 rest"
    using h c assms(2) by (simp add: handleRespPipeline_def)
  obtain s' tr' st where r: "WritingLoop env s1 tr1 rest = (s', tr', st)" by (metis prod_cases3)
  from WritingLoop_closed[OF r c1(1)] c1 w r h show ?thesis by simp
qed


lemma sample_failure_read:
  "ReadingLoop sample_lib (sample_renv (Inl ''EOF'')) (sample_session [] 7 0) [] [[''GET'', ''k'']]
     = Returned (answered (answered (sample_session [] 7 0)), sample_failure_events)"
  by (simp add: handle_def handleGeneralCmd_def Schedule_def Request_def writeToBackend_def
      recover_and_fail_def tryRecover_def cleanupInflight_def handleErrorCmd_def
      sample_lib_def sample_renv_def sample_session_def sample_failure_events_def
      sample_failed_request_def error_response_def local_reply_def answered_def
      Name_def checkAuth_def Auth_def inc64_def and_then_def Let_def)

lemma sample_failure_sent:
  "sent_on 7 sample_failure_events =
     [error_response ''EOF'' sample_failed_request,
      \<lparr>ctx = local_request 1, rsp = Some (NewObjectFromData T_Error ''ERR EOF''), err = None\<rparr>]"
  by (simp add: sample_failure_events_def local_reply_def)

lemma sample_failure_written:
  "fst (snd (WritingLoop (sample_env []) (answered (answered (sample_session [] 7 0))) []
       [error_response ''EOF'' sample_failed_request,
        \<lparr>ctx = local_request 1, rsp = Some (NewObjectFromData T_Error ''ERR EOF''), err = None\<rparr>]))
     = [TriggerReload, ClientClose]"
  by code_simp

theorem backend_error_closes_session_witness:
  "ReadingLoop sample_lib (sample_renv (Inl ''EOF'')) (sample_session [] 7 0) [] [[''GET'', ''k'']]
     = Returned (answered (answered (sample_session [] 7 0)), sample_failure_events) \<and>
   fst (snd (WritingLoop (sample_env []) (answered (answered (sample_session [] 7 0))) []
       (sent_on 7 sample_failure_events))) = [TriggerReload, ClientClose] \<and>
   closed (fst (WritingLoop (sample_env []) (answered (answered (sample_session [] 7 0))) []
       (sent_on 7 sample_failure_events))) \<and>
   client_seqs (fst (snd (WritingLoop (sample_env []) (answered (answered (sample_session [] 7 0))) []
       (sent_on 7 sample_failure_events)))) = []"
proof -
  have e: "err (error_response ''EOF'' sample_failed_request) = Some ''EOF''"
    and q: "seq (ctx (error_response ''EOF'' sample_failed_request))
              = rspSeq (answered (answered (sample_session [] 7 0)))"
    and w: "0 < reqWg (answered (answered (sample_session [] 7 0)))"
    by (simp_all add: error_response_def sample_failed_request_def answered_def sample_session_def)
  from backend_error_closes_session[OF e q w, of "sample_env []" "[]"
      "[\<lparr>ctx = local_request 1, rsp = Some (NewObjectFromData T_Error ''ERR EOF''), err = None\<rparr>]"]
  show ?thesis
    using sample_failure_read sample_failure_written by (simp add: sample_failure_sent)
qed


end
